theory Spec2Isabelle
  imports Main
begin

section \<open>Python strings\<close>

text \<open>
  A Python \<open>str\<close> is a sequence of Unicode code points, and \<open>len\<close>, indexing and the
  character predicates work on code points. A string is therefore a list of code points,
  each a natural number.
\<close>

type_synonym codepoint = nat
type_synonym str = "codepoint list"

definition ascii :: "string \<Rightarrow> str" where
  "ascii s = map of_char s"

subsection \<open>The Unicode character database\<close>

text \<open>
  The character predicates and the case conversions of \<open>str\<close>, and the classes \<open>\w\<close> and
  \<open>\d\<close> of \<open>re\<close>, read the Unicode character database of the interpreter (version
  14.0.0, the one of CPython 3.11). Below U+0080 they are decided by comparisons. From
  U+0080 on they are looked up in the tables of this section, which hold every code point
  up to U+10FFFF that has the property. A table is a search tree on code points. A table
  of ranges has the first code point of a range as its key and the last one as its value.
\<close>

datatype 'a table = Tip | Fork "'a table" codepoint 'a "'a table"

fun lookup :: "'a table \<Rightarrow> codepoint \<Rightarrow> 'a option" where
  "lookup Tip c = None"
| "lookup (Fork l k v r) c =
     (if c < k then lookup l c else if k < c then lookup r c else Some v)"

text \<open>The first code point of the range that holds \<open>c\<close>, if there is one.\<close>

fun range_start :: "codepoint table \<Rightarrow> codepoint \<Rightarrow> codepoint option" where
  "range_start Tip c = None"
| "range_start (Fork l lo hi r) c =
     (if c < lo then range_start l c else if hi < c then range_start r c else Some lo)"

definition in_ranges :: "codepoint table \<Rightarrow> codepoint \<Rightarrow> bool" where
  "in_ranges t c = (range_start t c \<noteq> None)"

text \<open>A property of every entry of a table.\<close>

fun all_entries :: "(codepoint \<Rightarrow> 'a \<Rightarrow> bool) \<Rightarrow> 'a table \<Rightarrow> bool" where
  "all_entries P Tip = True"
| "all_entries P (Fork l k v r) = (P k v \<and> all_entries P l \<and> all_entries P r)"

text \<open>
  The tables, in this order: the code points from U+0080 on of which \<open>str.isdigit\<close> is
  true; those of which \<open>str.isdecimal\<close> is true, which \<open>\d\<close> matches (each range is a run
  of the ten digits of one script, from zero to nine); those that \<open>\w\<close> matches; the cased
  ones and the case-ignorable ones, which decide the lower case of the capital sigma; the
  lower case and the title case of every code point from U+0080 on that differs from its
  lower case, or from its title case.
\<close>

definition DIGIT_RANGES :: "codepoint table" where
  "DIGIT_RANGES =
     (Fork (Fork (Fork (Fork (Fork (Fork (Fork Tip 0xB2 0xB3 Tip) 0xB9 0xB9 Tip) 0x660 0x669
     (Fork (Fork Tip 0x6F0 0x6F9 Tip) 0x7C0 0x7C9 Tip)) 0x966 0x96F (Fork (Fork (Fork Tip 0x9E6
     0x9EF Tip) 0xA66 0xA6F Tip) 0xAE6 0xAEF (Fork Tip 0xB66 0xB6F Tip))) 0xBE6 0xBEF (Fork
     (Fork (Fork (Fork Tip 0xC66 0xC6F Tip) 0xCE6 0xCEF Tip) 0xD66 0xD6F (Fork Tip 0xDE6 0xDEF
     Tip)) 0xE50 0xE59 (Fork (Fork (Fork Tip 0xED0 0xED9 Tip) 0xF20 0xF29 Tip) 0x1040 0x1049
     (Fork Tip 0x1090 0x1099 Tip)))) 0x1369 0x1371 (Fork (Fork (Fork (Fork (Fork Tip 0x17E0
     0x17E9 Tip) 0x1810 0x1819 Tip) 0x1946 0x194F (Fork Tip 0x19D0 0x19DA Tip)) 0x1A80 0x1A89
     (Fork (Fork (Fork Tip 0x1A90 0x1A99 Tip) 0x1B50 0x1B59 Tip) 0x1BB0 0x1BB9 (Fork Tip 0x1C40
     0x1C49 Tip))) 0x1C50 0x1C59 (Fork (Fork (Fork (Fork Tip 0x2070 0x2070 Tip) 0x2074 0x2079
     Tip) 0x2080 0x2089 (Fork Tip 0x2460 0x2468 Tip)) 0x2474 0x247C (Fork (Fork (Fork Tip
     0x2488 0x2490 Tip) 0x24EA 0x24EA Tip) 0x24F5 0x24FD (Fork Tip 0x24FF 0x24FF Tip)))))
     0x2776 0x277E (Fork (Fork (Fork (Fork (Fork (Fork Tip 0x2780 0x2788 Tip) 0x278A 0x2792
     Tip) 0xA620 0xA629 (Fork Tip 0xA8D0 0xA8D9 Tip)) 0xA900 0xA909 (Fork (Fork (Fork Tip
     0xA9D0 0xA9D9 Tip) 0xA9F0 0xA9F9 Tip) 0xAA50 0xAA59 (Fork Tip 0xABF0 0xABF9 Tip))) 0xFF10
     0xFF19 (Fork (Fork (Fork (Fork Tip 0x104A0 0x104A9 Tip) 0x10A40 0x10A43 Tip) 0x10D30
     0x10D39 (Fork Tip 0x10E60 0x10E68 Tip)) 0x11052 0x1105A (Fork (Fork (Fork Tip 0x11066
     0x1106F Tip) 0x110F0 0x110F9 Tip) 0x11136 0x1113F (Fork Tip 0x111D0 0x111D9 Tip))))
     0x112F0 0x112F9 (Fork (Fork (Fork (Fork (Fork Tip 0x11450 0x11459 Tip) 0x114D0 0x114D9
     Tip) 0x11650 0x11659 (Fork Tip 0x116C0 0x116C9 Tip)) 0x11730 0x11739 (Fork (Fork (Fork Tip
     0x118E0 0x118E9 Tip) 0x11950 0x11959 Tip) 0x11C50 0x11C59 (Fork Tip 0x11D50 0x11D59 Tip)))
     0x11DA0 0x11DA9 (Fork (Fork (Fork (Fork Tip 0x16A60 0x16A69 Tip) 0x16AC0 0x16AC9 Tip)
     0x16B50 0x16B59 (Fork Tip 0x1D7CE 0x1D7FF Tip)) 0x1E140 0x1E149 (Fork (Fork (Fork Tip
     0x1E2F0 0x1E2F9 Tip) 0x1E950 0x1E959 Tip) 0x1F100 0x1F10A (Fork Tip 0x1FBF0 0x1FBF9
     Tip))))))"

definition DECIMAL_RANGES :: "codepoint table" where
  "DECIMAL_RANGES =
     (Fork (Fork (Fork (Fork (Fork (Fork Tip 0x660 0x669 Tip) 0x6F0 0x6F9 (Fork Tip 0x7C0 0x7C9
     Tip)) 0x966 0x96F (Fork (Fork Tip 0x9E6 0x9EF Tip) 0xA66 0xA6F (Fork Tip 0xAE6 0xAEF
     Tip))) 0xB66 0xB6F (Fork (Fork (Fork Tip 0xBE6 0xBEF Tip) 0xC66 0xC6F (Fork Tip 0xCE6
     0xCEF Tip)) 0xD66 0xD6F (Fork (Fork Tip 0xDE6 0xDEF Tip) 0xE50 0xE59 (Fork Tip 0xED0 0xED9
     Tip)))) 0xF20 0xF29 (Fork (Fork (Fork (Fork Tip 0x1040 0x1049 Tip) 0x1090 0x1099 (Fork Tip
     0x17E0 0x17E9 Tip)) 0x1810 0x1819 (Fork (Fork Tip 0x1946 0x194F Tip) 0x19D0 0x19D9 (Fork
     Tip 0x1A80 0x1A89 Tip))) 0x1A90 0x1A99 (Fork (Fork (Fork Tip 0x1B50 0x1B59 Tip) 0x1BB0
     0x1BB9 (Fork Tip 0x1C40 0x1C49 Tip)) 0x1C50 0x1C59 (Fork (Fork Tip 0xA620 0xA629 Tip)
     0xA8D0 0xA8D9 Tip)))) 0xA900 0xA909 (Fork (Fork (Fork (Fork (Fork Tip 0xA9D0 0xA9D9 Tip)
     0xA9F0 0xA9F9 (Fork Tip 0xAA50 0xAA59 Tip)) 0xABF0 0xABF9 (Fork (Fork Tip 0xFF10 0xFF19
     Tip) 0x104A0 0x104A9 (Fork Tip 0x10D30 0x10D39 Tip))) 0x11066 0x1106F (Fork (Fork (Fork
     Tip 0x110F0 0x110F9 Tip) 0x11136 0x1113F (Fork Tip 0x111D0 0x111D9 Tip)) 0x112F0 0x112F9
     (Fork (Fork Tip 0x11450 0x11459 Tip) 0x114D0 0x114D9 (Fork Tip 0x11650 0x11659 Tip))))
     0x116C0 0x116C9 (Fork (Fork (Fork (Fork Tip 0x11730 0x11739 Tip) 0x118E0 0x118E9 (Fork Tip
     0x11950 0x11959 Tip)) 0x11C50 0x11C59 (Fork (Fork Tip 0x11D50 0x11D59 Tip) 0x11DA0 0x11DA9
     (Fork Tip 0x16A60 0x16A69 Tip))) 0x16AC0 0x16AC9 (Fork (Fork (Fork Tip 0x16B50 0x16B59
     Tip) 0x1D7CE 0x1D7FF (Fork Tip 0x1E140 0x1E149 Tip)) 0x1E2F0 0x1E2F9 (Fork (Fork Tip
     0x1E950 0x1E959 Tip) 0x1FBF0 0x1FBF9 Tip)))))"

definition WORD_RANGES :: "codepoint table" where
  "WORD_RANGES =
     (Fork (Fork (Fork (Fork (Fork (Fork (Fork (Fork (Fork (Fork Tip 0xAA 0xAA Tip) 0xB2 0xB3
     Tip) 0xB5 0xB5 (Fork (Fork Tip 0xB9 0xBA Tip) 0xBC 0xBE Tip)) 0xC0 0xD6 (Fork (Fork (Fork
     Tip 0xD8 0xF6 Tip) 0xF8 0x2C1 Tip) 0x2C6 0x2D1 (Fork (Fork Tip 0x2E0 0x2E4 Tip) 0x2EC
     0x2EC Tip))) 0x2EE 0x2EE (Fork (Fork (Fork (Fork Tip 0x370 0x374 Tip) 0x376 0x377 Tip)
     0x37A 0x37D (Fork (Fork Tip 0x37F 0x37F Tip) 0x386 0x386 Tip)) 0x388 0x38A (Fork (Fork
     (Fork Tip 0x38C 0x38C Tip) 0x38E 0x3A1 Tip) 0x3A3 0x3F5 (Fork Tip 0x3F7 0x481 Tip))))
     0x48A 0x52F (Fork (Fork (Fork (Fork (Fork Tip 0x531 0x556 Tip) 0x559 0x559 Tip) 0x560
     0x588 (Fork (Fork Tip 0x5D0 0x5EA Tip) 0x5EF 0x5F2 Tip)) 0x620 0x64A (Fork (Fork (Fork Tip
     0x660 0x669 Tip) 0x66E 0x66F Tip) 0x671 0x6D3 (Fork (Fork Tip 0x6D5 0x6D5 Tip) 0x6E5 0x6E6
     Tip))) 0x6EE 0x6FC (Fork (Fork (Fork (Fork Tip 0x6FF 0x6FF Tip) 0x710 0x710 Tip) 0x712
     0x72F (Fork (Fork Tip 0x74D 0x7A5 Tip) 0x7B1 0x7B1 Tip)) 0x7C0 0x7EA (Fork (Fork (Fork Tip
     0x7F4 0x7F5 Tip) 0x7FA 0x7FA Tip) 0x800 0x815 (Fork Tip 0x81A 0x81A Tip))))) 0x824 0x824
     (Fork (Fork (Fork (Fork (Fork (Fork Tip 0x828 0x828 Tip) 0x840 0x858 Tip) 0x860 0x86A
     (Fork (Fork Tip 0x870 0x887 Tip) 0x889 0x88E Tip)) 0x8A0 0x8C9 (Fork (Fork (Fork Tip 0x904
     0x939 Tip) 0x93D 0x93D Tip) 0x950 0x950 (Fork (Fork Tip 0x958 0x961 Tip) 0x966 0x96F
     Tip))) 0x971 0x980 (Fork (Fork (Fork (Fork Tip 0x985 0x98C Tip) 0x98F 0x990 Tip) 0x993
     0x9A8 (Fork (Fork Tip 0x9AA 0x9B0 Tip) 0x9B2 0x9B2 Tip)) 0x9B6 0x9B9 (Fork (Fork (Fork Tip
     0x9BD 0x9BD Tip) 0x9CE 0x9CE Tip) 0x9DC 0x9DD (Fork Tip 0x9DF 0x9E1 Tip)))) 0x9E6 0x9F1
     (Fork (Fork (Fork (Fork (Fork Tip 0x9F4 0x9F9 Tip) 0x9FC 0x9FC Tip) 0xA05 0xA0A (Fork
     (Fork Tip 0xA0F 0xA10 Tip) 0xA13 0xA28 Tip)) 0xA2A 0xA30 (Fork (Fork (Fork Tip 0xA32 0xA33
     Tip) 0xA35 0xA36 Tip) 0xA38 0xA39 (Fork (Fork Tip 0xA59 0xA5C Tip) 0xA5E 0xA5E Tip)))
     0xA66 0xA6F (Fork (Fork (Fork (Fork Tip 0xA72 0xA74 Tip) 0xA85 0xA8D Tip) 0xA8F 0xA91
     (Fork (Fork Tip 0xA93 0xAA8 Tip) 0xAAA 0xAB0 Tip)) 0xAB2 0xAB3 (Fork (Fork (Fork Tip 0xAB5
     0xAB9 Tip) 0xABD 0xABD Tip) 0xAD0 0xAD0 (Fork Tip 0xAE0 0xAE1 Tip)))))) 0xAE6 0xAEF (Fork
     (Fork (Fork (Fork (Fork (Fork (Fork Tip 0xAF9 0xAF9 Tip) 0xB05 0xB0C Tip) 0xB0F 0xB10
     (Fork (Fork Tip 0xB13 0xB28 Tip) 0xB2A 0xB30 Tip)) 0xB32 0xB33 (Fork (Fork (Fork Tip 0xB35
     0xB39 Tip) 0xB3D 0xB3D Tip) 0xB5C 0xB5D (Fork (Fork Tip 0xB5F 0xB61 Tip) 0xB66 0xB6F
     Tip))) 0xB71 0xB77 (Fork (Fork (Fork (Fork Tip 0xB83 0xB83 Tip) 0xB85 0xB8A Tip) 0xB8E
     0xB90 (Fork (Fork Tip 0xB92 0xB95 Tip) 0xB99 0xB9A Tip)) 0xB9C 0xB9C (Fork (Fork (Fork Tip
     0xB9E 0xB9F Tip) 0xBA3 0xBA4 Tip) 0xBA8 0xBAA (Fork Tip 0xBAE 0xBB9 Tip)))) 0xBD0 0xBD0
     (Fork (Fork (Fork (Fork (Fork Tip 0xBE6 0xBF2 Tip) 0xC05 0xC0C Tip) 0xC0E 0xC10 (Fork
     (Fork Tip 0xC12 0xC28 Tip) 0xC2A 0xC39 Tip)) 0xC3D 0xC3D (Fork (Fork (Fork Tip 0xC58 0xC5A
     Tip) 0xC5D 0xC5D Tip) 0xC60 0xC61 (Fork (Fork Tip 0xC66 0xC6F Tip) 0xC78 0xC7E Tip)))
     0xC80 0xC80 (Fork (Fork (Fork (Fork Tip 0xC85 0xC8C Tip) 0xC8E 0xC90 Tip) 0xC92 0xCA8
     (Fork (Fork Tip 0xCAA 0xCB3 Tip) 0xCB5 0xCB9 Tip)) 0xCBD 0xCBD (Fork (Fork (Fork Tip 0xCDD
     0xCDE Tip) 0xCE0 0xCE1 Tip) 0xCE6 0xCEF (Fork Tip 0xCF1 0xCF2 Tip))))) 0xD04 0xD0C (Fork
     (Fork (Fork (Fork (Fork (Fork Tip 0xD0E 0xD10 Tip) 0xD12 0xD3A Tip) 0xD3D 0xD3D (Fork
     (Fork Tip 0xD4E 0xD4E Tip) 0xD54 0xD56 Tip)) 0xD58 0xD61 (Fork (Fork (Fork Tip 0xD66 0xD78
     Tip) 0xD7A 0xD7F Tip) 0xD85 0xD96 (Fork (Fork Tip 0xD9A 0xDB1 Tip) 0xDB3 0xDBB Tip)))
     0xDBD 0xDBD (Fork (Fork (Fork (Fork Tip 0xDC0 0xDC6 Tip) 0xDE6 0xDEF Tip) 0xE01 0xE30
     (Fork (Fork Tip 0xE32 0xE33 Tip) 0xE40 0xE46 Tip)) 0xE50 0xE59 (Fork (Fork (Fork Tip 0xE81
     0xE82 Tip) 0xE84 0xE84 Tip) 0xE86 0xE8A (Fork Tip 0xE8C 0xEA3 Tip)))) 0xEA5 0xEA5 (Fork
     (Fork (Fork (Fork (Fork Tip 0xEA7 0xEB0 Tip) 0xEB2 0xEB3 Tip) 0xEBD 0xEBD (Fork (Fork Tip
     0xEC0 0xEC4 Tip) 0xEC6 0xEC6 Tip)) 0xED0 0xED9 (Fork (Fork (Fork Tip 0xEDC 0xEDF Tip)
     0xF00 0xF00 Tip) 0xF20 0xF33 (Fork Tip 0xF40 0xF47 Tip))) 0xF49 0xF6C (Fork (Fork (Fork
     (Fork Tip 0xF88 0xF8C Tip) 0x1000 0x102A Tip) 0x103F 0x1049 (Fork (Fork Tip 0x1050 0x1055
     Tip) 0x105A 0x105D Tip)) 0x1061 0x1061 (Fork (Fork (Fork Tip 0x1065 0x1066 Tip) 0x106E
     0x1070 Tip) 0x1075 0x1081 (Fork Tip 0x108E 0x108E Tip))))))) 0x1090 0x1099 (Fork (Fork
     (Fork (Fork (Fork (Fork (Fork (Fork Tip 0x10A0 0x10C5 Tip) 0x10C7 0x10C7 Tip) 0x10CD
     0x10CD (Fork (Fork Tip 0x10D0 0x10FA Tip) 0x10FC 0x1248 Tip)) 0x124A 0x124D (Fork (Fork
     (Fork Tip 0x1250 0x1256 Tip) 0x1258 0x1258 Tip) 0x125A 0x125D (Fork (Fork Tip 0x1260
     0x1288 Tip) 0x128A 0x128D Tip))) 0x1290 0x12B0 (Fork (Fork (Fork (Fork Tip 0x12B2 0x12B5
     Tip) 0x12B8 0x12BE Tip) 0x12C0 0x12C0 (Fork (Fork Tip 0x12C2 0x12C5 Tip) 0x12C8 0x12D6
     Tip)) 0x12D8 0x1310 (Fork (Fork (Fork Tip 0x1312 0x1315 Tip) 0x1318 0x135A Tip) 0x1369
     0x137C (Fork Tip 0x1380 0x138F Tip)))) 0x13A0 0x13F5 (Fork (Fork (Fork (Fork (Fork Tip
     0x13F8 0x13FD Tip) 0x1401 0x166C Tip) 0x166F 0x167F (Fork (Fork Tip 0x1681 0x169A Tip)
     0x16A0 0x16EA Tip)) 0x16EE 0x16F8 (Fork (Fork (Fork Tip 0x1700 0x1711 Tip) 0x171F 0x1731
     Tip) 0x1740 0x1751 (Fork (Fork Tip 0x1760 0x176C Tip) 0x176E 0x1770 Tip))) 0x1780 0x17B3
     (Fork (Fork (Fork (Fork Tip 0x17D7 0x17D7 Tip) 0x17DC 0x17DC Tip) 0x17E0 0x17E9 (Fork
     (Fork Tip 0x17F0 0x17F9 Tip) 0x1810 0x1819 Tip)) 0x1820 0x1878 (Fork (Fork (Fork Tip
     0x1880 0x1884 Tip) 0x1887 0x18A8 Tip) 0x18AA 0x18AA (Fork Tip 0x18B0 0x18F5 Tip)))))
     0x1900 0x191E (Fork (Fork (Fork (Fork (Fork (Fork Tip 0x1946 0x196D Tip) 0x1970 0x1974
     Tip) 0x1980 0x19AB (Fork (Fork Tip 0x19B0 0x19C9 Tip) 0x19D0 0x19DA Tip)) 0x1A00 0x1A16
     (Fork (Fork (Fork Tip 0x1A20 0x1A54 Tip) 0x1A80 0x1A89 Tip) 0x1A90 0x1A99 (Fork (Fork Tip
     0x1AA7 0x1AA7 Tip) 0x1B05 0x1B33 Tip))) 0x1B45 0x1B4C (Fork (Fork (Fork (Fork Tip 0x1B50
     0x1B59 Tip) 0x1B83 0x1BA0 Tip) 0x1BAE 0x1BE5 (Fork (Fork Tip 0x1C00 0x1C23 Tip) 0x1C40
     0x1C49 Tip)) 0x1C4D 0x1C7D (Fork (Fork (Fork Tip 0x1C80 0x1C88 Tip) 0x1C90 0x1CBA Tip)
     0x1CBD 0x1CBF (Fork Tip 0x1CE9 0x1CEC Tip)))) 0x1CEE 0x1CF3 (Fork (Fork (Fork (Fork (Fork
     Tip 0x1CF5 0x1CF6 Tip) 0x1CFA 0x1CFA Tip) 0x1D00 0x1DBF (Fork (Fork Tip 0x1E00 0x1F15 Tip)
     0x1F18 0x1F1D Tip)) 0x1F20 0x1F45 (Fork (Fork (Fork Tip 0x1F48 0x1F4D Tip) 0x1F50 0x1F57
     Tip) 0x1F59 0x1F59 (Fork (Fork Tip 0x1F5B 0x1F5B Tip) 0x1F5D 0x1F5D Tip))) 0x1F5F 0x1F7D
     (Fork (Fork (Fork (Fork Tip 0x1F80 0x1FB4 Tip) 0x1FB6 0x1FBC Tip) 0x1FBE 0x1FBE (Fork
     (Fork Tip 0x1FC2 0x1FC4 Tip) 0x1FC6 0x1FCC Tip)) 0x1FD0 0x1FD3 (Fork (Fork (Fork Tip
     0x1FD6 0x1FDB Tip) 0x1FE0 0x1FEC Tip) 0x1FF2 0x1FF4 (Fork Tip 0x1FF6 0x1FFC Tip))))))
     0x2070 0x2071 (Fork (Fork (Fork (Fork (Fork (Fork (Fork Tip 0x2074 0x2079 Tip) 0x207F
     0x2089 Tip) 0x2090 0x209C (Fork (Fork Tip 0x2102 0x2102 Tip) 0x2107 0x2107 Tip)) 0x210A
     0x2113 (Fork (Fork (Fork Tip 0x2115 0x2115 Tip) 0x2119 0x211D Tip) 0x2124 0x2124 (Fork
     (Fork Tip 0x2126 0x2126 Tip) 0x2128 0x2128 Tip))) 0x212A 0x212D (Fork (Fork (Fork (Fork
     Tip 0x212F 0x2139 Tip) 0x213C 0x213F Tip) 0x2145 0x2149 (Fork (Fork Tip 0x214E 0x214E Tip)
     0x2150 0x2189 Tip)) 0x2460 0x249B (Fork (Fork (Fork Tip 0x24EA 0x24FF Tip) 0x2776 0x2793
     Tip) 0x2C00 0x2CE4 (Fork Tip 0x2CEB 0x2CEE Tip)))) 0x2CF2 0x2CF3 (Fork (Fork (Fork (Fork
     (Fork Tip 0x2CFD 0x2CFD Tip) 0x2D00 0x2D25 Tip) 0x2D27 0x2D27 (Fork (Fork Tip 0x2D2D
     0x2D2D Tip) 0x2D30 0x2D67 Tip)) 0x2D6F 0x2D6F (Fork (Fork (Fork Tip 0x2D80 0x2D96 Tip)
     0x2DA0 0x2DA6 Tip) 0x2DA8 0x2DAE (Fork (Fork Tip 0x2DB0 0x2DB6 Tip) 0x2DB8 0x2DBE Tip)))
     0x2DC0 0x2DC6 (Fork (Fork (Fork (Fork Tip 0x2DC8 0x2DCE Tip) 0x2DD0 0x2DD6 Tip) 0x2DD8
     0x2DDE (Fork (Fork Tip 0x2E2F 0x2E2F Tip) 0x3005 0x3007 Tip)) 0x3021 0x3029 (Fork (Fork
     (Fork Tip 0x3031 0x3035 Tip) 0x3038 0x303C Tip) 0x3041 0x3096 (Fork Tip 0x309D 0x309F
     Tip))))) 0x30A1 0x30FA (Fork (Fork (Fork (Fork (Fork (Fork Tip 0x30FC 0x30FF Tip) 0x3105
     0x312F Tip) 0x3131 0x318E (Fork (Fork Tip 0x3192 0x3195 Tip) 0x31A0 0x31BF Tip)) 0x31F0
     0x31FF (Fork (Fork (Fork Tip 0x3220 0x3229 Tip) 0x3248 0x324F Tip) 0x3251 0x325F (Fork
     (Fork Tip 0x3280 0x3289 Tip) 0x32B1 0x32BF Tip))) 0x3400 0x4DBF (Fork (Fork (Fork (Fork
     Tip 0x4E00 0xA48C Tip) 0xA4D0 0xA4FD Tip) 0xA500 0xA60C (Fork (Fork Tip 0xA610 0xA62B Tip)
     0xA640 0xA66E Tip)) 0xA67F 0xA69D (Fork (Fork (Fork Tip 0xA6A0 0xA6EF Tip) 0xA717 0xA71F
     Tip) 0xA722 0xA788 (Fork Tip 0xA78B 0xA7CA Tip)))) 0xA7D0 0xA7D1 (Fork (Fork (Fork (Fork
     (Fork Tip 0xA7D3 0xA7D3 Tip) 0xA7D5 0xA7D9 Tip) 0xA7F2 0xA801 (Fork (Fork Tip 0xA803
     0xA805 Tip) 0xA807 0xA80A Tip)) 0xA80C 0xA822 (Fork (Fork (Fork Tip 0xA830 0xA835 Tip)
     0xA840 0xA873 Tip) 0xA882 0xA8B3 (Fork Tip 0xA8D0 0xA8D9 Tip))) 0xA8F2 0xA8F7 (Fork (Fork
     (Fork (Fork Tip 0xA8FB 0xA8FB Tip) 0xA8FD 0xA8FE Tip) 0xA900 0xA925 (Fork (Fork Tip 0xA930
     0xA946 Tip) 0xA960 0xA97C Tip)) 0xA984 0xA9B2 (Fork (Fork (Fork Tip 0xA9CF 0xA9D9 Tip)
     0xA9E0 0xA9E4 Tip) 0xA9E6 0xA9FE (Fork Tip 0xAA00 0xAA28 Tip)))))))) 0xAA40 0xAA42 (Fork
     (Fork (Fork (Fork (Fork (Fork (Fork (Fork (Fork Tip 0xAA44 0xAA4B Tip) 0xAA50 0xAA59 Tip)
     0xAA60 0xAA76 (Fork (Fork Tip 0xAA7A 0xAA7A Tip) 0xAA7E 0xAAAF Tip)) 0xAAB1 0xAAB1 (Fork
     (Fork (Fork Tip 0xAAB5 0xAAB6 Tip) 0xAAB9 0xAABD Tip) 0xAAC0 0xAAC0 (Fork (Fork Tip 0xAAC2
     0xAAC2 Tip) 0xAADB 0xAADD Tip))) 0xAAE0 0xAAEA (Fork (Fork (Fork (Fork Tip 0xAAF2 0xAAF4
     Tip) 0xAB01 0xAB06 Tip) 0xAB09 0xAB0E (Fork (Fork Tip 0xAB11 0xAB16 Tip) 0xAB20 0xAB26
     Tip)) 0xAB28 0xAB2E (Fork (Fork (Fork Tip 0xAB30 0xAB5A Tip) 0xAB5C 0xAB69 Tip) 0xAB70
     0xABE2 (Fork Tip 0xABF0 0xABF9 Tip)))) 0xAC00 0xD7A3 (Fork (Fork (Fork (Fork (Fork Tip
     0xD7B0 0xD7C6 Tip) 0xD7CB 0xD7FB Tip) 0xF900 0xFA6D (Fork (Fork Tip 0xFA70 0xFAD9 Tip)
     0xFB00 0xFB06 Tip)) 0xFB13 0xFB17 (Fork (Fork (Fork Tip 0xFB1D 0xFB1D Tip) 0xFB1F 0xFB28
     Tip) 0xFB2A 0xFB36 (Fork (Fork Tip 0xFB38 0xFB3C Tip) 0xFB3E 0xFB3E Tip))) 0xFB40 0xFB41
     (Fork (Fork (Fork (Fork Tip 0xFB43 0xFB44 Tip) 0xFB46 0xFBB1 Tip) 0xFBD3 0xFD3D (Fork
     (Fork Tip 0xFD50 0xFD8F Tip) 0xFD92 0xFDC7 Tip)) 0xFDF0 0xFDFB (Fork (Fork (Fork Tip
     0xFE70 0xFE74 Tip) 0xFE76 0xFEFC Tip) 0xFF10 0xFF19 (Fork Tip 0xFF21 0xFF3A Tip)))))
     0xFF41 0xFF5A (Fork (Fork (Fork (Fork (Fork (Fork Tip 0xFF66 0xFFBE Tip) 0xFFC2 0xFFC7
     Tip) 0xFFCA 0xFFCF (Fork (Fork Tip 0xFFD2 0xFFD7 Tip) 0xFFDA 0xFFDC Tip)) 0x10000 0x1000B
     (Fork (Fork (Fork Tip 0x1000D 0x10026 Tip) 0x10028 0x1003A Tip) 0x1003C 0x1003D (Fork
     (Fork Tip 0x1003F 0x1004D Tip) 0x10050 0x1005D Tip))) 0x10080 0x100FA (Fork (Fork (Fork
     (Fork Tip 0x10107 0x10133 Tip) 0x10140 0x10178 Tip) 0x1018A 0x1018B (Fork (Fork Tip
     0x10280 0x1029C Tip) 0x102A0 0x102D0 Tip)) 0x102E1 0x102FB (Fork (Fork (Fork Tip 0x10300
     0x10323 Tip) 0x1032D 0x1034A Tip) 0x10350 0x10375 (Fork Tip 0x10380 0x1039D Tip))))
     0x103A0 0x103C3 (Fork (Fork (Fork (Fork (Fork Tip 0x103C8 0x103CF Tip) 0x103D1 0x103D5
     Tip) 0x10400 0x1049D (Fork (Fork Tip 0x104A0 0x104A9 Tip) 0x104B0 0x104D3 Tip)) 0x104D8
     0x104FB (Fork (Fork (Fork Tip 0x10500 0x10527 Tip) 0x10530 0x10563 Tip) 0x10570 0x1057A
     (Fork (Fork Tip 0x1057C 0x1058A Tip) 0x1058C 0x10592 Tip))) 0x10594 0x10595 (Fork (Fork
     (Fork (Fork Tip 0x10597 0x105A1 Tip) 0x105A3 0x105B1 Tip) 0x105B3 0x105B9 (Fork (Fork Tip
     0x105BB 0x105BC Tip) 0x10600 0x10736 Tip)) 0x10740 0x10755 (Fork (Fork (Fork Tip 0x10760
     0x10767 Tip) 0x10780 0x10785 Tip) 0x10787 0x107B0 (Fork Tip 0x107B2 0x107BA Tip))))))
     0x10800 0x10805 (Fork (Fork (Fork (Fork (Fork (Fork (Fork Tip 0x10808 0x10808 Tip) 0x1080A
     0x10835 Tip) 0x10837 0x10838 (Fork (Fork Tip 0x1083C 0x1083C Tip) 0x1083F 0x10855 Tip))
     0x10858 0x10876 (Fork (Fork (Fork Tip 0x10879 0x1089E Tip) 0x108A7 0x108AF Tip) 0x108E0
     0x108F2 (Fork (Fork Tip 0x108F4 0x108F5 Tip) 0x108FB 0x1091B Tip))) 0x10920 0x10939 (Fork
     (Fork (Fork (Fork Tip 0x10980 0x109B7 Tip) 0x109BC 0x109CF Tip) 0x109D2 0x10A00 (Fork
     (Fork Tip 0x10A10 0x10A13 Tip) 0x10A15 0x10A17 Tip)) 0x10A19 0x10A35 (Fork (Fork (Fork Tip
     0x10A40 0x10A48 Tip) 0x10A60 0x10A7E Tip) 0x10A80 0x10A9F (Fork Tip 0x10AC0 0x10AC7
     Tip)))) 0x10AC9 0x10AE4 (Fork (Fork (Fork (Fork (Fork Tip 0x10AEB 0x10AEF Tip) 0x10B00
     0x10B35 Tip) 0x10B40 0x10B55 (Fork (Fork Tip 0x10B58 0x10B72 Tip) 0x10B78 0x10B91 Tip))
     0x10BA9 0x10BAF (Fork (Fork (Fork Tip 0x10C00 0x10C48 Tip) 0x10C80 0x10CB2 Tip) 0x10CC0
     0x10CF2 (Fork (Fork Tip 0x10CFA 0x10D23 Tip) 0x10D30 0x10D39 Tip))) 0x10E60 0x10E7E (Fork
     (Fork (Fork (Fork Tip 0x10E80 0x10EA9 Tip) 0x10EB0 0x10EB1 Tip) 0x10F00 0x10F27 (Fork
     (Fork Tip 0x10F30 0x10F45 Tip) 0x10F51 0x10F54 Tip)) 0x10F70 0x10F81 (Fork (Fork (Fork Tip
     0x10FB0 0x10FCB Tip) 0x10FE0 0x10FF6 Tip) 0x11003 0x11037 (Fork Tip 0x11052 0x1106F
     Tip))))) 0x11071 0x11072 (Fork (Fork (Fork (Fork (Fork (Fork Tip 0x11075 0x11075 Tip)
     0x11083 0x110AF Tip) 0x110D0 0x110E8 (Fork (Fork Tip 0x110F0 0x110F9 Tip) 0x11103 0x11126
     Tip)) 0x11136 0x1113F (Fork (Fork (Fork Tip 0x11144 0x11144 Tip) 0x11147 0x11147 Tip)
     0x11150 0x11172 (Fork (Fork Tip 0x11176 0x11176 Tip) 0x11183 0x111B2 Tip))) 0x111C1
     0x111C4 (Fork (Fork (Fork (Fork Tip 0x111D0 0x111DA Tip) 0x111DC 0x111DC Tip) 0x111E1
     0x111F4 (Fork (Fork Tip 0x11200 0x11211 Tip) 0x11213 0x1122B Tip)) 0x11280 0x11286 (Fork
     (Fork (Fork Tip 0x11288 0x11288 Tip) 0x1128A 0x1128D Tip) 0x1128F 0x1129D (Fork Tip
     0x1129F 0x112A8 Tip)))) 0x112B0 0x112DE (Fork (Fork (Fork (Fork (Fork Tip 0x112F0 0x112F9
     Tip) 0x11305 0x1130C Tip) 0x1130F 0x11310 (Fork (Fork Tip 0x11313 0x11328 Tip) 0x1132A
     0x11330 Tip)) 0x11332 0x11333 (Fork (Fork (Fork Tip 0x11335 0x11339 Tip) 0x1133D 0x1133D
     Tip) 0x11350 0x11350 (Fork Tip 0x1135D 0x11361 Tip))) 0x11400 0x11434 (Fork (Fork (Fork
     (Fork Tip 0x11447 0x1144A Tip) 0x11450 0x11459 Tip) 0x1145F 0x11461 (Fork (Fork Tip
     0x11480 0x114AF Tip) 0x114C4 0x114C5 Tip)) 0x114C7 0x114C7 (Fork (Fork (Fork Tip 0x114D0
     0x114D9 Tip) 0x11580 0x115AE Tip) 0x115D8 0x115DB (Fork Tip 0x11600 0x1162F Tip)))))))
     0x11644 0x11644 (Fork (Fork (Fork (Fork (Fork (Fork (Fork (Fork Tip 0x11650 0x11659 Tip)
     0x11680 0x116AA Tip) 0x116B8 0x116B8 (Fork (Fork Tip 0x116C0 0x116C9 Tip) 0x11700 0x1171A
     Tip)) 0x11730 0x1173B (Fork (Fork (Fork Tip 0x11740 0x11746 Tip) 0x11800 0x1182B Tip)
     0x118A0 0x118F2 (Fork (Fork Tip 0x118FF 0x11906 Tip) 0x11909 0x11909 Tip))) 0x1190C
     0x11913 (Fork (Fork (Fork (Fork Tip 0x11915 0x11916 Tip) 0x11918 0x1192F Tip) 0x1193F
     0x1193F (Fork (Fork Tip 0x11941 0x11941 Tip) 0x11950 0x11959 Tip)) 0x119A0 0x119A7 (Fork
     (Fork (Fork Tip 0x119AA 0x119D0 Tip) 0x119E1 0x119E1 Tip) 0x119E3 0x119E3 (Fork Tip
     0x11A00 0x11A00 Tip)))) 0x11A0B 0x11A32 (Fork (Fork (Fork (Fork (Fork Tip 0x11A3A 0x11A3A
     Tip) 0x11A50 0x11A50 Tip) 0x11A5C 0x11A89 (Fork (Fork Tip 0x11A9D 0x11A9D Tip) 0x11AB0
     0x11AF8 Tip)) 0x11C00 0x11C08 (Fork (Fork (Fork Tip 0x11C0A 0x11C2E Tip) 0x11C40 0x11C40
     Tip) 0x11C50 0x11C6C (Fork (Fork Tip 0x11C72 0x11C8F Tip) 0x11D00 0x11D06 Tip))) 0x11D08
     0x11D09 (Fork (Fork (Fork (Fork Tip 0x11D0B 0x11D30 Tip) 0x11D46 0x11D46 Tip) 0x11D50
     0x11D59 (Fork (Fork Tip 0x11D60 0x11D65 Tip) 0x11D67 0x11D68 Tip)) 0x11D6A 0x11D89 (Fork
     (Fork (Fork Tip 0x11D98 0x11D98 Tip) 0x11DA0 0x11DA9 Tip) 0x11EE0 0x11EF2 (Fork Tip
     0x11FB0 0x11FB0 Tip))))) 0x11FC0 0x11FD4 (Fork (Fork (Fork (Fork (Fork (Fork Tip 0x12000
     0x12399 Tip) 0x12400 0x1246E Tip) 0x12480 0x12543 (Fork (Fork Tip 0x12F90 0x12FF0 Tip)
     0x13000 0x1342E Tip)) 0x14400 0x14646 (Fork (Fork (Fork Tip 0x16800 0x16A38 Tip) 0x16A40
     0x16A5E Tip) 0x16A60 0x16A69 (Fork (Fork Tip 0x16A70 0x16ABE Tip) 0x16AC0 0x16AC9 Tip)))
     0x16AD0 0x16AED (Fork (Fork (Fork (Fork Tip 0x16B00 0x16B2F Tip) 0x16B40 0x16B43 Tip)
     0x16B50 0x16B59 (Fork (Fork Tip 0x16B5B 0x16B61 Tip) 0x16B63 0x16B77 Tip)) 0x16B7D 0x16B8F
     (Fork (Fork (Fork Tip 0x16E40 0x16E96 Tip) 0x16F00 0x16F4A Tip) 0x16F50 0x16F50 (Fork Tip
     0x16F93 0x16F9F Tip)))) 0x16FE0 0x16FE1 (Fork (Fork (Fork (Fork (Fork Tip 0x16FE3 0x16FE3
     Tip) 0x17000 0x187F7 Tip) 0x18800 0x18CD5 (Fork (Fork Tip 0x18D00 0x18D08 Tip) 0x1AFF0
     0x1AFF3 Tip)) 0x1AFF5 0x1AFFB (Fork (Fork (Fork Tip 0x1AFFD 0x1AFFE Tip) 0x1B000 0x1B122
     Tip) 0x1B150 0x1B152 (Fork Tip 0x1B164 0x1B167 Tip))) 0x1B170 0x1B2FB (Fork (Fork (Fork
     (Fork Tip 0x1BC00 0x1BC6A Tip) 0x1BC70 0x1BC7C Tip) 0x1BC80 0x1BC88 (Fork (Fork Tip
     0x1BC90 0x1BC99 Tip) 0x1D2E0 0x1D2F3 Tip)) 0x1D360 0x1D378 (Fork (Fork (Fork Tip 0x1D400
     0x1D454 Tip) 0x1D456 0x1D49C Tip) 0x1D49E 0x1D49F (Fork Tip 0x1D4A2 0x1D4A2 Tip))))))
     0x1D4A5 0x1D4A6 (Fork (Fork (Fork (Fork (Fork (Fork (Fork Tip 0x1D4A9 0x1D4AC Tip) 0x1D4AE
     0x1D4B9 Tip) 0x1D4BB 0x1D4BB (Fork (Fork Tip 0x1D4BD 0x1D4C3 Tip) 0x1D4C5 0x1D505 Tip))
     0x1D507 0x1D50A (Fork (Fork (Fork Tip 0x1D50D 0x1D514 Tip) 0x1D516 0x1D51C Tip) 0x1D51E
     0x1D539 (Fork (Fork Tip 0x1D53B 0x1D53E Tip) 0x1D540 0x1D544 Tip))) 0x1D546 0x1D546 (Fork
     (Fork (Fork (Fork Tip 0x1D54A 0x1D550 Tip) 0x1D552 0x1D6A5 Tip) 0x1D6A8 0x1D6C0 (Fork
     (Fork Tip 0x1D6C2 0x1D6DA Tip) 0x1D6DC 0x1D6FA Tip)) 0x1D6FC 0x1D714 (Fork (Fork (Fork Tip
     0x1D716 0x1D734 Tip) 0x1D736 0x1D74E Tip) 0x1D750 0x1D76E (Fork Tip 0x1D770 0x1D788
     Tip)))) 0x1D78A 0x1D7A8 (Fork (Fork (Fork (Fork (Fork Tip 0x1D7AA 0x1D7C2 Tip) 0x1D7C4
     0x1D7CB Tip) 0x1D7CE 0x1D7FF (Fork (Fork Tip 0x1DF00 0x1DF1E Tip) 0x1E100 0x1E12C Tip))
     0x1E137 0x1E13D (Fork (Fork (Fork Tip 0x1E140 0x1E149 Tip) 0x1E14E 0x1E14E Tip) 0x1E290
     0x1E2AD (Fork (Fork Tip 0x1E2C0 0x1E2EB Tip) 0x1E2F0 0x1E2F9 Tip))) 0x1E7E0 0x1E7E6 (Fork
     (Fork (Fork (Fork Tip 0x1E7E8 0x1E7EB Tip) 0x1E7ED 0x1E7EE Tip) 0x1E7F0 0x1E7FE (Fork
     (Fork Tip 0x1E800 0x1E8C4 Tip) 0x1E8C7 0x1E8CF Tip)) 0x1E900 0x1E943 (Fork (Fork (Fork Tip
     0x1E94B 0x1E94B Tip) 0x1E950 0x1E959 Tip) 0x1EC71 0x1ECAB (Fork Tip 0x1ECAD 0x1ECAF
     Tip))))) 0x1ECB1 0x1ECB4 (Fork (Fork (Fork (Fork (Fork (Fork Tip 0x1ED01 0x1ED2D Tip)
     0x1ED2F 0x1ED3D Tip) 0x1EE00 0x1EE03 (Fork (Fork Tip 0x1EE05 0x1EE1F Tip) 0x1EE21 0x1EE22
     Tip)) 0x1EE24 0x1EE24 (Fork (Fork (Fork Tip 0x1EE27 0x1EE27 Tip) 0x1EE29 0x1EE32 Tip)
     0x1EE34 0x1EE37 (Fork (Fork Tip 0x1EE39 0x1EE39 Tip) 0x1EE3B 0x1EE3B Tip))) 0x1EE42
     0x1EE42 (Fork (Fork (Fork (Fork Tip 0x1EE47 0x1EE47 Tip) 0x1EE49 0x1EE49 Tip) 0x1EE4B
     0x1EE4B (Fork (Fork Tip 0x1EE4D 0x1EE4F Tip) 0x1EE51 0x1EE52 Tip)) 0x1EE54 0x1EE54 (Fork
     (Fork (Fork Tip 0x1EE57 0x1EE57 Tip) 0x1EE59 0x1EE59 Tip) 0x1EE5B 0x1EE5B (Fork Tip
     0x1EE5D 0x1EE5D Tip)))) 0x1EE5F 0x1EE5F (Fork (Fork (Fork (Fork (Fork Tip 0x1EE61 0x1EE62
     Tip) 0x1EE64 0x1EE64 Tip) 0x1EE67 0x1EE6A (Fork (Fork Tip 0x1EE6C 0x1EE72 Tip) 0x1EE74
     0x1EE77 Tip)) 0x1EE79 0x1EE7C (Fork (Fork (Fork Tip 0x1EE7E 0x1EE7E Tip) 0x1EE80 0x1EE89
     Tip) 0x1EE8B 0x1EE9B (Fork Tip 0x1EEA1 0x1EEA3 Tip))) 0x1EEA5 0x1EEA9 (Fork (Fork (Fork
     (Fork Tip 0x1EEAB 0x1EEBB Tip) 0x1F100 0x1F10C Tip) 0x1FBF0 0x1FBF9 (Fork (Fork Tip
     0x20000 0x2A6DF Tip) 0x2A700 0x2B738 Tip)) 0x2B740 0x2B81D (Fork (Fork (Fork Tip 0x2B820
     0x2CEA1 Tip) 0x2CEB0 0x2EBE0 Tip) 0x2F800 0x2FA1D (Fork Tip 0x30000 0x3134A Tip)))))))))"

definition CASED_RANGES :: "codepoint table" where
  "CASED_RANGES =
     (Fork (Fork (Fork (Fork (Fork (Fork (Fork (Fork Tip 0xAA 0xAA Tip) 0xB5 0xB5 Tip) 0xBA
     0xBA (Fork Tip 0xC0 0xD6 Tip)) 0xD8 0xF6 (Fork (Fork (Fork Tip 0xF8 0x1BA Tip) 0x1BC 0x1BF
     Tip) 0x1C4 0x293 (Fork Tip 0x295 0x2B8 Tip))) 0x2C0 0x2C1 (Fork (Fork (Fork (Fork Tip
     0x2E0 0x2E4 Tip) 0x345 0x345 Tip) 0x370 0x373 (Fork Tip 0x376 0x377 Tip)) 0x37A 0x37D
     (Fork (Fork (Fork Tip 0x37F 0x37F Tip) 0x386 0x386 Tip) 0x388 0x38A (Fork Tip 0x38C 0x38C
     Tip)))) 0x38E 0x3A1 (Fork (Fork (Fork (Fork (Fork Tip 0x3A3 0x3F5 Tip) 0x3F7 0x481 Tip)
     0x48A 0x52F (Fork Tip 0x531 0x556 Tip)) 0x560 0x588 (Fork (Fork (Fork Tip 0x10A0 0x10C5
     Tip) 0x10C7 0x10C7 Tip) 0x10CD 0x10CD (Fork Tip 0x10D0 0x10FA Tip))) 0x10FD 0x10FF (Fork
     (Fork (Fork (Fork Tip 0x13A0 0x13F5 Tip) 0x13F8 0x13FD Tip) 0x1C80 0x1C88 (Fork Tip 0x1C90
     0x1CBA Tip)) 0x1CBD 0x1CBF (Fork (Fork Tip 0x1D00 0x1DBF Tip) 0x1E00 0x1F15 (Fork Tip
     0x1F18 0x1F1D Tip))))) 0x1F20 0x1F45 (Fork (Fork (Fork (Fork (Fork (Fork Tip 0x1F48 0x1F4D
     Tip) 0x1F50 0x1F57 Tip) 0x1F59 0x1F59 (Fork Tip 0x1F5B 0x1F5B Tip)) 0x1F5D 0x1F5D (Fork
     (Fork (Fork Tip 0x1F5F 0x1F7D Tip) 0x1F80 0x1FB4 Tip) 0x1FB6 0x1FBC (Fork Tip 0x1FBE
     0x1FBE Tip))) 0x1FC2 0x1FC4 (Fork (Fork (Fork (Fork Tip 0x1FC6 0x1FCC Tip) 0x1FD0 0x1FD3
     Tip) 0x1FD6 0x1FDB (Fork Tip 0x1FE0 0x1FEC Tip)) 0x1FF2 0x1FF4 (Fork (Fork Tip 0x1FF6
     0x1FFC Tip) 0x2071 0x2071 (Fork Tip 0x207F 0x207F Tip)))) 0x2090 0x209C (Fork (Fork (Fork
     (Fork (Fork Tip 0x2102 0x2102 Tip) 0x2107 0x2107 Tip) 0x210A 0x2113 (Fork Tip 0x2115
     0x2115 Tip)) 0x2119 0x211D (Fork (Fork (Fork Tip 0x2124 0x2124 Tip) 0x2126 0x2126 Tip)
     0x2128 0x2128 (Fork Tip 0x212A 0x212D Tip))) 0x212F 0x2134 (Fork (Fork (Fork (Fork Tip
     0x2139 0x2139 Tip) 0x213C 0x213F Tip) 0x2145 0x2149 (Fork Tip 0x214E 0x214E Tip)) 0x2160
     0x217F (Fork (Fork Tip 0x2183 0x2184 Tip) 0x24B6 0x24E9 (Fork Tip 0x2C00 0x2CE4 Tip))))))
     0x2CEB 0x2CEE (Fork (Fork (Fork (Fork (Fork (Fork (Fork Tip 0x2CF2 0x2CF3 Tip) 0x2D00
     0x2D25 Tip) 0x2D27 0x2D27 (Fork Tip 0x2D2D 0x2D2D Tip)) 0xA640 0xA66D (Fork (Fork (Fork
     Tip 0xA680 0xA69D Tip) 0xA722 0xA787 Tip) 0xA78B 0xA78E (Fork Tip 0xA790 0xA7CA Tip)))
     0xA7D0 0xA7D1 (Fork (Fork (Fork (Fork Tip 0xA7D3 0xA7D3 Tip) 0xA7D5 0xA7D9 Tip) 0xA7F5
     0xA7F6 (Fork Tip 0xA7F8 0xA7FA Tip)) 0xAB30 0xAB5A (Fork (Fork (Fork Tip 0xAB5C 0xAB68
     Tip) 0xAB70 0xABBF Tip) 0xFB00 0xFB06 (Fork Tip 0xFB13 0xFB17 Tip)))) 0xFF21 0xFF3A (Fork
     (Fork (Fork (Fork (Fork Tip 0xFF41 0xFF5A Tip) 0x10400 0x1044F Tip) 0x104B0 0x104D3 (Fork
     Tip 0x104D8 0x104FB Tip)) 0x10570 0x1057A (Fork (Fork (Fork Tip 0x1057C 0x1058A Tip)
     0x1058C 0x10592 Tip) 0x10594 0x10595 (Fork Tip 0x10597 0x105A1 Tip))) 0x105A3 0x105B1
     (Fork (Fork (Fork (Fork Tip 0x105B3 0x105B9 Tip) 0x105BB 0x105BC Tip) 0x10780 0x10780
     (Fork Tip 0x10783 0x10785 Tip)) 0x10787 0x107B0 (Fork (Fork Tip 0x107B2 0x107BA Tip)
     0x10C80 0x10CB2 (Fork Tip 0x10CC0 0x10CF2 Tip))))) 0x118A0 0x118DF (Fork (Fork (Fork (Fork
     (Fork (Fork Tip 0x16E40 0x16E7F Tip) 0x1D400 0x1D454 Tip) 0x1D456 0x1D49C (Fork Tip
     0x1D49E 0x1D49F Tip)) 0x1D4A2 0x1D4A2 (Fork (Fork (Fork Tip 0x1D4A5 0x1D4A6 Tip) 0x1D4A9
     0x1D4AC Tip) 0x1D4AE 0x1D4B9 (Fork Tip 0x1D4BB 0x1D4BB Tip))) 0x1D4BD 0x1D4C3 (Fork (Fork
     (Fork (Fork Tip 0x1D4C5 0x1D505 Tip) 0x1D507 0x1D50A Tip) 0x1D50D 0x1D514 (Fork Tip
     0x1D516 0x1D51C Tip)) 0x1D51E 0x1D539 (Fork (Fork Tip 0x1D53B 0x1D53E Tip) 0x1D540 0x1D544
     (Fork Tip 0x1D546 0x1D546 Tip)))) 0x1D54A 0x1D550 (Fork (Fork (Fork (Fork (Fork Tip
     0x1D552 0x1D6A5 Tip) 0x1D6A8 0x1D6C0 Tip) 0x1D6C2 0x1D6DA (Fork Tip 0x1D6DC 0x1D6FA Tip))
     0x1D6FC 0x1D714 (Fork (Fork (Fork Tip 0x1D716 0x1D734 Tip) 0x1D736 0x1D74E Tip) 0x1D750
     0x1D76E (Fork Tip 0x1D770 0x1D788 Tip))) 0x1D78A 0x1D7A8 (Fork (Fork (Fork (Fork Tip
     0x1D7AA 0x1D7C2 Tip) 0x1D7C4 0x1D7CB Tip) 0x1DF00 0x1DF09 (Fork Tip 0x1DF0B 0x1DF1E Tip))
     0x1E900 0x1E943 (Fork (Fork Tip 0x1F130 0x1F149 Tip) 0x1F150 0x1F169 (Fork Tip 0x1F170
     0x1F189 Tip)))))))"

definition CASE_IGNORABLE_RANGES :: "codepoint table" where
  "CASE_IGNORABLE_RANGES =
     (Fork (Fork (Fork (Fork (Fork (Fork (Fork (Fork (Fork Tip 0xA8 0xA8 Tip) 0xAD 0xAD (Fork
     Tip 0xAF 0xAF Tip)) 0xB4 0xB4 (Fork (Fork Tip 0xB7 0xB8 Tip) 0x2B0 0x36F Tip)) 0x374 0x375
     (Fork (Fork (Fork Tip 0x37A 0x37A Tip) 0x384 0x385 (Fork Tip 0x387 0x387 Tip)) 0x483 0x489
     (Fork (Fork Tip 0x559 0x559 Tip) 0x55F 0x55F Tip))) 0x591 0x5BD (Fork (Fork (Fork (Fork
     Tip 0x5BF 0x5BF Tip) 0x5C1 0x5C2 (Fork Tip 0x5C4 0x5C5 Tip)) 0x5C7 0x5C7 (Fork (Fork Tip
     0x5F4 0x5F4 Tip) 0x600 0x605 Tip)) 0x610 0x61A (Fork (Fork (Fork Tip 0x61C 0x61C Tip)
     0x640 0x640 Tip) 0x64B 0x65F (Fork (Fork Tip 0x670 0x670 Tip) 0x6D6 0x6DD Tip)))) 0x6DF
     0x6E8 (Fork (Fork (Fork (Fork (Fork Tip 0x6EA 0x6ED Tip) 0x70F 0x70F (Fork Tip 0x711 0x711
     Tip)) 0x730 0x74A (Fork (Fork Tip 0x7A6 0x7B0 Tip) 0x7EB 0x7F5 Tip)) 0x7FA 0x7FA (Fork
     (Fork (Fork Tip 0x7FD 0x7FD Tip) 0x816 0x82D Tip) 0x859 0x85B (Fork (Fork Tip 0x888 0x888
     Tip) 0x890 0x891 Tip))) 0x898 0x89F (Fork (Fork (Fork (Fork Tip 0x8C9 0x902 Tip) 0x93A
     0x93A (Fork Tip 0x93C 0x93C Tip)) 0x941 0x948 (Fork (Fork Tip 0x94D 0x94D Tip) 0x951 0x957
     Tip)) 0x962 0x963 (Fork (Fork (Fork Tip 0x971 0x971 Tip) 0x981 0x981 Tip) 0x9BC 0x9BC
     (Fork (Fork Tip 0x9C1 0x9C4 Tip) 0x9CD 0x9CD Tip))))) 0x9E2 0x9E3 (Fork (Fork (Fork (Fork
     (Fork (Fork Tip 0x9FE 0x9FE Tip) 0xA01 0xA02 (Fork Tip 0xA3C 0xA3C Tip)) 0xA41 0xA42 (Fork
     (Fork Tip 0xA47 0xA48 Tip) 0xA4B 0xA4D Tip)) 0xA51 0xA51 (Fork (Fork (Fork Tip 0xA70 0xA71
     Tip) 0xA75 0xA75 (Fork Tip 0xA81 0xA82 Tip)) 0xABC 0xABC (Fork (Fork Tip 0xAC1 0xAC5 Tip)
     0xAC7 0xAC8 Tip))) 0xACD 0xACD (Fork (Fork (Fork (Fork Tip 0xAE2 0xAE3 Tip) 0xAFA 0xAFF
     (Fork Tip 0xB01 0xB01 Tip)) 0xB3C 0xB3C (Fork (Fork Tip 0xB3F 0xB3F Tip) 0xB41 0xB44 Tip))
     0xB4D 0xB4D (Fork (Fork (Fork Tip 0xB55 0xB56 Tip) 0xB62 0xB63 Tip) 0xB82 0xB82 (Fork
     (Fork Tip 0xBC0 0xBC0 Tip) 0xBCD 0xBCD Tip)))) 0xC00 0xC00 (Fork (Fork (Fork (Fork (Fork
     Tip 0xC04 0xC04 Tip) 0xC3C 0xC3C (Fork Tip 0xC3E 0xC40 Tip)) 0xC46 0xC48 (Fork (Fork Tip
     0xC4A 0xC4D Tip) 0xC55 0xC56 Tip)) 0xC62 0xC63 (Fork (Fork (Fork Tip 0xC81 0xC81 Tip)
     0xCBC 0xCBC Tip) 0xCBF 0xCBF (Fork (Fork Tip 0xCC6 0xCC6 Tip) 0xCCC 0xCCD Tip))) 0xCE2
     0xCE3 (Fork (Fork (Fork (Fork Tip 0xD00 0xD01 Tip) 0xD3B 0xD3C (Fork Tip 0xD41 0xD44 Tip))
     0xD4D 0xD4D (Fork (Fork Tip 0xD62 0xD63 Tip) 0xD81 0xD81 Tip)) 0xDCA 0xDCA (Fork (Fork
     (Fork Tip 0xDD2 0xDD4 Tip) 0xDD6 0xDD6 Tip) 0xE31 0xE31 (Fork (Fork Tip 0xE34 0xE3A Tip)
     0xE46 0xE4E Tip)))))) 0xEB1 0xEB1 (Fork (Fork (Fork (Fork (Fork (Fork (Fork Tip 0xEB4
     0xEBC Tip) 0xEC6 0xEC6 (Fork Tip 0xEC8 0xECD Tip)) 0xF18 0xF19 (Fork (Fork Tip 0xF35 0xF35
     Tip) 0xF37 0xF37 Tip)) 0xF39 0xF39 (Fork (Fork (Fork Tip 0xF71 0xF7E Tip) 0xF80 0xF84
     (Fork Tip 0xF86 0xF87 Tip)) 0xF8D 0xF97 (Fork (Fork Tip 0xF99 0xFBC Tip) 0xFC6 0xFC6
     Tip))) 0x102D 0x1030 (Fork (Fork (Fork (Fork Tip 0x1032 0x1037 Tip) 0x1039 0x103A (Fork
     Tip 0x103D 0x103E Tip)) 0x1058 0x1059 (Fork (Fork Tip 0x105E 0x1060 Tip) 0x1071 0x1074
     Tip)) 0x1082 0x1082 (Fork (Fork (Fork Tip 0x1085 0x1086 Tip) 0x108D 0x108D Tip) 0x109D
     0x109D (Fork (Fork Tip 0x10FC 0x10FC Tip) 0x135D 0x135F Tip)))) 0x1712 0x1714 (Fork (Fork
     (Fork (Fork (Fork Tip 0x1732 0x1733 Tip) 0x1752 0x1753 (Fork Tip 0x1772 0x1773 Tip))
     0x17B4 0x17B5 (Fork (Fork Tip 0x17B7 0x17BD Tip) 0x17C6 0x17C6 Tip)) 0x17C9 0x17D3 (Fork
     (Fork (Fork Tip 0x17D7 0x17D7 Tip) 0x17DD 0x17DD Tip) 0x180B 0x180F (Fork (Fork Tip 0x1843
     0x1843 Tip) 0x1885 0x1886 Tip))) 0x18A9 0x18A9 (Fork (Fork (Fork (Fork Tip 0x1920 0x1922
     Tip) 0x1927 0x1928 (Fork Tip 0x1932 0x1932 Tip)) 0x1939 0x193B (Fork (Fork Tip 0x1A17
     0x1A18 Tip) 0x1A1B 0x1A1B Tip)) 0x1A56 0x1A56 (Fork (Fork (Fork Tip 0x1A58 0x1A5E Tip)
     0x1A60 0x1A60 Tip) 0x1A62 0x1A62 (Fork (Fork Tip 0x1A65 0x1A6C Tip) 0x1A73 0x1A7C Tip)))))
     0x1A7F 0x1A7F (Fork (Fork (Fork (Fork (Fork (Fork Tip 0x1AA7 0x1AA7 Tip) 0x1AB0 0x1ACE
     (Fork Tip 0x1B00 0x1B03 Tip)) 0x1B34 0x1B34 (Fork (Fork Tip 0x1B36 0x1B3A Tip) 0x1B3C
     0x1B3C Tip)) 0x1B42 0x1B42 (Fork (Fork (Fork Tip 0x1B6B 0x1B73 Tip) 0x1B80 0x1B81 (Fork
     Tip 0x1BA2 0x1BA5 Tip)) 0x1BA8 0x1BA9 (Fork (Fork Tip 0x1BAB 0x1BAD Tip) 0x1BE6 0x1BE6
     Tip))) 0x1BE8 0x1BE9 (Fork (Fork (Fork (Fork Tip 0x1BED 0x1BED Tip) 0x1BEF 0x1BF1 (Fork
     Tip 0x1C2C 0x1C33 Tip)) 0x1C36 0x1C37 (Fork (Fork Tip 0x1C78 0x1C7D Tip) 0x1CD0 0x1CD2
     Tip)) 0x1CD4 0x1CE0 (Fork (Fork (Fork Tip 0x1CE2 0x1CE8 Tip) 0x1CED 0x1CED Tip) 0x1CF4
     0x1CF4 (Fork (Fork Tip 0x1CF8 0x1CF9 Tip) 0x1D2C 0x1D6A Tip)))) 0x1D78 0x1D78 (Fork (Fork
     (Fork (Fork (Fork Tip 0x1D9B 0x1DFF Tip) 0x1FBD 0x1FBD (Fork Tip 0x1FBF 0x1FC1 Tip))
     0x1FCD 0x1FCF (Fork (Fork Tip 0x1FDD 0x1FDF Tip) 0x1FED 0x1FEF Tip)) 0x1FFD 0x1FFE (Fork
     (Fork (Fork Tip 0x200B 0x200F Tip) 0x2018 0x2019 Tip) 0x2024 0x2024 (Fork (Fork Tip 0x2027
     0x2027 Tip) 0x202A 0x202E Tip))) 0x2060 0x2064 (Fork (Fork (Fork (Fork Tip 0x2066 0x206F
     Tip) 0x2071 0x2071 (Fork Tip 0x207F 0x207F Tip)) 0x2090 0x209C (Fork (Fork Tip 0x20D0
     0x20F0 Tip) 0x2C7C 0x2C7D Tip)) 0x2CEF 0x2CF1 (Fork (Fork (Fork Tip 0x2D6F 0x2D6F Tip)
     0x2D7F 0x2D7F Tip) 0x2DE0 0x2DFF (Fork (Fork Tip 0x2E2F 0x2E2F Tip) 0x3005 0x3005
     Tip))))))) 0x302A 0x302D (Fork (Fork (Fork (Fork (Fork (Fork (Fork (Fork Tip 0x3031 0x3035
     Tip) 0x303B 0x303B (Fork Tip 0x3099 0x309E Tip)) 0x30FC 0x30FE (Fork (Fork Tip 0xA015
     0xA015 Tip) 0xA4F8 0xA4FD Tip)) 0xA60C 0xA60C (Fork (Fork (Fork Tip 0xA66F 0xA672 Tip)
     0xA674 0xA67D (Fork Tip 0xA67F 0xA67F Tip)) 0xA69C 0xA69F (Fork (Fork Tip 0xA6F0 0xA6F1
     Tip) 0xA700 0xA721 Tip))) 0xA770 0xA770 (Fork (Fork (Fork (Fork Tip 0xA788 0xA78A Tip)
     0xA7F2 0xA7F4 (Fork Tip 0xA7F8 0xA7F9 Tip)) 0xA802 0xA802 (Fork (Fork Tip 0xA806 0xA806
     Tip) 0xA80B 0xA80B Tip)) 0xA825 0xA826 (Fork (Fork (Fork Tip 0xA82C 0xA82C Tip) 0xA8C4
     0xA8C5 Tip) 0xA8E0 0xA8F1 (Fork (Fork Tip 0xA8FF 0xA8FF Tip) 0xA926 0xA92D Tip)))) 0xA947
     0xA951 (Fork (Fork (Fork (Fork (Fork Tip 0xA980 0xA982 Tip) 0xA9B3 0xA9B3 (Fork Tip 0xA9B6
     0xA9B9 Tip)) 0xA9BC 0xA9BD (Fork (Fork Tip 0xA9CF 0xA9CF Tip) 0xA9E5 0xA9E6 Tip)) 0xAA29
     0xAA2E (Fork (Fork (Fork Tip 0xAA31 0xAA32 Tip) 0xAA35 0xAA36 Tip) 0xAA43 0xAA43 (Fork
     (Fork Tip 0xAA4C 0xAA4C Tip) 0xAA70 0xAA70 Tip))) 0xAA7C 0xAA7C (Fork (Fork (Fork (Fork
     Tip 0xAAB0 0xAAB0 Tip) 0xAAB2 0xAAB4 (Fork Tip 0xAAB7 0xAAB8 Tip)) 0xAABE 0xAABF (Fork
     (Fork Tip 0xAAC1 0xAAC1 Tip) 0xAADD 0xAADD Tip)) 0xAAEC 0xAAED (Fork (Fork (Fork Tip
     0xAAF3 0xAAF4 Tip) 0xAAF6 0xAAF6 Tip) 0xAB5B 0xAB5F (Fork (Fork Tip 0xAB69 0xAB6B Tip)
     0xABE5 0xABE5 Tip))))) 0xABE8 0xABE8 (Fork (Fork (Fork (Fork (Fork (Fork Tip 0xABED 0xABED
     Tip) 0xFB1E 0xFB1E (Fork Tip 0xFBB2 0xFBC2 Tip)) 0xFE00 0xFE0F (Fork (Fork Tip 0xFE13
     0xFE13 Tip) 0xFE20 0xFE2F Tip)) 0xFE52 0xFE52 (Fork (Fork (Fork Tip 0xFE55 0xFE55 Tip)
     0xFEFF 0xFEFF (Fork Tip 0xFF07 0xFF07 Tip)) 0xFF0E 0xFF0E (Fork (Fork Tip 0xFF1A 0xFF1A
     Tip) 0xFF3E 0xFF3E Tip))) 0xFF40 0xFF40 (Fork (Fork (Fork (Fork Tip 0xFF70 0xFF70 Tip)
     0xFF9E 0xFF9F (Fork Tip 0xFFE3 0xFFE3 Tip)) 0xFFF9 0xFFFB (Fork (Fork Tip 0x101FD 0x101FD
     Tip) 0x102E0 0x102E0 Tip)) 0x10376 0x1037A (Fork (Fork (Fork Tip 0x10780 0x10785 Tip)
     0x10787 0x107B0 Tip) 0x107B2 0x107BA (Fork (Fork Tip 0x10A01 0x10A03 Tip) 0x10A05 0x10A06
     Tip)))) 0x10A0C 0x10A0F (Fork (Fork (Fork (Fork (Fork Tip 0x10A38 0x10A3A Tip) 0x10A3F
     0x10A3F (Fork Tip 0x10AE5 0x10AE6 Tip)) 0x10D24 0x10D27 (Fork (Fork Tip 0x10EAB 0x10EAC
     Tip) 0x10F46 0x10F50 Tip)) 0x10F82 0x10F85 (Fork (Fork (Fork Tip 0x11001 0x11001 Tip)
     0x11038 0x11046 Tip) 0x11070 0x11070 (Fork (Fork Tip 0x11073 0x11074 Tip) 0x1107F 0x11081
     Tip))) 0x110B3 0x110B6 (Fork (Fork (Fork (Fork Tip 0x110B9 0x110BA Tip) 0x110BD 0x110BD
     (Fork Tip 0x110C2 0x110C2 Tip)) 0x110CD 0x110CD (Fork (Fork Tip 0x11100 0x11102 Tip)
     0x11127 0x1112B Tip)) 0x1112D 0x11134 (Fork (Fork (Fork Tip 0x11173 0x11173 Tip) 0x11180
     0x11181 Tip) 0x111B6 0x111BE (Fork (Fork Tip 0x111C9 0x111CC Tip) 0x111CF 0x111CF
     Tip)))))) 0x1122F 0x11231 (Fork (Fork (Fork (Fork (Fork (Fork (Fork Tip 0x11234 0x11234
     Tip) 0x11236 0x11237 (Fork Tip 0x1123E 0x1123E Tip)) 0x112DF 0x112DF (Fork (Fork Tip
     0x112E3 0x112EA Tip) 0x11300 0x11301 Tip)) 0x1133B 0x1133C (Fork (Fork (Fork Tip 0x11340
     0x11340 Tip) 0x11366 0x1136C (Fork Tip 0x11370 0x11374 Tip)) 0x11438 0x1143F (Fork (Fork
     Tip 0x11442 0x11444 Tip) 0x11446 0x11446 Tip))) 0x1145E 0x1145E (Fork (Fork (Fork (Fork
     Tip 0x114B3 0x114B8 Tip) 0x114BA 0x114BA (Fork Tip 0x114BF 0x114C0 Tip)) 0x114C2 0x114C3
     (Fork (Fork Tip 0x115B2 0x115B5 Tip) 0x115BC 0x115BD Tip)) 0x115BF 0x115C0 (Fork (Fork
     (Fork Tip 0x115DC 0x115DD Tip) 0x11633 0x1163A Tip) 0x1163D 0x1163D (Fork (Fork Tip
     0x1163F 0x11640 Tip) 0x116AB 0x116AB Tip)))) 0x116AD 0x116AD (Fork (Fork (Fork (Fork (Fork
     Tip 0x116B0 0x116B5 Tip) 0x116B7 0x116B7 (Fork Tip 0x1171D 0x1171F Tip)) 0x11722 0x11725
     (Fork (Fork Tip 0x11727 0x1172B Tip) 0x1182F 0x11837 Tip)) 0x11839 0x1183A (Fork (Fork
     (Fork Tip 0x1193B 0x1193C Tip) 0x1193E 0x1193E Tip) 0x11943 0x11943 (Fork (Fork Tip
     0x119D4 0x119D7 Tip) 0x119DA 0x119DB Tip))) 0x119E0 0x119E0 (Fork (Fork (Fork (Fork Tip
     0x11A01 0x11A0A Tip) 0x11A33 0x11A38 (Fork Tip 0x11A3B 0x11A3E Tip)) 0x11A47 0x11A47 (Fork
     (Fork Tip 0x11A51 0x11A56 Tip) 0x11A59 0x11A5B Tip)) 0x11A8A 0x11A96 (Fork (Fork (Fork Tip
     0x11A98 0x11A99 Tip) 0x11C30 0x11C36 Tip) 0x11C38 0x11C3D (Fork (Fork Tip 0x11C3F 0x11C3F
     Tip) 0x11C92 0x11CA7 Tip))))) 0x11CAA 0x11CB0 (Fork (Fork (Fork (Fork (Fork (Fork Tip
     0x11CB2 0x11CB3 Tip) 0x11CB5 0x11CB6 (Fork Tip 0x11D31 0x11D36 Tip)) 0x11D3A 0x11D3A (Fork
     (Fork Tip 0x11D3C 0x11D3D Tip) 0x11D3F 0x11D45 Tip)) 0x11D47 0x11D47 (Fork (Fork (Fork Tip
     0x11D90 0x11D91 Tip) 0x11D95 0x11D95 Tip) 0x11D97 0x11D97 (Fork (Fork Tip 0x11EF3 0x11EF4
     Tip) 0x13430 0x13438 Tip))) 0x16AF0 0x16AF4 (Fork (Fork (Fork (Fork Tip 0x16B30 0x16B36
     Tip) 0x16B40 0x16B43 (Fork Tip 0x16F4F 0x16F4F Tip)) 0x16F8F 0x16F9F (Fork (Fork Tip
     0x16FE0 0x16FE1 Tip) 0x16FE3 0x16FE4 Tip)) 0x1AFF0 0x1AFF3 (Fork (Fork (Fork Tip 0x1AFF5
     0x1AFFB Tip) 0x1AFFD 0x1AFFE Tip) 0x1BC9D 0x1BC9E (Fork (Fork Tip 0x1BCA0 0x1BCA3 Tip)
     0x1CF00 0x1CF2D Tip)))) 0x1CF30 0x1CF46 (Fork (Fork (Fork (Fork (Fork Tip 0x1D167 0x1D169
     Tip) 0x1D173 0x1D182 (Fork Tip 0x1D185 0x1D18B Tip)) 0x1D1AA 0x1D1AD (Fork (Fork Tip
     0x1D242 0x1D244 Tip) 0x1DA00 0x1DA36 Tip)) 0x1DA3B 0x1DA6C (Fork (Fork (Fork Tip 0x1DA75
     0x1DA75 Tip) 0x1DA84 0x1DA84 Tip) 0x1DA9B 0x1DA9F (Fork (Fork Tip 0x1DAA1 0x1DAAF Tip)
     0x1E000 0x1E006 Tip))) 0x1E008 0x1E018 (Fork (Fork (Fork (Fork Tip 0x1E01B 0x1E021 Tip)
     0x1E023 0x1E024 (Fork Tip 0x1E026 0x1E02A Tip)) 0x1E130 0x1E13D (Fork (Fork Tip 0x1E2AE
     0x1E2AE Tip) 0x1E2EC 0x1E2EF Tip)) 0x1E8D0 0x1E8D6 (Fork (Fork (Fork Tip 0x1E944 0x1E94B
     Tip) 0x1F3FB 0x1F3FF Tip) 0xE0001 0xE0001 (Fork (Fork Tip 0xE0020 0xE007F Tip) 0xE0100
     0xE01EF Tip))))))))"

definition LOWER_TABLE :: "str table" where
  "LOWER_TABLE =
     (Fork (Fork (Fork (Fork (Fork (Fork (Fork (Fork (Fork (Fork (Fork Tip 0xC0 [0xE0] Tip)
     0xC1 [0xE1] Tip) 0xC2 [0xE2] (Fork (Fork Tip 0xC3 [0xE3] Tip) 0xC4 [0xE4] Tip)) 0xC5
     [0xE5] (Fork (Fork (Fork Tip 0xC6 [0xE6] Tip) 0xC7 [0xE7] Tip) 0xC8 [0xE8] (Fork Tip 0xC9
     [0xE9] Tip))) 0xCA [0xEA] (Fork (Fork (Fork (Fork Tip 0xCB [0xEB] Tip) 0xCC [0xEC] Tip)
     0xCD [0xED] (Fork (Fork Tip 0xCE [0xEE] Tip) 0xCF [0xEF] Tip)) 0xD0 [0xF0] (Fork (Fork
     (Fork Tip 0xD1 [0xF1] Tip) 0xD2 [0xF2] Tip) 0xD3 [0xF3] (Fork Tip 0xD4 [0xF4] Tip)))) 0xD5
     [0xF5] (Fork (Fork (Fork (Fork (Fork Tip 0xD6 [0xF6] Tip) 0xD8 [0xF8] Tip) 0xD9 [0xF9]
     (Fork (Fork Tip 0xDA [0xFA] Tip) 0xDB [0xFB] Tip)) 0xDC [0xFC] (Fork (Fork (Fork Tip 0xDD
     [0xFD] Tip) 0xDE [0xFE] Tip) 0x100 [0x101] (Fork Tip 0x102 [0x103] Tip))) 0x104 [0x105]
     (Fork (Fork (Fork (Fork Tip 0x106 [0x107] Tip) 0x108 [0x109] Tip) 0x10A [0x10B] (Fork
     (Fork Tip 0x10C [0x10D] Tip) 0x10E [0x10F] Tip)) 0x110 [0x111] (Fork (Fork (Fork Tip 0x112
     [0x113] Tip) 0x114 [0x115] Tip) 0x116 [0x117] (Fork Tip 0x118 [0x119] Tip))))) 0x11A
     [0x11B] (Fork (Fork (Fork (Fork (Fork (Fork Tip 0x11C [0x11D] Tip) 0x11E [0x11F] Tip)
     0x120 [0x121] (Fork (Fork Tip 0x122 [0x123] Tip) 0x124 [0x125] Tip)) 0x126 [0x127] (Fork
     (Fork (Fork Tip 0x128 [0x129] Tip) 0x12A [0x12B] Tip) 0x12C [0x12D] (Fork Tip 0x12E
     [0x12F] Tip))) 0x130 [0x69, 0x307] (Fork (Fork (Fork (Fork Tip 0x132 [0x133] Tip) 0x134
     [0x135] Tip) 0x136 [0x137] (Fork (Fork Tip 0x139 [0x13A] Tip) 0x13B [0x13C] Tip)) 0x13D
     [0x13E] (Fork (Fork (Fork Tip 0x13F [0x140] Tip) 0x141 [0x142] Tip) 0x143 [0x144] (Fork
     Tip 0x145 [0x146] Tip)))) 0x147 [0x148] (Fork (Fork (Fork (Fork (Fork Tip 0x14A [0x14B]
     Tip) 0x14C [0x14D] Tip) 0x14E [0x14F] (Fork (Fork Tip 0x150 [0x151] Tip) 0x152 [0x153]
     Tip)) 0x154 [0x155] (Fork (Fork (Fork Tip 0x156 [0x157] Tip) 0x158 [0x159] Tip) 0x15A
     [0x15B] (Fork Tip 0x15C [0x15D] Tip))) 0x15E [0x15F] (Fork (Fork (Fork (Fork Tip 0x160
     [0x161] Tip) 0x162 [0x163] Tip) 0x164 [0x165] (Fork (Fork Tip 0x166 [0x167] Tip) 0x168
     [0x169] Tip)) 0x16A [0x16B] (Fork (Fork (Fork Tip 0x16C [0x16D] Tip) 0x16E [0x16F] Tip)
     0x170 [0x171] (Fork Tip 0x172 [0x173] Tip)))))) 0x174 [0x175] (Fork (Fork (Fork (Fork
     (Fork (Fork (Fork Tip 0x176 [0x177] Tip) 0x178 [0xFF] Tip) 0x179 [0x17A] (Fork (Fork Tip
     0x17B [0x17C] Tip) 0x17D [0x17E] Tip)) 0x181 [0x253] (Fork (Fork (Fork Tip 0x182 [0x183]
     Tip) 0x184 [0x185] Tip) 0x186 [0x254] (Fork Tip 0x187 [0x188] Tip))) 0x189 [0x256] (Fork
     (Fork (Fork (Fork Tip 0x18A [0x257] Tip) 0x18B [0x18C] Tip) 0x18E [0x1DD] (Fork (Fork Tip
     0x18F [0x259] Tip) 0x190 [0x25B] Tip)) 0x191 [0x192] (Fork (Fork (Fork Tip 0x193 [0x260]
     Tip) 0x194 [0x263] Tip) 0x196 [0x269] (Fork Tip 0x197 [0x268] Tip)))) 0x198 [0x199] (Fork
     (Fork (Fork (Fork (Fork Tip 0x19C [0x26F] Tip) 0x19D [0x272] Tip) 0x19F [0x275] (Fork
     (Fork Tip 0x1A0 [0x1A1] Tip) 0x1A2 [0x1A3] Tip)) 0x1A4 [0x1A5] (Fork (Fork (Fork Tip 0x1A6
     [0x280] Tip) 0x1A7 [0x1A8] Tip) 0x1A9 [0x283] (Fork Tip 0x1AC [0x1AD] Tip))) 0x1AE [0x288]
     (Fork (Fork (Fork (Fork Tip 0x1AF [0x1B0] Tip) 0x1B1 [0x28A] Tip) 0x1B2 [0x28B] (Fork
     (Fork Tip 0x1B3 [0x1B4] Tip) 0x1B5 [0x1B6] Tip)) 0x1B7 [0x292] (Fork (Fork (Fork Tip 0x1B8
     [0x1B9] Tip) 0x1BC [0x1BD] Tip) 0x1C4 [0x1C6] (Fork Tip 0x1C5 [0x1C6] Tip))))) 0x1C7
     [0x1C9] (Fork (Fork (Fork (Fork (Fork (Fork Tip 0x1C8 [0x1C9] Tip) 0x1CA [0x1CC] Tip)
     0x1CB [0x1CC] (Fork (Fork Tip 0x1CD [0x1CE] Tip) 0x1CF [0x1D0] Tip)) 0x1D1 [0x1D2] (Fork
     (Fork (Fork Tip 0x1D3 [0x1D4] Tip) 0x1D5 [0x1D6] Tip) 0x1D7 [0x1D8] (Fork Tip 0x1D9
     [0x1DA] Tip))) 0x1DB [0x1DC] (Fork (Fork (Fork (Fork Tip 0x1DE [0x1DF] Tip) 0x1E0 [0x1E1]
     Tip) 0x1E2 [0x1E3] (Fork (Fork Tip 0x1E4 [0x1E5] Tip) 0x1E6 [0x1E7] Tip)) 0x1E8 [0x1E9]
     (Fork (Fork (Fork Tip 0x1EA [0x1EB] Tip) 0x1EC [0x1ED] Tip) 0x1EE [0x1EF] (Fork Tip 0x1F1
     [0x1F3] Tip)))) 0x1F2 [0x1F3] (Fork (Fork (Fork (Fork (Fork Tip 0x1F4 [0x1F5] Tip) 0x1F6
     [0x195] Tip) 0x1F7 [0x1BF] (Fork (Fork Tip 0x1F8 [0x1F9] Tip) 0x1FA [0x1FB] Tip)) 0x1FC
     [0x1FD] (Fork (Fork (Fork Tip 0x1FE [0x1FF] Tip) 0x200 [0x201] Tip) 0x202 [0x203] (Fork
     Tip 0x204 [0x205] Tip))) 0x206 [0x207] (Fork (Fork (Fork (Fork Tip 0x208 [0x209] Tip)
     0x20A [0x20B] Tip) 0x20C [0x20D] (Fork (Fork Tip 0x20E [0x20F] Tip) 0x210 [0x211] Tip))
     0x212 [0x213] (Fork (Fork (Fork Tip 0x214 [0x215] Tip) 0x216 [0x217] Tip) 0x218 [0x219]
     (Fork Tip 0x21A [0x21B] Tip))))))) 0x21C [0x21D] (Fork (Fork (Fork (Fork (Fork (Fork (Fork
     (Fork Tip 0x21E [0x21F] Tip) 0x220 [0x19E] Tip) 0x222 [0x223] (Fork (Fork Tip 0x224
     [0x225] Tip) 0x226 [0x227] Tip)) 0x228 [0x229] (Fork (Fork (Fork Tip 0x22A [0x22B] Tip)
     0x22C [0x22D] Tip) 0x22E [0x22F] (Fork Tip 0x230 [0x231] Tip))) 0x232 [0x233] (Fork (Fork
     (Fork (Fork Tip 0x23A [0x2C65] Tip) 0x23B [0x23C] Tip) 0x23D [0x19A] (Fork (Fork Tip 0x23E
     [0x2C66] Tip) 0x241 [0x242] Tip)) 0x243 [0x180] (Fork (Fork (Fork Tip 0x244 [0x289] Tip)
     0x245 [0x28C] Tip) 0x246 [0x247] (Fork Tip 0x248 [0x249] Tip)))) 0x24A [0x24B] (Fork (Fork
     (Fork (Fork (Fork Tip 0x24C [0x24D] Tip) 0x24E [0x24F] Tip) 0x370 [0x371] (Fork (Fork Tip
     0x372 [0x373] Tip) 0x376 [0x377] Tip)) 0x37F [0x3F3] (Fork (Fork (Fork Tip 0x386 [0x3AC]
     Tip) 0x388 [0x3AD] Tip) 0x389 [0x3AE] (Fork Tip 0x38A [0x3AF] Tip))) 0x38C [0x3CC] (Fork
     (Fork (Fork (Fork Tip 0x38E [0x3CD] Tip) 0x38F [0x3CE] Tip) 0x391 [0x3B1] (Fork (Fork Tip
     0x392 [0x3B2] Tip) 0x393 [0x3B3] Tip)) 0x394 [0x3B4] (Fork (Fork (Fork Tip 0x395 [0x3B5]
     Tip) 0x396 [0x3B6] Tip) 0x397 [0x3B7] (Fork Tip 0x398 [0x3B8] Tip))))) 0x399 [0x3B9] (Fork
     (Fork (Fork (Fork (Fork (Fork Tip 0x39A [0x3BA] Tip) 0x39B [0x3BB] Tip) 0x39C [0x3BC]
     (Fork (Fork Tip 0x39D [0x3BD] Tip) 0x39E [0x3BE] Tip)) 0x39F [0x3BF] (Fork (Fork (Fork Tip
     0x3A0 [0x3C0] Tip) 0x3A1 [0x3C1] Tip) 0x3A3 [0x3C3] (Fork Tip 0x3A4 [0x3C4] Tip))) 0x3A5
     [0x3C5] (Fork (Fork (Fork (Fork Tip 0x3A6 [0x3C6] Tip) 0x3A7 [0x3C7] Tip) 0x3A8 [0x3C8]
     (Fork (Fork Tip 0x3A9 [0x3C9] Tip) 0x3AA [0x3CA] Tip)) 0x3AB [0x3CB] (Fork (Fork (Fork Tip
     0x3CF [0x3D7] Tip) 0x3D8 [0x3D9] Tip) 0x3DA [0x3DB] (Fork Tip 0x3DC [0x3DD] Tip)))) 0x3DE
     [0x3DF] (Fork (Fork (Fork (Fork (Fork Tip 0x3E0 [0x3E1] Tip) 0x3E2 [0x3E3] Tip) 0x3E4
     [0x3E5] (Fork (Fork Tip 0x3E6 [0x3E7] Tip) 0x3E8 [0x3E9] Tip)) 0x3EA [0x3EB] (Fork (Fork
     (Fork Tip 0x3EC [0x3ED] Tip) 0x3EE [0x3EF] Tip) 0x3F4 [0x3B8] (Fork Tip 0x3F7 [0x3F8]
     Tip))) 0x3F9 [0x3F2] (Fork (Fork (Fork (Fork Tip 0x3FA [0x3FB] Tip) 0x3FD [0x37B] Tip)
     0x3FE [0x37C] (Fork (Fork Tip 0x3FF [0x37D] Tip) 0x400 [0x450] Tip)) 0x401 [0x451] (Fork
     (Fork (Fork Tip 0x402 [0x452] Tip) 0x403 [0x453] Tip) 0x404 [0x454] (Fork Tip 0x405
     [0x455] Tip)))))) 0x406 [0x456] (Fork (Fork (Fork (Fork (Fork (Fork (Fork Tip 0x407
     [0x457] Tip) 0x408 [0x458] Tip) 0x409 [0x459] (Fork (Fork Tip 0x40A [0x45A] Tip) 0x40B
     [0x45B] Tip)) 0x40C [0x45C] (Fork (Fork (Fork Tip 0x40D [0x45D] Tip) 0x40E [0x45E] Tip)
     0x40F [0x45F] (Fork Tip 0x410 [0x430] Tip))) 0x411 [0x431] (Fork (Fork (Fork (Fork Tip
     0x412 [0x432] Tip) 0x413 [0x433] Tip) 0x414 [0x434] (Fork (Fork Tip 0x415 [0x435] Tip)
     0x416 [0x436] Tip)) 0x417 [0x437] (Fork (Fork (Fork Tip 0x418 [0x438] Tip) 0x419 [0x439]
     Tip) 0x41A [0x43A] (Fork Tip 0x41B [0x43B] Tip)))) 0x41C [0x43C] (Fork (Fork (Fork (Fork
     (Fork Tip 0x41D [0x43D] Tip) 0x41E [0x43E] Tip) 0x41F [0x43F] (Fork (Fork Tip 0x420
     [0x440] Tip) 0x421 [0x441] Tip)) 0x422 [0x442] (Fork (Fork (Fork Tip 0x423 [0x443] Tip)
     0x424 [0x444] Tip) 0x425 [0x445] (Fork Tip 0x426 [0x446] Tip))) 0x427 [0x447] (Fork (Fork
     (Fork (Fork Tip 0x428 [0x448] Tip) 0x429 [0x449] Tip) 0x42A [0x44A] (Fork (Fork Tip 0x42B
     [0x44B] Tip) 0x42C [0x44C] Tip)) 0x42D [0x44D] (Fork (Fork (Fork Tip 0x42E [0x44E] Tip)
     0x42F [0x44F] Tip) 0x460 [0x461] (Fork Tip 0x462 [0x463] Tip))))) 0x464 [0x465] (Fork
     (Fork (Fork (Fork (Fork (Fork Tip 0x466 [0x467] Tip) 0x468 [0x469] Tip) 0x46A [0x46B]
     (Fork (Fork Tip 0x46C [0x46D] Tip) 0x46E [0x46F] Tip)) 0x470 [0x471] (Fork (Fork (Fork Tip
     0x472 [0x473] Tip) 0x474 [0x475] Tip) 0x476 [0x477] (Fork Tip 0x478 [0x479] Tip))) 0x47A
     [0x47B] (Fork (Fork (Fork (Fork Tip 0x47C [0x47D] Tip) 0x47E [0x47F] Tip) 0x480 [0x481]
     (Fork (Fork Tip 0x48A [0x48B] Tip) 0x48C [0x48D] Tip)) 0x48E [0x48F] (Fork (Fork (Fork Tip
     0x490 [0x491] Tip) 0x492 [0x493] Tip) 0x494 [0x495] (Fork Tip 0x496 [0x497] Tip)))) 0x498
     [0x499] (Fork (Fork (Fork (Fork (Fork Tip 0x49A [0x49B] Tip) 0x49C [0x49D] Tip) 0x49E
     [0x49F] (Fork (Fork Tip 0x4A0 [0x4A1] Tip) 0x4A2 [0x4A3] Tip)) 0x4A4 [0x4A5] (Fork (Fork
     (Fork Tip 0x4A6 [0x4A7] Tip) 0x4A8 [0x4A9] Tip) 0x4AA [0x4AB] (Fork Tip 0x4AC [0x4AD]
     Tip))) 0x4AE [0x4AF] (Fork (Fork (Fork (Fork Tip 0x4B0 [0x4B1] Tip) 0x4B2 [0x4B3] Tip)
     0x4B4 [0x4B5] (Fork (Fork Tip 0x4B6 [0x4B7] Tip) 0x4B8 [0x4B9] Tip)) 0x4BA [0x4BB] (Fork
     (Fork (Fork Tip 0x4BC [0x4BD] Tip) 0x4BE [0x4BF] Tip) 0x4C0 [0x4CF] (Fork Tip 0x4C1
     [0x4C2] Tip)))))))) 0x4C3 [0x4C4] (Fork (Fork (Fork (Fork (Fork (Fork (Fork (Fork (Fork
     Tip 0x4C5 [0x4C6] Tip) 0x4C7 [0x4C8] Tip) 0x4C9 [0x4CA] (Fork (Fork Tip 0x4CB [0x4CC] Tip)
     0x4CD [0x4CE] Tip)) 0x4D0 [0x4D1] (Fork (Fork (Fork Tip 0x4D2 [0x4D3] Tip) 0x4D4 [0x4D5]
     Tip) 0x4D6 [0x4D7] (Fork Tip 0x4D8 [0x4D9] Tip))) 0x4DA [0x4DB] (Fork (Fork (Fork (Fork
     Tip 0x4DC [0x4DD] Tip) 0x4DE [0x4DF] Tip) 0x4E0 [0x4E1] (Fork (Fork Tip 0x4E2 [0x4E3] Tip)
     0x4E4 [0x4E5] Tip)) 0x4E6 [0x4E7] (Fork (Fork (Fork Tip 0x4E8 [0x4E9] Tip) 0x4EA [0x4EB]
     Tip) 0x4EC [0x4ED] (Fork Tip 0x4EE [0x4EF] Tip)))) 0x4F0 [0x4F1] (Fork (Fork (Fork (Fork
     (Fork Tip 0x4F2 [0x4F3] Tip) 0x4F4 [0x4F5] Tip) 0x4F6 [0x4F7] (Fork (Fork Tip 0x4F8
     [0x4F9] Tip) 0x4FA [0x4FB] Tip)) 0x4FC [0x4FD] (Fork (Fork (Fork Tip 0x4FE [0x4FF] Tip)
     0x500 [0x501] Tip) 0x502 [0x503] (Fork Tip 0x504 [0x505] Tip))) 0x506 [0x507] (Fork (Fork
     (Fork (Fork Tip 0x508 [0x509] Tip) 0x50A [0x50B] Tip) 0x50C [0x50D] (Fork (Fork Tip 0x50E
     [0x50F] Tip) 0x510 [0x511] Tip)) 0x512 [0x513] (Fork (Fork (Fork Tip 0x514 [0x515] Tip)
     0x516 [0x517] Tip) 0x518 [0x519] (Fork Tip 0x51A [0x51B] Tip))))) 0x51C [0x51D] (Fork
     (Fork (Fork (Fork (Fork (Fork Tip 0x51E [0x51F] Tip) 0x520 [0x521] Tip) 0x522 [0x523]
     (Fork (Fork Tip 0x524 [0x525] Tip) 0x526 [0x527] Tip)) 0x528 [0x529] (Fork (Fork (Fork Tip
     0x52A [0x52B] Tip) 0x52C [0x52D] Tip) 0x52E [0x52F] (Fork Tip 0x531 [0x561] Tip))) 0x532
     [0x562] (Fork (Fork (Fork (Fork Tip 0x533 [0x563] Tip) 0x534 [0x564] Tip) 0x535 [0x565]
     (Fork (Fork Tip 0x536 [0x566] Tip) 0x537 [0x567] Tip)) 0x538 [0x568] (Fork (Fork (Fork Tip
     0x539 [0x569] Tip) 0x53A [0x56A] Tip) 0x53B [0x56B] (Fork Tip 0x53C [0x56C] Tip)))) 0x53D
     [0x56D] (Fork (Fork (Fork (Fork (Fork Tip 0x53E [0x56E] Tip) 0x53F [0x56F] Tip) 0x540
     [0x570] (Fork (Fork Tip 0x541 [0x571] Tip) 0x542 [0x572] Tip)) 0x543 [0x573] (Fork (Fork
     (Fork Tip 0x544 [0x574] Tip) 0x545 [0x575] Tip) 0x546 [0x576] (Fork Tip 0x547 [0x577]
     Tip))) 0x548 [0x578] (Fork (Fork (Fork (Fork Tip 0x549 [0x579] Tip) 0x54A [0x57A] Tip)
     0x54B [0x57B] (Fork (Fork Tip 0x54C [0x57C] Tip) 0x54D [0x57D] Tip)) 0x54E [0x57E] (Fork
     (Fork (Fork Tip 0x54F [0x57F] Tip) 0x550 [0x580] Tip) 0x551 [0x581] (Fork Tip 0x552
     [0x582] Tip)))))) 0x553 [0x583] (Fork (Fork (Fork (Fork (Fork (Fork (Fork Tip 0x554
     [0x584] Tip) 0x555 [0x585] Tip) 0x556 [0x586] (Fork (Fork Tip 0x10A0 [0x2D00] Tip) 0x10A1
     [0x2D01] Tip)) 0x10A2 [0x2D02] (Fork (Fork (Fork Tip 0x10A3 [0x2D03] Tip) 0x10A4 [0x2D04]
     Tip) 0x10A5 [0x2D05] (Fork Tip 0x10A6 [0x2D06] Tip))) 0x10A7 [0x2D07] (Fork (Fork (Fork
     (Fork Tip 0x10A8 [0x2D08] Tip) 0x10A9 [0x2D09] Tip) 0x10AA [0x2D0A] (Fork (Fork Tip 0x10AB
     [0x2D0B] Tip) 0x10AC [0x2D0C] Tip)) 0x10AD [0x2D0D] (Fork (Fork (Fork Tip 0x10AE [0x2D0E]
     Tip) 0x10AF [0x2D0F] Tip) 0x10B0 [0x2D10] (Fork Tip 0x10B1 [0x2D11] Tip)))) 0x10B2
     [0x2D12] (Fork (Fork (Fork (Fork (Fork Tip 0x10B3 [0x2D13] Tip) 0x10B4 [0x2D14] Tip)
     0x10B5 [0x2D15] (Fork (Fork Tip 0x10B6 [0x2D16] Tip) 0x10B7 [0x2D17] Tip)) 0x10B8 [0x2D18]
     (Fork (Fork (Fork Tip 0x10B9 [0x2D19] Tip) 0x10BA [0x2D1A] Tip) 0x10BB [0x2D1B] (Fork Tip
     0x10BC [0x2D1C] Tip))) 0x10BD [0x2D1D] (Fork (Fork (Fork (Fork Tip 0x10BE [0x2D1E] Tip)
     0x10BF [0x2D1F] Tip) 0x10C0 [0x2D20] (Fork (Fork Tip 0x10C1 [0x2D21] Tip) 0x10C2 [0x2D22]
     Tip)) 0x10C3 [0x2D23] (Fork (Fork (Fork Tip 0x10C4 [0x2D24] Tip) 0x10C5 [0x2D25] Tip)
     0x10C7 [0x2D27] (Fork Tip 0x10CD [0x2D2D] Tip))))) 0x13A0 [0xAB70] (Fork (Fork (Fork (Fork
     (Fork (Fork Tip 0x13A1 [0xAB71] Tip) 0x13A2 [0xAB72] Tip) 0x13A3 [0xAB73] (Fork (Fork Tip
     0x13A4 [0xAB74] Tip) 0x13A5 [0xAB75] Tip)) 0x13A6 [0xAB76] (Fork (Fork (Fork Tip 0x13A7
     [0xAB77] Tip) 0x13A8 [0xAB78] Tip) 0x13A9 [0xAB79] (Fork Tip 0x13AA [0xAB7A] Tip))) 0x13AB
     [0xAB7B] (Fork (Fork (Fork (Fork Tip 0x13AC [0xAB7C] Tip) 0x13AD [0xAB7D] Tip) 0x13AE
     [0xAB7E] (Fork (Fork Tip 0x13AF [0xAB7F] Tip) 0x13B0 [0xAB80] Tip)) 0x13B1 [0xAB81] (Fork
     (Fork (Fork Tip 0x13B2 [0xAB82] Tip) 0x13B3 [0xAB83] Tip) 0x13B4 [0xAB84] (Fork Tip 0x13B5
     [0xAB85] Tip)))) 0x13B6 [0xAB86] (Fork (Fork (Fork (Fork (Fork Tip 0x13B7 [0xAB87] Tip)
     0x13B8 [0xAB88] Tip) 0x13B9 [0xAB89] (Fork (Fork Tip 0x13BA [0xAB8A] Tip) 0x13BB [0xAB8B]
     Tip)) 0x13BC [0xAB8C] (Fork (Fork (Fork Tip 0x13BD [0xAB8D] Tip) 0x13BE [0xAB8E] Tip)
     0x13BF [0xAB8F] (Fork Tip 0x13C0 [0xAB90] Tip))) 0x13C1 [0xAB91] (Fork (Fork (Fork (Fork
     Tip 0x13C2 [0xAB92] Tip) 0x13C3 [0xAB93] Tip) 0x13C4 [0xAB94] (Fork (Fork Tip 0x13C5
     [0xAB95] Tip) 0x13C6 [0xAB96] Tip)) 0x13C7 [0xAB97] (Fork (Fork (Fork Tip 0x13C8 [0xAB98]
     Tip) 0x13C9 [0xAB99] Tip) 0x13CA [0xAB9A] (Fork Tip 0x13CB [0xAB9B] Tip))))))) 0x13CC
     [0xAB9C] (Fork (Fork (Fork (Fork (Fork (Fork (Fork (Fork Tip 0x13CD [0xAB9D] Tip) 0x13CE
     [0xAB9E] Tip) 0x13CF [0xAB9F] (Fork (Fork Tip 0x13D0 [0xABA0] Tip) 0x13D1 [0xABA1] Tip))
     0x13D2 [0xABA2] (Fork (Fork (Fork Tip 0x13D3 [0xABA3] Tip) 0x13D4 [0xABA4] Tip) 0x13D5
     [0xABA5] (Fork Tip 0x13D6 [0xABA6] Tip))) 0x13D7 [0xABA7] (Fork (Fork (Fork (Fork Tip
     0x13D8 [0xABA8] Tip) 0x13D9 [0xABA9] Tip) 0x13DA [0xABAA] (Fork (Fork Tip 0x13DB [0xABAB]
     Tip) 0x13DC [0xABAC] Tip)) 0x13DD [0xABAD] (Fork (Fork (Fork Tip 0x13DE [0xABAE] Tip)
     0x13DF [0xABAF] Tip) 0x13E0 [0xABB0] (Fork Tip 0x13E1 [0xABB1] Tip)))) 0x13E2 [0xABB2]
     (Fork (Fork (Fork (Fork (Fork Tip 0x13E3 [0xABB3] Tip) 0x13E4 [0xABB4] Tip) 0x13E5
     [0xABB5] (Fork (Fork Tip 0x13E6 [0xABB6] Tip) 0x13E7 [0xABB7] Tip)) 0x13E8 [0xABB8] (Fork
     (Fork (Fork Tip 0x13E9 [0xABB9] Tip) 0x13EA [0xABBA] Tip) 0x13EB [0xABBB] (Fork Tip 0x13EC
     [0xABBC] Tip))) 0x13ED [0xABBD] (Fork (Fork (Fork (Fork Tip 0x13EE [0xABBE] Tip) 0x13EF
     [0xABBF] Tip) 0x13F0 [0x13F8] (Fork (Fork Tip 0x13F1 [0x13F9] Tip) 0x13F2 [0x13FA] Tip))
     0x13F3 [0x13FB] (Fork (Fork (Fork Tip 0x13F4 [0x13FC] Tip) 0x13F5 [0x13FD] Tip) 0x1C90
     [0x10D0] (Fork Tip 0x1C91 [0x10D1] Tip))))) 0x1C92 [0x10D2] (Fork (Fork (Fork (Fork (Fork
     (Fork Tip 0x1C93 [0x10D3] Tip) 0x1C94 [0x10D4] Tip) 0x1C95 [0x10D5] (Fork (Fork Tip 0x1C96
     [0x10D6] Tip) 0x1C97 [0x10D7] Tip)) 0x1C98 [0x10D8] (Fork (Fork (Fork Tip 0x1C99 [0x10D9]
     Tip) 0x1C9A [0x10DA] Tip) 0x1C9B [0x10DB] (Fork Tip 0x1C9C [0x10DC] Tip))) 0x1C9D [0x10DD]
     (Fork (Fork (Fork (Fork Tip 0x1C9E [0x10DE] Tip) 0x1C9F [0x10DF] Tip) 0x1CA0 [0x10E0]
     (Fork (Fork Tip 0x1CA1 [0x10E1] Tip) 0x1CA2 [0x10E2] Tip)) 0x1CA3 [0x10E3] (Fork (Fork
     (Fork Tip 0x1CA4 [0x10E4] Tip) 0x1CA5 [0x10E5] Tip) 0x1CA6 [0x10E6] (Fork Tip 0x1CA7
     [0x10E7] Tip)))) 0x1CA8 [0x10E8] (Fork (Fork (Fork (Fork (Fork Tip 0x1CA9 [0x10E9] Tip)
     0x1CAA [0x10EA] Tip) 0x1CAB [0x10EB] (Fork (Fork Tip 0x1CAC [0x10EC] Tip) 0x1CAD [0x10ED]
     Tip)) 0x1CAE [0x10EE] (Fork (Fork (Fork Tip 0x1CAF [0x10EF] Tip) 0x1CB0 [0x10F0] Tip)
     0x1CB1 [0x10F1] (Fork Tip 0x1CB2 [0x10F2] Tip))) 0x1CB3 [0x10F3] (Fork (Fork (Fork (Fork
     Tip 0x1CB4 [0x10F4] Tip) 0x1CB5 [0x10F5] Tip) 0x1CB6 [0x10F6] (Fork (Fork Tip 0x1CB7
     [0x10F7] Tip) 0x1CB8 [0x10F8] Tip)) 0x1CB9 [0x10F9] (Fork (Fork (Fork Tip 0x1CBA [0x10FA]
     Tip) 0x1CBD [0x10FD] Tip) 0x1CBE [0x10FE] (Fork Tip 0x1CBF [0x10FF] Tip)))))) 0x1E00
     [0x1E01] (Fork (Fork (Fork (Fork (Fork (Fork (Fork Tip 0x1E02 [0x1E03] Tip) 0x1E04
     [0x1E05] Tip) 0x1E06 [0x1E07] (Fork (Fork Tip 0x1E08 [0x1E09] Tip) 0x1E0A [0x1E0B] Tip))
     0x1E0C [0x1E0D] (Fork (Fork (Fork Tip 0x1E0E [0x1E0F] Tip) 0x1E10 [0x1E11] Tip) 0x1E12
     [0x1E13] (Fork Tip 0x1E14 [0x1E15] Tip))) 0x1E16 [0x1E17] (Fork (Fork (Fork (Fork Tip
     0x1E18 [0x1E19] Tip) 0x1E1A [0x1E1B] Tip) 0x1E1C [0x1E1D] (Fork (Fork Tip 0x1E1E [0x1E1F]
     Tip) 0x1E20 [0x1E21] Tip)) 0x1E22 [0x1E23] (Fork (Fork (Fork Tip 0x1E24 [0x1E25] Tip)
     0x1E26 [0x1E27] Tip) 0x1E28 [0x1E29] (Fork Tip 0x1E2A [0x1E2B] Tip)))) 0x1E2C [0x1E2D]
     (Fork (Fork (Fork (Fork (Fork Tip 0x1E2E [0x1E2F] Tip) 0x1E30 [0x1E31] Tip) 0x1E32
     [0x1E33] (Fork (Fork Tip 0x1E34 [0x1E35] Tip) 0x1E36 [0x1E37] Tip)) 0x1E38 [0x1E39] (Fork
     (Fork (Fork Tip 0x1E3A [0x1E3B] Tip) 0x1E3C [0x1E3D] Tip) 0x1E3E [0x1E3F] (Fork Tip 0x1E40
     [0x1E41] Tip))) 0x1E42 [0x1E43] (Fork (Fork (Fork (Fork Tip 0x1E44 [0x1E45] Tip) 0x1E46
     [0x1E47] Tip) 0x1E48 [0x1E49] (Fork (Fork Tip 0x1E4A [0x1E4B] Tip) 0x1E4C [0x1E4D] Tip))
     0x1E4E [0x1E4F] (Fork (Fork (Fork Tip 0x1E50 [0x1E51] Tip) 0x1E52 [0x1E53] Tip) 0x1E54
     [0x1E55] (Fork Tip 0x1E56 [0x1E57] Tip))))) 0x1E58 [0x1E59] (Fork (Fork (Fork (Fork (Fork
     (Fork Tip 0x1E5A [0x1E5B] Tip) 0x1E5C [0x1E5D] Tip) 0x1E5E [0x1E5F] (Fork (Fork Tip 0x1E60
     [0x1E61] Tip) 0x1E62 [0x1E63] Tip)) 0x1E64 [0x1E65] (Fork (Fork (Fork Tip 0x1E66 [0x1E67]
     Tip) 0x1E68 [0x1E69] Tip) 0x1E6A [0x1E6B] (Fork Tip 0x1E6C [0x1E6D] Tip))) 0x1E6E [0x1E6F]
     (Fork (Fork (Fork (Fork Tip 0x1E70 [0x1E71] Tip) 0x1E72 [0x1E73] Tip) 0x1E74 [0x1E75]
     (Fork (Fork Tip 0x1E76 [0x1E77] Tip) 0x1E78 [0x1E79] Tip)) 0x1E7A [0x1E7B] (Fork (Fork
     (Fork Tip 0x1E7C [0x1E7D] Tip) 0x1E7E [0x1E7F] Tip) 0x1E80 [0x1E81] (Fork Tip 0x1E82
     [0x1E83] Tip)))) 0x1E84 [0x1E85] (Fork (Fork (Fork (Fork (Fork Tip 0x1E86 [0x1E87] Tip)
     0x1E88 [0x1E89] Tip) 0x1E8A [0x1E8B] (Fork (Fork Tip 0x1E8C [0x1E8D] Tip) 0x1E8E [0x1E8F]
     Tip)) 0x1E90 [0x1E91] (Fork (Fork (Fork Tip 0x1E92 [0x1E93] Tip) 0x1E94 [0x1E95] Tip)
     0x1E9E [0xDF] (Fork Tip 0x1EA0 [0x1EA1] Tip))) 0x1EA2 [0x1EA3] (Fork (Fork (Fork (Fork Tip
     0x1EA4 [0x1EA5] Tip) 0x1EA6 [0x1EA7] Tip) 0x1EA8 [0x1EA9] (Fork (Fork Tip 0x1EAA [0x1EAB]
     Tip) 0x1EAC [0x1EAD] Tip)) 0x1EAE [0x1EAF] (Fork (Fork (Fork Tip 0x1EB0 [0x1EB1] Tip)
     0x1EB2 [0x1EB3] Tip) 0x1EB4 [0x1EB5] (Fork Tip 0x1EB6 [0x1EB7] Tip))))))))) 0x1EB8
     [0x1EB9] (Fork (Fork (Fork (Fork (Fork (Fork (Fork (Fork (Fork (Fork Tip 0x1EBA [0x1EBB]
     Tip) 0x1EBC [0x1EBD] Tip) 0x1EBE [0x1EBF] (Fork (Fork Tip 0x1EC0 [0x1EC1] Tip) 0x1EC2
     [0x1EC3] Tip)) 0x1EC4 [0x1EC5] (Fork (Fork (Fork Tip 0x1EC6 [0x1EC7] Tip) 0x1EC8 [0x1EC9]
     Tip) 0x1ECA [0x1ECB] (Fork Tip 0x1ECC [0x1ECD] Tip))) 0x1ECE [0x1ECF] (Fork (Fork (Fork
     (Fork Tip 0x1ED0 [0x1ED1] Tip) 0x1ED2 [0x1ED3] Tip) 0x1ED4 [0x1ED5] (Fork (Fork Tip 0x1ED6
     [0x1ED7] Tip) 0x1ED8 [0x1ED9] Tip)) 0x1EDA [0x1EDB] (Fork (Fork (Fork Tip 0x1EDC [0x1EDD]
     Tip) 0x1EDE [0x1EDF] Tip) 0x1EE0 [0x1EE1] (Fork Tip 0x1EE2 [0x1EE3] Tip)))) 0x1EE4
     [0x1EE5] (Fork (Fork (Fork (Fork (Fork Tip 0x1EE6 [0x1EE7] Tip) 0x1EE8 [0x1EE9] Tip)
     0x1EEA [0x1EEB] (Fork (Fork Tip 0x1EEC [0x1EED] Tip) 0x1EEE [0x1EEF] Tip)) 0x1EF0 [0x1EF1]
     (Fork (Fork (Fork Tip 0x1EF2 [0x1EF3] Tip) 0x1EF4 [0x1EF5] Tip) 0x1EF6 [0x1EF7] (Fork Tip
     0x1EF8 [0x1EF9] Tip))) 0x1EFA [0x1EFB] (Fork (Fork (Fork (Fork Tip 0x1EFC [0x1EFD] Tip)
     0x1EFE [0x1EFF] Tip) 0x1F08 [0x1F00] (Fork (Fork Tip 0x1F09 [0x1F01] Tip) 0x1F0A [0x1F02]
     Tip)) 0x1F0B [0x1F03] (Fork (Fork (Fork Tip 0x1F0C [0x1F04] Tip) 0x1F0D [0x1F05] Tip)
     0x1F0E [0x1F06] (Fork Tip 0x1F0F [0x1F07] Tip))))) 0x1F18 [0x1F10] (Fork (Fork (Fork (Fork
     (Fork (Fork Tip 0x1F19 [0x1F11] Tip) 0x1F1A [0x1F12] Tip) 0x1F1B [0x1F13] (Fork (Fork Tip
     0x1F1C [0x1F14] Tip) 0x1F1D [0x1F15] Tip)) 0x1F28 [0x1F20] (Fork (Fork (Fork Tip 0x1F29
     [0x1F21] Tip) 0x1F2A [0x1F22] Tip) 0x1F2B [0x1F23] (Fork Tip 0x1F2C [0x1F24] Tip))) 0x1F2D
     [0x1F25] (Fork (Fork (Fork (Fork Tip 0x1F2E [0x1F26] Tip) 0x1F2F [0x1F27] Tip) 0x1F38
     [0x1F30] (Fork (Fork Tip 0x1F39 [0x1F31] Tip) 0x1F3A [0x1F32] Tip)) 0x1F3B [0x1F33] (Fork
     (Fork (Fork Tip 0x1F3C [0x1F34] Tip) 0x1F3D [0x1F35] Tip) 0x1F3E [0x1F36] (Fork Tip 0x1F3F
     [0x1F37] Tip)))) 0x1F48 [0x1F40] (Fork (Fork (Fork (Fork (Fork Tip 0x1F49 [0x1F41] Tip)
     0x1F4A [0x1F42] Tip) 0x1F4B [0x1F43] (Fork (Fork Tip 0x1F4C [0x1F44] Tip) 0x1F4D [0x1F45]
     Tip)) 0x1F59 [0x1F51] (Fork (Fork (Fork Tip 0x1F5B [0x1F53] Tip) 0x1F5D [0x1F55] Tip)
     0x1F5F [0x1F57] (Fork Tip 0x1F68 [0x1F60] Tip))) 0x1F69 [0x1F61] (Fork (Fork (Fork (Fork
     Tip 0x1F6A [0x1F62] Tip) 0x1F6B [0x1F63] Tip) 0x1F6C [0x1F64] (Fork (Fork Tip 0x1F6D
     [0x1F65] Tip) 0x1F6E [0x1F66] Tip)) 0x1F6F [0x1F67] (Fork (Fork (Fork Tip 0x1F88 [0x1F80]
     Tip) 0x1F89 [0x1F81] Tip) 0x1F8A [0x1F82] (Fork Tip 0x1F8B [0x1F83] Tip)))))) 0x1F8C
     [0x1F84] (Fork (Fork (Fork (Fork (Fork (Fork (Fork Tip 0x1F8D [0x1F85] Tip) 0x1F8E
     [0x1F86] Tip) 0x1F8F [0x1F87] (Fork (Fork Tip 0x1F98 [0x1F90] Tip) 0x1F99 [0x1F91] Tip))
     0x1F9A [0x1F92] (Fork (Fork (Fork Tip 0x1F9B [0x1F93] Tip) 0x1F9C [0x1F94] Tip) 0x1F9D
     [0x1F95] (Fork Tip 0x1F9E [0x1F96] Tip))) 0x1F9F [0x1F97] (Fork (Fork (Fork (Fork Tip
     0x1FA8 [0x1FA0] Tip) 0x1FA9 [0x1FA1] Tip) 0x1FAA [0x1FA2] (Fork (Fork Tip 0x1FAB [0x1FA3]
     Tip) 0x1FAC [0x1FA4] Tip)) 0x1FAD [0x1FA5] (Fork (Fork (Fork Tip 0x1FAE [0x1FA6] Tip)
     0x1FAF [0x1FA7] Tip) 0x1FB8 [0x1FB0] (Fork Tip 0x1FB9 [0x1FB1] Tip)))) 0x1FBA [0x1F70]
     (Fork (Fork (Fork (Fork (Fork Tip 0x1FBB [0x1F71] Tip) 0x1FBC [0x1FB3] Tip) 0x1FC8
     [0x1F72] (Fork (Fork Tip 0x1FC9 [0x1F73] Tip) 0x1FCA [0x1F74] Tip)) 0x1FCB [0x1F75] (Fork
     (Fork (Fork Tip 0x1FCC [0x1FC3] Tip) 0x1FD8 [0x1FD0] Tip) 0x1FD9 [0x1FD1] (Fork Tip 0x1FDA
     [0x1F76] Tip))) 0x1FDB [0x1F77] (Fork (Fork (Fork (Fork Tip 0x1FE8 [0x1FE0] Tip) 0x1FE9
     [0x1FE1] Tip) 0x1FEA [0x1F7A] (Fork (Fork Tip 0x1FEB [0x1F7B] Tip) 0x1FEC [0x1FE5] Tip))
     0x1FF8 [0x1F78] (Fork (Fork (Fork Tip 0x1FF9 [0x1F79] Tip) 0x1FFA [0x1F7C] Tip) 0x1FFB
     [0x1F7D] (Fork Tip 0x1FFC [0x1FF3] Tip))))) 0x2126 [0x3C9] (Fork (Fork (Fork (Fork (Fork
     (Fork Tip 0x212A [0x6B] Tip) 0x212B [0xE5] Tip) 0x2132 [0x214E] (Fork (Fork Tip 0x2160
     [0x2170] Tip) 0x2161 [0x2171] Tip)) 0x2162 [0x2172] (Fork (Fork (Fork Tip 0x2163 [0x2173]
     Tip) 0x2164 [0x2174] Tip) 0x2165 [0x2175] (Fork Tip 0x2166 [0x2176] Tip))) 0x2167 [0x2177]
     (Fork (Fork (Fork (Fork Tip 0x2168 [0x2178] Tip) 0x2169 [0x2179] Tip) 0x216A [0x217A]
     (Fork (Fork Tip 0x216B [0x217B] Tip) 0x216C [0x217C] Tip)) 0x216D [0x217D] (Fork (Fork
     (Fork Tip 0x216E [0x217E] Tip) 0x216F [0x217F] Tip) 0x2183 [0x2184] (Fork Tip 0x24B6
     [0x24D0] Tip)))) 0x24B7 [0x24D1] (Fork (Fork (Fork (Fork (Fork Tip 0x24B8 [0x24D2] Tip)
     0x24B9 [0x24D3] Tip) 0x24BA [0x24D4] (Fork (Fork Tip 0x24BB [0x24D5] Tip) 0x24BC [0x24D6]
     Tip)) 0x24BD [0x24D7] (Fork (Fork (Fork Tip 0x24BE [0x24D8] Tip) 0x24BF [0x24D9] Tip)
     0x24C0 [0x24DA] (Fork Tip 0x24C1 [0x24DB] Tip))) 0x24C2 [0x24DC] (Fork (Fork (Fork (Fork
     Tip 0x24C3 [0x24DD] Tip) 0x24C4 [0x24DE] Tip) 0x24C5 [0x24DF] (Fork (Fork Tip 0x24C6
     [0x24E0] Tip) 0x24C7 [0x24E1] Tip)) 0x24C8 [0x24E2] (Fork (Fork (Fork Tip 0x24C9 [0x24E3]
     Tip) 0x24CA [0x24E4] Tip) 0x24CB [0x24E5] (Fork Tip 0x24CC [0x24E6] Tip))))))) 0x24CD
     [0x24E7] (Fork (Fork (Fork (Fork (Fork (Fork (Fork (Fork Tip 0x24CE [0x24E8] Tip) 0x24CF
     [0x24E9] Tip) 0x2C00 [0x2C30] (Fork (Fork Tip 0x2C01 [0x2C31] Tip) 0x2C02 [0x2C32] Tip))
     0x2C03 [0x2C33] (Fork (Fork (Fork Tip 0x2C04 [0x2C34] Tip) 0x2C05 [0x2C35] Tip) 0x2C06
     [0x2C36] (Fork Tip 0x2C07 [0x2C37] Tip))) 0x2C08 [0x2C38] (Fork (Fork (Fork (Fork Tip
     0x2C09 [0x2C39] Tip) 0x2C0A [0x2C3A] Tip) 0x2C0B [0x2C3B] (Fork (Fork Tip 0x2C0C [0x2C3C]
     Tip) 0x2C0D [0x2C3D] Tip)) 0x2C0E [0x2C3E] (Fork (Fork (Fork Tip 0x2C0F [0x2C3F] Tip)
     0x2C10 [0x2C40] Tip) 0x2C11 [0x2C41] (Fork Tip 0x2C12 [0x2C42] Tip)))) 0x2C13 [0x2C43]
     (Fork (Fork (Fork (Fork (Fork Tip 0x2C14 [0x2C44] Tip) 0x2C15 [0x2C45] Tip) 0x2C16
     [0x2C46] (Fork (Fork Tip 0x2C17 [0x2C47] Tip) 0x2C18 [0x2C48] Tip)) 0x2C19 [0x2C49] (Fork
     (Fork (Fork Tip 0x2C1A [0x2C4A] Tip) 0x2C1B [0x2C4B] Tip) 0x2C1C [0x2C4C] (Fork Tip 0x2C1D
     [0x2C4D] Tip))) 0x2C1E [0x2C4E] (Fork (Fork (Fork (Fork Tip 0x2C1F [0x2C4F] Tip) 0x2C20
     [0x2C50] Tip) 0x2C21 [0x2C51] (Fork (Fork Tip 0x2C22 [0x2C52] Tip) 0x2C23 [0x2C53] Tip))
     0x2C24 [0x2C54] (Fork (Fork (Fork Tip 0x2C25 [0x2C55] Tip) 0x2C26 [0x2C56] Tip) 0x2C27
     [0x2C57] (Fork Tip 0x2C28 [0x2C58] Tip))))) 0x2C29 [0x2C59] (Fork (Fork (Fork (Fork (Fork
     (Fork Tip 0x2C2A [0x2C5A] Tip) 0x2C2B [0x2C5B] Tip) 0x2C2C [0x2C5C] (Fork (Fork Tip 0x2C2D
     [0x2C5D] Tip) 0x2C2E [0x2C5E] Tip)) 0x2C2F [0x2C5F] (Fork (Fork (Fork Tip 0x2C60 [0x2C61]
     Tip) 0x2C62 [0x26B] Tip) 0x2C63 [0x1D7D] (Fork Tip 0x2C64 [0x27D] Tip))) 0x2C67 [0x2C68]
     (Fork (Fork (Fork (Fork Tip 0x2C69 [0x2C6A] Tip) 0x2C6B [0x2C6C] Tip) 0x2C6D [0x251] (Fork
     (Fork Tip 0x2C6E [0x271] Tip) 0x2C6F [0x250] Tip)) 0x2C70 [0x252] (Fork (Fork (Fork Tip
     0x2C72 [0x2C73] Tip) 0x2C75 [0x2C76] Tip) 0x2C7E [0x23F] (Fork Tip 0x2C7F [0x240] Tip))))
     0x2C80 [0x2C81] (Fork (Fork (Fork (Fork (Fork Tip 0x2C82 [0x2C83] Tip) 0x2C84 [0x2C85]
     Tip) 0x2C86 [0x2C87] (Fork (Fork Tip 0x2C88 [0x2C89] Tip) 0x2C8A [0x2C8B] Tip)) 0x2C8C
     [0x2C8D] (Fork (Fork (Fork Tip 0x2C8E [0x2C8F] Tip) 0x2C90 [0x2C91] Tip) 0x2C92 [0x2C93]
     (Fork Tip 0x2C94 [0x2C95] Tip))) 0x2C96 [0x2C97] (Fork (Fork (Fork (Fork Tip 0x2C98
     [0x2C99] Tip) 0x2C9A [0x2C9B] Tip) 0x2C9C [0x2C9D] (Fork (Fork Tip 0x2C9E [0x2C9F] Tip)
     0x2CA0 [0x2CA1] Tip)) 0x2CA2 [0x2CA3] (Fork (Fork (Fork Tip 0x2CA4 [0x2CA5] Tip) 0x2CA6
     [0x2CA7] Tip) 0x2CA8 [0x2CA9] (Fork Tip 0x2CAA [0x2CAB] Tip)))))) 0x2CAC [0x2CAD] (Fork
     (Fork (Fork (Fork (Fork (Fork (Fork Tip 0x2CAE [0x2CAF] Tip) 0x2CB0 [0x2CB1] Tip) 0x2CB2
     [0x2CB3] (Fork (Fork Tip 0x2CB4 [0x2CB5] Tip) 0x2CB6 [0x2CB7] Tip)) 0x2CB8 [0x2CB9] (Fork
     (Fork (Fork Tip 0x2CBA [0x2CBB] Tip) 0x2CBC [0x2CBD] Tip) 0x2CBE [0x2CBF] (Fork Tip 0x2CC0
     [0x2CC1] Tip))) 0x2CC2 [0x2CC3] (Fork (Fork (Fork (Fork Tip 0x2CC4 [0x2CC5] Tip) 0x2CC6
     [0x2CC7] Tip) 0x2CC8 [0x2CC9] (Fork (Fork Tip 0x2CCA [0x2CCB] Tip) 0x2CCC [0x2CCD] Tip))
     0x2CCE [0x2CCF] (Fork (Fork (Fork Tip 0x2CD0 [0x2CD1] Tip) 0x2CD2 [0x2CD3] Tip) 0x2CD4
     [0x2CD5] (Fork Tip 0x2CD6 [0x2CD7] Tip)))) 0x2CD8 [0x2CD9] (Fork (Fork (Fork (Fork (Fork
     Tip 0x2CDA [0x2CDB] Tip) 0x2CDC [0x2CDD] Tip) 0x2CDE [0x2CDF] (Fork (Fork Tip 0x2CE0
     [0x2CE1] Tip) 0x2CE2 [0x2CE3] Tip)) 0x2CEB [0x2CEC] (Fork (Fork (Fork Tip 0x2CED [0x2CEE]
     Tip) 0x2CF2 [0x2CF3] Tip) 0xA640 [0xA641] (Fork Tip 0xA642 [0xA643] Tip))) 0xA644 [0xA645]
     (Fork (Fork (Fork (Fork Tip 0xA646 [0xA647] Tip) 0xA648 [0xA649] Tip) 0xA64A [0xA64B]
     (Fork (Fork Tip 0xA64C [0xA64D] Tip) 0xA64E [0xA64F] Tip)) 0xA650 [0xA651] (Fork (Fork
     (Fork Tip 0xA652 [0xA653] Tip) 0xA654 [0xA655] Tip) 0xA656 [0xA657] (Fork Tip 0xA658
     [0xA659] Tip))))) 0xA65A [0xA65B] (Fork (Fork (Fork (Fork (Fork (Fork Tip 0xA65C [0xA65D]
     Tip) 0xA65E [0xA65F] Tip) 0xA660 [0xA661] (Fork (Fork Tip 0xA662 [0xA663] Tip) 0xA664
     [0xA665] Tip)) 0xA666 [0xA667] (Fork (Fork (Fork Tip 0xA668 [0xA669] Tip) 0xA66A [0xA66B]
     Tip) 0xA66C [0xA66D] (Fork Tip 0xA680 [0xA681] Tip))) 0xA682 [0xA683] (Fork (Fork (Fork
     (Fork Tip 0xA684 [0xA685] Tip) 0xA686 [0xA687] Tip) 0xA688 [0xA689] (Fork (Fork Tip 0xA68A
     [0xA68B] Tip) 0xA68C [0xA68D] Tip)) 0xA68E [0xA68F] (Fork (Fork (Fork Tip 0xA690 [0xA691]
     Tip) 0xA692 [0xA693] Tip) 0xA694 [0xA695] (Fork Tip 0xA696 [0xA697] Tip)))) 0xA698
     [0xA699] (Fork (Fork (Fork (Fork (Fork Tip 0xA69A [0xA69B] Tip) 0xA722 [0xA723] Tip)
     0xA724 [0xA725] (Fork (Fork Tip 0xA726 [0xA727] Tip) 0xA728 [0xA729] Tip)) 0xA72A [0xA72B]
     (Fork (Fork (Fork Tip 0xA72C [0xA72D] Tip) 0xA72E [0xA72F] Tip) 0xA732 [0xA733] (Fork Tip
     0xA734 [0xA735] Tip))) 0xA736 [0xA737] (Fork (Fork (Fork (Fork Tip 0xA738 [0xA739] Tip)
     0xA73A [0xA73B] Tip) 0xA73C [0xA73D] (Fork (Fork Tip 0xA73E [0xA73F] Tip) 0xA740 [0xA741]
     Tip)) 0xA742 [0xA743] (Fork (Fork (Fork Tip 0xA744 [0xA745] Tip) 0xA746 [0xA747] Tip)
     0xA748 [0xA749] (Fork Tip 0xA74A [0xA74B] Tip)))))))) 0xA74C [0xA74D] (Fork (Fork (Fork
     (Fork (Fork (Fork (Fork (Fork (Fork Tip 0xA74E [0xA74F] Tip) 0xA750 [0xA751] Tip) 0xA752
     [0xA753] (Fork (Fork Tip 0xA754 [0xA755] Tip) 0xA756 [0xA757] Tip)) 0xA758 [0xA759] (Fork
     (Fork (Fork Tip 0xA75A [0xA75B] Tip) 0xA75C [0xA75D] Tip) 0xA75E [0xA75F] (Fork Tip 0xA760
     [0xA761] Tip))) 0xA762 [0xA763] (Fork (Fork (Fork (Fork Tip 0xA764 [0xA765] Tip) 0xA766
     [0xA767] Tip) 0xA768 [0xA769] (Fork (Fork Tip 0xA76A [0xA76B] Tip) 0xA76C [0xA76D] Tip))
     0xA76E [0xA76F] (Fork (Fork (Fork Tip 0xA779 [0xA77A] Tip) 0xA77B [0xA77C] Tip) 0xA77D
     [0x1D79] (Fork Tip 0xA77E [0xA77F] Tip)))) 0xA780 [0xA781] (Fork (Fork (Fork (Fork (Fork
     Tip 0xA782 [0xA783] Tip) 0xA784 [0xA785] Tip) 0xA786 [0xA787] (Fork (Fork Tip 0xA78B
     [0xA78C] Tip) 0xA78D [0x265] Tip)) 0xA790 [0xA791] (Fork (Fork (Fork Tip 0xA792 [0xA793]
     Tip) 0xA796 [0xA797] Tip) 0xA798 [0xA799] (Fork Tip 0xA79A [0xA79B] Tip))) 0xA79C [0xA79D]
     (Fork (Fork (Fork (Fork Tip 0xA79E [0xA79F] Tip) 0xA7A0 [0xA7A1] Tip) 0xA7A2 [0xA7A3]
     (Fork (Fork Tip 0xA7A4 [0xA7A5] Tip) 0xA7A6 [0xA7A7] Tip)) 0xA7A8 [0xA7A9] (Fork (Fork
     (Fork Tip 0xA7AA [0x266] Tip) 0xA7AB [0x25C] Tip) 0xA7AC [0x261] (Fork Tip 0xA7AD [0x26C]
     Tip))))) 0xA7AE [0x26A] (Fork (Fork (Fork (Fork (Fork (Fork Tip 0xA7B0 [0x29E] Tip) 0xA7B1
     [0x287] Tip) 0xA7B2 [0x29D] (Fork (Fork Tip 0xA7B3 [0xAB53] Tip) 0xA7B4 [0xA7B5] Tip))
     0xA7B6 [0xA7B7] (Fork (Fork (Fork Tip 0xA7B8 [0xA7B9] Tip) 0xA7BA [0xA7BB] Tip) 0xA7BC
     [0xA7BD] (Fork Tip 0xA7BE [0xA7BF] Tip))) 0xA7C0 [0xA7C1] (Fork (Fork (Fork (Fork Tip
     0xA7C2 [0xA7C3] Tip) 0xA7C4 [0xA794] Tip) 0xA7C5 [0x282] (Fork (Fork Tip 0xA7C6 [0x1D8E]
     Tip) 0xA7C7 [0xA7C8] Tip)) 0xA7C9 [0xA7CA] (Fork (Fork (Fork Tip 0xA7D0 [0xA7D1] Tip)
     0xA7D6 [0xA7D7] Tip) 0xA7D8 [0xA7D9] (Fork Tip 0xA7F5 [0xA7F6] Tip)))) 0xFF21 [0xFF41]
     (Fork (Fork (Fork (Fork (Fork Tip 0xFF22 [0xFF42] Tip) 0xFF23 [0xFF43] Tip) 0xFF24
     [0xFF44] (Fork (Fork Tip 0xFF25 [0xFF45] Tip) 0xFF26 [0xFF46] Tip)) 0xFF27 [0xFF47] (Fork
     (Fork (Fork Tip 0xFF28 [0xFF48] Tip) 0xFF29 [0xFF49] Tip) 0xFF2A [0xFF4A] (Fork Tip 0xFF2B
     [0xFF4B] Tip))) 0xFF2C [0xFF4C] (Fork (Fork (Fork (Fork Tip 0xFF2D [0xFF4D] Tip) 0xFF2E
     [0xFF4E] Tip) 0xFF2F [0xFF4F] (Fork (Fork Tip 0xFF30 [0xFF50] Tip) 0xFF31 [0xFF51] Tip))
     0xFF32 [0xFF52] (Fork (Fork (Fork Tip 0xFF33 [0xFF53] Tip) 0xFF34 [0xFF54] Tip) 0xFF35
     [0xFF55] (Fork Tip 0xFF36 [0xFF56] Tip)))))) 0xFF37 [0xFF57] (Fork (Fork (Fork (Fork (Fork
     (Fork (Fork Tip 0xFF38 [0xFF58] Tip) 0xFF39 [0xFF59] Tip) 0xFF3A [0xFF5A] (Fork (Fork Tip
     0x10400 [0x10428] Tip) 0x10401 [0x10429] Tip)) 0x10402 [0x1042A] (Fork (Fork (Fork Tip
     0x10403 [0x1042B] Tip) 0x10404 [0x1042C] Tip) 0x10405 [0x1042D] (Fork Tip 0x10406
     [0x1042E] Tip))) 0x10407 [0x1042F] (Fork (Fork (Fork (Fork Tip 0x10408 [0x10430] Tip)
     0x10409 [0x10431] Tip) 0x1040A [0x10432] (Fork (Fork Tip 0x1040B [0x10433] Tip) 0x1040C
     [0x10434] Tip)) 0x1040D [0x10435] (Fork (Fork (Fork Tip 0x1040E [0x10436] Tip) 0x1040F
     [0x10437] Tip) 0x10410 [0x10438] (Fork Tip 0x10411 [0x10439] Tip)))) 0x10412 [0x1043A]
     (Fork (Fork (Fork (Fork (Fork Tip 0x10413 [0x1043B] Tip) 0x10414 [0x1043C] Tip) 0x10415
     [0x1043D] (Fork (Fork Tip 0x10416 [0x1043E] Tip) 0x10417 [0x1043F] Tip)) 0x10418 [0x10440]
     (Fork (Fork (Fork Tip 0x10419 [0x10441] Tip) 0x1041A [0x10442] Tip) 0x1041B [0x10443]
     (Fork Tip 0x1041C [0x10444] Tip))) 0x1041D [0x10445] (Fork (Fork (Fork (Fork Tip 0x1041E
     [0x10446] Tip) 0x1041F [0x10447] Tip) 0x10420 [0x10448] (Fork (Fork Tip 0x10421 [0x10449]
     Tip) 0x10422 [0x1044A] Tip)) 0x10423 [0x1044B] (Fork (Fork (Fork Tip 0x10424 [0x1044C]
     Tip) 0x10425 [0x1044D] Tip) 0x10426 [0x1044E] (Fork Tip 0x10427 [0x1044F] Tip))))) 0x104B0
     [0x104D8] (Fork (Fork (Fork (Fork (Fork (Fork Tip 0x104B1 [0x104D9] Tip) 0x104B2 [0x104DA]
     Tip) 0x104B3 [0x104DB] (Fork (Fork Tip 0x104B4 [0x104DC] Tip) 0x104B5 [0x104DD] Tip))
     0x104B6 [0x104DE] (Fork (Fork (Fork Tip 0x104B7 [0x104DF] Tip) 0x104B8 [0x104E0] Tip)
     0x104B9 [0x104E1] (Fork Tip 0x104BA [0x104E2] Tip))) 0x104BB [0x104E3] (Fork (Fork (Fork
     (Fork Tip 0x104BC [0x104E4] Tip) 0x104BD [0x104E5] Tip) 0x104BE [0x104E6] (Fork (Fork Tip
     0x104BF [0x104E7] Tip) 0x104C0 [0x104E8] Tip)) 0x104C1 [0x104E9] (Fork (Fork (Fork Tip
     0x104C2 [0x104EA] Tip) 0x104C3 [0x104EB] Tip) 0x104C4 [0x104EC] (Fork Tip 0x104C5
     [0x104ED] Tip)))) 0x104C6 [0x104EE] (Fork (Fork (Fork (Fork (Fork Tip 0x104C7 [0x104EF]
     Tip) 0x104C8 [0x104F0] Tip) 0x104C9 [0x104F1] (Fork (Fork Tip 0x104CA [0x104F2] Tip)
     0x104CB [0x104F3] Tip)) 0x104CC [0x104F4] (Fork (Fork (Fork Tip 0x104CD [0x104F5] Tip)
     0x104CE [0x104F6] Tip) 0x104CF [0x104F7] (Fork Tip 0x104D0 [0x104F8] Tip))) 0x104D1
     [0x104F9] (Fork (Fork (Fork (Fork Tip 0x104D2 [0x104FA] Tip) 0x104D3 [0x104FB] Tip)
     0x10570 [0x10597] (Fork (Fork Tip 0x10571 [0x10598] Tip) 0x10572 [0x10599] Tip)) 0x10573
     [0x1059A] (Fork (Fork (Fork Tip 0x10574 [0x1059B] Tip) 0x10575 [0x1059C] Tip) 0x10576
     [0x1059D] (Fork Tip 0x10577 [0x1059E] Tip))))))) 0x10578 [0x1059F] (Fork (Fork (Fork (Fork
     (Fork (Fork (Fork (Fork Tip 0x10579 [0x105A0] Tip) 0x1057A [0x105A1] Tip) 0x1057C
     [0x105A3] (Fork (Fork Tip 0x1057D [0x105A4] Tip) 0x1057E [0x105A5] Tip)) 0x1057F [0x105A6]
     (Fork (Fork (Fork Tip 0x10580 [0x105A7] Tip) 0x10581 [0x105A8] Tip) 0x10582 [0x105A9]
     (Fork Tip 0x10583 [0x105AA] Tip))) 0x10584 [0x105AB] (Fork (Fork (Fork (Fork Tip 0x10585
     [0x105AC] Tip) 0x10586 [0x105AD] Tip) 0x10587 [0x105AE] (Fork (Fork Tip 0x10588 [0x105AF]
     Tip) 0x10589 [0x105B0] Tip)) 0x1058A [0x105B1] (Fork (Fork (Fork Tip 0x1058C [0x105B3]
     Tip) 0x1058D [0x105B4] Tip) 0x1058E [0x105B5] (Fork Tip 0x1058F [0x105B6] Tip)))) 0x10590
     [0x105B7] (Fork (Fork (Fork (Fork (Fork Tip 0x10591 [0x105B8] Tip) 0x10592 [0x105B9] Tip)
     0x10594 [0x105BB] (Fork (Fork Tip 0x10595 [0x105BC] Tip) 0x10C80 [0x10CC0] Tip)) 0x10C81
     [0x10CC1] (Fork (Fork (Fork Tip 0x10C82 [0x10CC2] Tip) 0x10C83 [0x10CC3] Tip) 0x10C84
     [0x10CC4] (Fork Tip 0x10C85 [0x10CC5] Tip))) 0x10C86 [0x10CC6] (Fork (Fork (Fork (Fork Tip
     0x10C87 [0x10CC7] Tip) 0x10C88 [0x10CC8] Tip) 0x10C89 [0x10CC9] (Fork (Fork Tip 0x10C8A
     [0x10CCA] Tip) 0x10C8B [0x10CCB] Tip)) 0x10C8C [0x10CCC] (Fork (Fork (Fork Tip 0x10C8D
     [0x10CCD] Tip) 0x10C8E [0x10CCE] Tip) 0x10C8F [0x10CCF] (Fork Tip 0x10C90 [0x10CD0]
     Tip))))) 0x10C91 [0x10CD1] (Fork (Fork (Fork (Fork (Fork (Fork Tip 0x10C92 [0x10CD2] Tip)
     0x10C93 [0x10CD3] Tip) 0x10C94 [0x10CD4] (Fork (Fork Tip 0x10C95 [0x10CD5] Tip) 0x10C96
     [0x10CD6] Tip)) 0x10C97 [0x10CD7] (Fork (Fork (Fork Tip 0x10C98 [0x10CD8] Tip) 0x10C99
     [0x10CD9] Tip) 0x10C9A [0x10CDA] (Fork Tip 0x10C9B [0x10CDB] Tip))) 0x10C9C [0x10CDC]
     (Fork (Fork (Fork (Fork Tip 0x10C9D [0x10CDD] Tip) 0x10C9E [0x10CDE] Tip) 0x10C9F
     [0x10CDF] (Fork (Fork Tip 0x10CA0 [0x10CE0] Tip) 0x10CA1 [0x10CE1] Tip)) 0x10CA2 [0x10CE2]
     (Fork (Fork (Fork Tip 0x10CA3 [0x10CE3] Tip) 0x10CA4 [0x10CE4] Tip) 0x10CA5 [0x10CE5]
     (Fork Tip 0x10CA6 [0x10CE6] Tip)))) 0x10CA7 [0x10CE7] (Fork (Fork (Fork (Fork (Fork Tip
     0x10CA8 [0x10CE8] Tip) 0x10CA9 [0x10CE9] Tip) 0x10CAA [0x10CEA] (Fork (Fork Tip 0x10CAB
     [0x10CEB] Tip) 0x10CAC [0x10CEC] Tip)) 0x10CAD [0x10CED] (Fork (Fork (Fork Tip 0x10CAE
     [0x10CEE] Tip) 0x10CAF [0x10CEF] Tip) 0x10CB0 [0x10CF0] (Fork Tip 0x10CB1 [0x10CF1] Tip)))
     0x10CB2 [0x10CF2] (Fork (Fork (Fork (Fork Tip 0x118A0 [0x118C0] Tip) 0x118A1 [0x118C1]
     Tip) 0x118A2 [0x118C2] (Fork (Fork Tip 0x118A3 [0x118C3] Tip) 0x118A4 [0x118C4] Tip))
     0x118A5 [0x118C5] (Fork (Fork (Fork Tip 0x118A6 [0x118C6] Tip) 0x118A7 [0x118C7] Tip)
     0x118A8 [0x118C8] (Fork Tip 0x118A9 [0x118C9] Tip)))))) 0x118AA [0x118CA] (Fork (Fork
     (Fork (Fork (Fork (Fork (Fork Tip 0x118AB [0x118CB] Tip) 0x118AC [0x118CC] Tip) 0x118AD
     [0x118CD] (Fork (Fork Tip 0x118AE [0x118CE] Tip) 0x118AF [0x118CF] Tip)) 0x118B0 [0x118D0]
     (Fork (Fork (Fork Tip 0x118B1 [0x118D1] Tip) 0x118B2 [0x118D2] Tip) 0x118B3 [0x118D3]
     (Fork Tip 0x118B4 [0x118D4] Tip))) 0x118B5 [0x118D5] (Fork (Fork (Fork (Fork Tip 0x118B6
     [0x118D6] Tip) 0x118B7 [0x118D7] Tip) 0x118B8 [0x118D8] (Fork (Fork Tip 0x118B9 [0x118D9]
     Tip) 0x118BA [0x118DA] Tip)) 0x118BB [0x118DB] (Fork (Fork (Fork Tip 0x118BC [0x118DC]
     Tip) 0x118BD [0x118DD] Tip) 0x118BE [0x118DE] (Fork Tip 0x118BF [0x118DF] Tip)))) 0x16E40
     [0x16E60] (Fork (Fork (Fork (Fork (Fork Tip 0x16E41 [0x16E61] Tip) 0x16E42 [0x16E62] Tip)
     0x16E43 [0x16E63] (Fork (Fork Tip 0x16E44 [0x16E64] Tip) 0x16E45 [0x16E65] Tip)) 0x16E46
     [0x16E66] (Fork (Fork (Fork Tip 0x16E47 [0x16E67] Tip) 0x16E48 [0x16E68] Tip) 0x16E49
     [0x16E69] (Fork Tip 0x16E4A [0x16E6A] Tip))) 0x16E4B [0x16E6B] (Fork (Fork (Fork (Fork Tip
     0x16E4C [0x16E6C] Tip) 0x16E4D [0x16E6D] Tip) 0x16E4E [0x16E6E] (Fork (Fork Tip 0x16E4F
     [0x16E6F] Tip) 0x16E50 [0x16E70] Tip)) 0x16E51 [0x16E71] (Fork (Fork (Fork Tip 0x16E52
     [0x16E72] Tip) 0x16E53 [0x16E73] Tip) 0x16E54 [0x16E74] (Fork Tip 0x16E55 [0x16E75]
     Tip))))) 0x16E56 [0x16E76] (Fork (Fork (Fork (Fork (Fork (Fork Tip 0x16E57 [0x16E77] Tip)
     0x16E58 [0x16E78] Tip) 0x16E59 [0x16E79] (Fork (Fork Tip 0x16E5A [0x16E7A] Tip) 0x16E5B
     [0x16E7B] Tip)) 0x16E5C [0x16E7C] (Fork (Fork (Fork Tip 0x16E5D [0x16E7D] Tip) 0x16E5E
     [0x16E7E] Tip) 0x16E5F [0x16E7F] (Fork Tip 0x1E900 [0x1E922] Tip))) 0x1E901 [0x1E923]
     (Fork (Fork (Fork (Fork Tip 0x1E902 [0x1E924] Tip) 0x1E903 [0x1E925] Tip) 0x1E904
     [0x1E926] (Fork (Fork Tip 0x1E905 [0x1E927] Tip) 0x1E906 [0x1E928] Tip)) 0x1E907 [0x1E929]
     (Fork (Fork (Fork Tip 0x1E908 [0x1E92A] Tip) 0x1E909 [0x1E92B] Tip) 0x1E90A [0x1E92C]
     (Fork Tip 0x1E90B [0x1E92D] Tip)))) 0x1E90C [0x1E92E] (Fork (Fork (Fork (Fork (Fork Tip
     0x1E90D [0x1E92F] Tip) 0x1E90E [0x1E930] Tip) 0x1E90F [0x1E931] (Fork (Fork Tip 0x1E910
     [0x1E932] Tip) 0x1E911 [0x1E933] Tip)) 0x1E912 [0x1E934] (Fork (Fork (Fork Tip 0x1E913
     [0x1E935] Tip) 0x1E914 [0x1E936] Tip) 0x1E915 [0x1E937] (Fork Tip 0x1E916 [0x1E938] Tip)))
     0x1E917 [0x1E939] (Fork (Fork (Fork (Fork Tip 0x1E918 [0x1E93A] Tip) 0x1E919 [0x1E93B]
     Tip) 0x1E91A [0x1E93C] (Fork (Fork Tip 0x1E91B [0x1E93D] Tip) 0x1E91C [0x1E93E] Tip))
     0x1E91D [0x1E93F] (Fork (Fork (Fork Tip 0x1E91E [0x1E940] Tip) 0x1E91F [0x1E941] Tip)
     0x1E920 [0x1E942] (Fork Tip 0x1E921 [0x1E943] Tip))))))))))"

definition TITLE_TABLE :: "str table" where
  "TITLE_TABLE =
     (Fork (Fork (Fork (Fork (Fork (Fork (Fork (Fork (Fork (Fork (Fork Tip 0xB5 [0x39C] Tip)
     0xDF [0x53, 0x73] Tip) 0xE0 [0xC0] (Fork (Fork Tip 0xE1 [0xC1] Tip) 0xE2 [0xC2] Tip)) 0xE3
     [0xC3] (Fork (Fork (Fork Tip 0xE4 [0xC4] Tip) 0xE5 [0xC5] Tip) 0xE6 [0xC6] (Fork (Fork Tip
     0xE7 [0xC7] Tip) 0xE8 [0xC8] Tip))) 0xE9 [0xC9] (Fork (Fork (Fork (Fork Tip 0xEA [0xCA]
     Tip) 0xEB [0xCB] Tip) 0xEC [0xCC] (Fork (Fork Tip 0xED [0xCD] Tip) 0xEE [0xCE] Tip)) 0xEF
     [0xCF] (Fork (Fork (Fork Tip 0xF0 [0xD0] Tip) 0xF1 [0xD1] Tip) 0xF2 [0xD2] (Fork Tip 0xF3
     [0xD3] Tip)))) 0xF4 [0xD4] (Fork (Fork (Fork (Fork (Fork Tip 0xF5 [0xD5] Tip) 0xF6 [0xD6]
     Tip) 0xF8 [0xD8] (Fork (Fork Tip 0xF9 [0xD9] Tip) 0xFA [0xDA] Tip)) 0xFB [0xDB] (Fork
     (Fork (Fork Tip 0xFC [0xDC] Tip) 0xFD [0xDD] Tip) 0xFE [0xDE] (Fork Tip 0xFF [0x178]
     Tip))) 0x101 [0x100] (Fork (Fork (Fork (Fork Tip 0x103 [0x102] Tip) 0x105 [0x104] Tip)
     0x107 [0x106] (Fork (Fork Tip 0x109 [0x108] Tip) 0x10B [0x10A] Tip)) 0x10D [0x10C] (Fork
     (Fork (Fork Tip 0x10F [0x10E] Tip) 0x111 [0x110] Tip) 0x113 [0x112] (Fork Tip 0x115
     [0x114] Tip))))) 0x117 [0x116] (Fork (Fork (Fork (Fork (Fork (Fork Tip 0x119 [0x118] Tip)
     0x11B [0x11A] Tip) 0x11D [0x11C] (Fork (Fork Tip 0x11F [0x11E] Tip) 0x121 [0x120] Tip))
     0x123 [0x122] (Fork (Fork (Fork Tip 0x125 [0x124] Tip) 0x127 [0x126] Tip) 0x129 [0x128]
     (Fork (Fork Tip 0x12B [0x12A] Tip) 0x12D [0x12C] Tip))) 0x12F [0x12E] (Fork (Fork (Fork
     (Fork Tip 0x131 [0x49] Tip) 0x133 [0x132] Tip) 0x135 [0x134] (Fork (Fork Tip 0x137 [0x136]
     Tip) 0x13A [0x139] Tip)) 0x13C [0x13B] (Fork (Fork (Fork Tip 0x13E [0x13D] Tip) 0x140
     [0x13F] Tip) 0x142 [0x141] (Fork Tip 0x144 [0x143] Tip)))) 0x146 [0x145] (Fork (Fork (Fork
     (Fork (Fork Tip 0x148 [0x147] Tip) 0x149 [0x2BC, 0x4E] Tip) 0x14B [0x14A] (Fork (Fork Tip
     0x14D [0x14C] Tip) 0x14F [0x14E] Tip)) 0x151 [0x150] (Fork (Fork (Fork Tip 0x153 [0x152]
     Tip) 0x155 [0x154] Tip) 0x157 [0x156] (Fork Tip 0x159 [0x158] Tip))) 0x15B [0x15A] (Fork
     (Fork (Fork (Fork Tip 0x15D [0x15C] Tip) 0x15F [0x15E] Tip) 0x161 [0x160] (Fork (Fork Tip
     0x163 [0x162] Tip) 0x165 [0x164] Tip)) 0x167 [0x166] (Fork (Fork (Fork Tip 0x169 [0x168]
     Tip) 0x16B [0x16A] Tip) 0x16D [0x16C] (Fork Tip 0x16F [0x16E] Tip)))))) 0x171 [0x170]
     (Fork (Fork (Fork (Fork (Fork (Fork (Fork Tip 0x173 [0x172] Tip) 0x175 [0x174] Tip) 0x177
     [0x176] (Fork (Fork Tip 0x17A [0x179] Tip) 0x17C [0x17B] Tip)) 0x17E [0x17D] (Fork (Fork
     (Fork Tip 0x17F [0x53] Tip) 0x180 [0x243] Tip) 0x183 [0x182] (Fork (Fork Tip 0x185 [0x184]
     Tip) 0x188 [0x187] Tip))) 0x18C [0x18B] (Fork (Fork (Fork (Fork Tip 0x192 [0x191] Tip)
     0x195 [0x1F6] Tip) 0x199 [0x198] (Fork (Fork Tip 0x19A [0x23D] Tip) 0x19E [0x220] Tip))
     0x1A1 [0x1A0] (Fork (Fork (Fork Tip 0x1A3 [0x1A2] Tip) 0x1A5 [0x1A4] Tip) 0x1A8 [0x1A7]
     (Fork Tip 0x1AD [0x1AC] Tip)))) 0x1B0 [0x1AF] (Fork (Fork (Fork (Fork (Fork Tip 0x1B4
     [0x1B3] Tip) 0x1B6 [0x1B5] Tip) 0x1B9 [0x1B8] (Fork (Fork Tip 0x1BD [0x1BC] Tip) 0x1BF
     [0x1F7] Tip)) 0x1C4 [0x1C5] (Fork (Fork (Fork Tip 0x1C6 [0x1C5] Tip) 0x1C7 [0x1C8] Tip)
     0x1C9 [0x1C8] (Fork Tip 0x1CA [0x1CB] Tip))) 0x1CC [0x1CB] (Fork (Fork (Fork (Fork Tip
     0x1CE [0x1CD] Tip) 0x1D0 [0x1CF] Tip) 0x1D2 [0x1D1] (Fork (Fork Tip 0x1D4 [0x1D3] Tip)
     0x1D6 [0x1D5] Tip)) 0x1D8 [0x1D7] (Fork (Fork (Fork Tip 0x1DA [0x1D9] Tip) 0x1DC [0x1DB]
     Tip) 0x1DD [0x18E] (Fork Tip 0x1DF [0x1DE] Tip))))) 0x1E1 [0x1E0] (Fork (Fork (Fork (Fork
     (Fork (Fork Tip 0x1E3 [0x1E2] Tip) 0x1E5 [0x1E4] Tip) 0x1E7 [0x1E6] (Fork (Fork Tip 0x1E9
     [0x1E8] Tip) 0x1EB [0x1EA] Tip)) 0x1ED [0x1EC] (Fork (Fork (Fork Tip 0x1EF [0x1EE] Tip)
     0x1F0 [0x4A, 0x30C] Tip) 0x1F1 [0x1F2] (Fork Tip 0x1F3 [0x1F2] Tip))) 0x1F5 [0x1F4] (Fork
     (Fork (Fork (Fork Tip 0x1F9 [0x1F8] Tip) 0x1FB [0x1FA] Tip) 0x1FD [0x1FC] (Fork (Fork Tip
     0x1FF [0x1FE] Tip) 0x201 [0x200] Tip)) 0x203 [0x202] (Fork (Fork (Fork Tip 0x205 [0x204]
     Tip) 0x207 [0x206] Tip) 0x209 [0x208] (Fork Tip 0x20B [0x20A] Tip)))) 0x20D [0x20C] (Fork
     (Fork (Fork (Fork (Fork Tip 0x20F [0x20E] Tip) 0x211 [0x210] Tip) 0x213 [0x212] (Fork
     (Fork Tip 0x215 [0x214] Tip) 0x217 [0x216] Tip)) 0x219 [0x218] (Fork (Fork (Fork Tip 0x21B
     [0x21A] Tip) 0x21D [0x21C] Tip) 0x21F [0x21E] (Fork Tip 0x223 [0x222] Tip))) 0x225 [0x224]
     (Fork (Fork (Fork (Fork Tip 0x227 [0x226] Tip) 0x229 [0x228] Tip) 0x22B [0x22A] (Fork
     (Fork Tip 0x22D [0x22C] Tip) 0x22F [0x22E] Tip)) 0x231 [0x230] (Fork (Fork (Fork Tip 0x233
     [0x232] Tip) 0x23C [0x23B] Tip) 0x23F [0x2C7E] (Fork Tip 0x240 [0x2C7F] Tip))))))) 0x242
     [0x241] (Fork (Fork (Fork (Fork (Fork (Fork (Fork (Fork Tip 0x247 [0x246] Tip) 0x249
     [0x248] Tip) 0x24B [0x24A] (Fork (Fork Tip 0x24D [0x24C] Tip) 0x24F [0x24E] Tip)) 0x250
     [0x2C6F] (Fork (Fork (Fork Tip 0x251 [0x2C6D] Tip) 0x252 [0x2C70] Tip) 0x253 [0x181] (Fork
     (Fork Tip 0x254 [0x186] Tip) 0x256 [0x189] Tip))) 0x257 [0x18A] (Fork (Fork (Fork (Fork
     Tip 0x259 [0x18F] Tip) 0x25B [0x190] Tip) 0x25C [0xA7AB] (Fork (Fork Tip 0x260 [0x193]
     Tip) 0x261 [0xA7AC] Tip)) 0x263 [0x194] (Fork (Fork (Fork Tip 0x265 [0xA78D] Tip) 0x266
     [0xA7AA] Tip) 0x268 [0x197] (Fork Tip 0x269 [0x196] Tip)))) 0x26A [0xA7AE] (Fork (Fork
     (Fork (Fork (Fork Tip 0x26B [0x2C62] Tip) 0x26C [0xA7AD] Tip) 0x26F [0x19C] (Fork (Fork
     Tip 0x271 [0x2C6E] Tip) 0x272 [0x19D] Tip)) 0x275 [0x19F] (Fork (Fork (Fork Tip 0x27D
     [0x2C64] Tip) 0x280 [0x1A6] Tip) 0x282 [0xA7C5] (Fork Tip 0x283 [0x1A9] Tip))) 0x287
     [0xA7B1] (Fork (Fork (Fork (Fork Tip 0x288 [0x1AE] Tip) 0x289 [0x244] Tip) 0x28A [0x1B1]
     (Fork (Fork Tip 0x28B [0x1B2] Tip) 0x28C [0x245] Tip)) 0x292 [0x1B7] (Fork (Fork (Fork Tip
     0x29D [0xA7B2] Tip) 0x29E [0xA7B0] Tip) 0x345 [0x399] (Fork Tip 0x371 [0x370] Tip)))))
     0x373 [0x372] (Fork (Fork (Fork (Fork (Fork (Fork Tip 0x377 [0x376] Tip) 0x37B [0x3FD]
     Tip) 0x37C [0x3FE] (Fork (Fork Tip 0x37D [0x3FF] Tip) 0x390 [0x399, 0x308, 0x301] Tip))
     0x3AC [0x386] (Fork (Fork (Fork Tip 0x3AD [0x388] Tip) 0x3AE [0x389] Tip) 0x3AF [0x38A]
     (Fork Tip 0x3B0 [0x3A5, 0x308, 0x301] Tip))) 0x3B1 [0x391] (Fork (Fork (Fork (Fork Tip
     0x3B2 [0x392] Tip) 0x3B3 [0x393] Tip) 0x3B4 [0x394] (Fork (Fork Tip 0x3B5 [0x395] Tip)
     0x3B6 [0x396] Tip)) 0x3B7 [0x397] (Fork (Fork (Fork Tip 0x3B8 [0x398] Tip) 0x3B9 [0x399]
     Tip) 0x3BA [0x39A] (Fork Tip 0x3BB [0x39B] Tip)))) 0x3BC [0x39C] (Fork (Fork (Fork (Fork
     (Fork Tip 0x3BD [0x39D] Tip) 0x3BE [0x39E] Tip) 0x3BF [0x39F] (Fork (Fork Tip 0x3C0
     [0x3A0] Tip) 0x3C1 [0x3A1] Tip)) 0x3C2 [0x3A3] (Fork (Fork (Fork Tip 0x3C3 [0x3A3] Tip)
     0x3C4 [0x3A4] Tip) 0x3C5 [0x3A5] (Fork Tip 0x3C6 [0x3A6] Tip))) 0x3C7 [0x3A7] (Fork (Fork
     (Fork (Fork Tip 0x3C8 [0x3A8] Tip) 0x3C9 [0x3A9] Tip) 0x3CA [0x3AA] (Fork (Fork Tip 0x3CB
     [0x3AB] Tip) 0x3CC [0x38C] Tip)) 0x3CD [0x38E] (Fork (Fork (Fork Tip 0x3CE [0x38F] Tip)
     0x3D0 [0x392] Tip) 0x3D1 [0x398] (Fork Tip 0x3D5 [0x3A6] Tip)))))) 0x3D6 [0x3A0] (Fork
     (Fork (Fork (Fork (Fork (Fork (Fork Tip 0x3D7 [0x3CF] Tip) 0x3D9 [0x3D8] Tip) 0x3DB
     [0x3DA] (Fork (Fork Tip 0x3DD [0x3DC] Tip) 0x3DF [0x3DE] Tip)) 0x3E1 [0x3E0] (Fork (Fork
     (Fork Tip 0x3E3 [0x3E2] Tip) 0x3E5 [0x3E4] Tip) 0x3E7 [0x3E6] (Fork (Fork Tip 0x3E9
     [0x3E8] Tip) 0x3EB [0x3EA] Tip))) 0x3ED [0x3EC] (Fork (Fork (Fork (Fork Tip 0x3EF [0x3EE]
     Tip) 0x3F0 [0x39A] Tip) 0x3F1 [0x3A1] (Fork (Fork Tip 0x3F2 [0x3F9] Tip) 0x3F3 [0x37F]
     Tip)) 0x3F5 [0x395] (Fork (Fork (Fork Tip 0x3F8 [0x3F7] Tip) 0x3FB [0x3FA] Tip) 0x430
     [0x410] (Fork Tip 0x431 [0x411] Tip)))) 0x432 [0x412] (Fork (Fork (Fork (Fork (Fork Tip
     0x433 [0x413] Tip) 0x434 [0x414] Tip) 0x435 [0x415] (Fork (Fork Tip 0x436 [0x416] Tip)
     0x437 [0x417] Tip)) 0x438 [0x418] (Fork (Fork (Fork Tip 0x439 [0x419] Tip) 0x43A [0x41A]
     Tip) 0x43B [0x41B] (Fork Tip 0x43C [0x41C] Tip))) 0x43D [0x41D] (Fork (Fork (Fork (Fork
     Tip 0x43E [0x41E] Tip) 0x43F [0x41F] Tip) 0x440 [0x420] (Fork (Fork Tip 0x441 [0x421] Tip)
     0x442 [0x422] Tip)) 0x443 [0x423] (Fork (Fork (Fork Tip 0x444 [0x424] Tip) 0x445 [0x425]
     Tip) 0x446 [0x426] (Fork Tip 0x447 [0x427] Tip))))) 0x448 [0x428] (Fork (Fork (Fork (Fork
     (Fork (Fork Tip 0x449 [0x429] Tip) 0x44A [0x42A] Tip) 0x44B [0x42B] (Fork (Fork Tip 0x44C
     [0x42C] Tip) 0x44D [0x42D] Tip)) 0x44E [0x42E] (Fork (Fork (Fork Tip 0x44F [0x42F] Tip)
     0x450 [0x400] Tip) 0x451 [0x401] (Fork Tip 0x452 [0x402] Tip))) 0x453 [0x403] (Fork (Fork
     (Fork (Fork Tip 0x454 [0x404] Tip) 0x455 [0x405] Tip) 0x456 [0x406] (Fork (Fork Tip 0x457
     [0x407] Tip) 0x458 [0x408] Tip)) 0x459 [0x409] (Fork (Fork (Fork Tip 0x45A [0x40A] Tip)
     0x45B [0x40B] Tip) 0x45C [0x40C] (Fork Tip 0x45D [0x40D] Tip)))) 0x45E [0x40E] (Fork (Fork
     (Fork (Fork (Fork Tip 0x45F [0x40F] Tip) 0x461 [0x460] Tip) 0x463 [0x462] (Fork (Fork Tip
     0x465 [0x464] Tip) 0x467 [0x466] Tip)) 0x469 [0x468] (Fork (Fork (Fork Tip 0x46B [0x46A]
     Tip) 0x46D [0x46C] Tip) 0x46F [0x46E] (Fork Tip 0x471 [0x470] Tip))) 0x473 [0x472] (Fork
     (Fork (Fork (Fork Tip 0x475 [0x474] Tip) 0x477 [0x476] Tip) 0x479 [0x478] (Fork (Fork Tip
     0x47B [0x47A] Tip) 0x47D [0x47C] Tip)) 0x47F [0x47E] (Fork (Fork (Fork Tip 0x481 [0x480]
     Tip) 0x48B [0x48A] Tip) 0x48D [0x48C] (Fork Tip 0x48F [0x48E] Tip)))))))) 0x491 [0x490]
     (Fork (Fork (Fork (Fork (Fork (Fork (Fork (Fork (Fork Tip 0x493 [0x492] Tip) 0x495 [0x494]
     Tip) 0x497 [0x496] (Fork (Fork Tip 0x499 [0x498] Tip) 0x49B [0x49A] Tip)) 0x49D [0x49C]
     (Fork (Fork (Fork Tip 0x49F [0x49E] Tip) 0x4A1 [0x4A0] Tip) 0x4A3 [0x4A2] (Fork (Fork Tip
     0x4A5 [0x4A4] Tip) 0x4A7 [0x4A6] Tip))) 0x4A9 [0x4A8] (Fork (Fork (Fork (Fork Tip 0x4AB
     [0x4AA] Tip) 0x4AD [0x4AC] Tip) 0x4AF [0x4AE] (Fork (Fork Tip 0x4B1 [0x4B0] Tip) 0x4B3
     [0x4B2] Tip)) 0x4B5 [0x4B4] (Fork (Fork (Fork Tip 0x4B7 [0x4B6] Tip) 0x4B9 [0x4B8] Tip)
     0x4BB [0x4BA] (Fork Tip 0x4BD [0x4BC] Tip)))) 0x4BF [0x4BE] (Fork (Fork (Fork (Fork (Fork
     Tip 0x4C2 [0x4C1] Tip) 0x4C4 [0x4C3] Tip) 0x4C6 [0x4C5] (Fork (Fork Tip 0x4C8 [0x4C7] Tip)
     0x4CA [0x4C9] Tip)) 0x4CC [0x4CB] (Fork (Fork (Fork Tip 0x4CE [0x4CD] Tip) 0x4CF [0x4C0]
     Tip) 0x4D1 [0x4D0] (Fork Tip 0x4D3 [0x4D2] Tip))) 0x4D5 [0x4D4] (Fork (Fork (Fork (Fork
     Tip 0x4D7 [0x4D6] Tip) 0x4D9 [0x4D8] Tip) 0x4DB [0x4DA] (Fork (Fork Tip 0x4DD [0x4DC] Tip)
     0x4DF [0x4DE] Tip)) 0x4E1 [0x4E0] (Fork (Fork (Fork Tip 0x4E3 [0x4E2] Tip) 0x4E5 [0x4E4]
     Tip) 0x4E7 [0x4E6] (Fork Tip 0x4E9 [0x4E8] Tip))))) 0x4EB [0x4EA] (Fork (Fork (Fork (Fork
     (Fork (Fork Tip 0x4ED [0x4EC] Tip) 0x4EF [0x4EE] Tip) 0x4F1 [0x4F0] (Fork (Fork Tip 0x4F3
     [0x4F2] Tip) 0x4F5 [0x4F4] Tip)) 0x4F7 [0x4F6] (Fork (Fork (Fork Tip 0x4F9 [0x4F8] Tip)
     0x4FB [0x4FA] Tip) 0x4FD [0x4FC] (Fork (Fork Tip 0x4FF [0x4FE] Tip) 0x501 [0x500] Tip)))
     0x503 [0x502] (Fork (Fork (Fork (Fork Tip 0x505 [0x504] Tip) 0x507 [0x506] Tip) 0x509
     [0x508] (Fork (Fork Tip 0x50B [0x50A] Tip) 0x50D [0x50C] Tip)) 0x50F [0x50E] (Fork (Fork
     (Fork Tip 0x511 [0x510] Tip) 0x513 [0x512] Tip) 0x515 [0x514] (Fork Tip 0x517 [0x516]
     Tip)))) 0x519 [0x518] (Fork (Fork (Fork (Fork (Fork Tip 0x51B [0x51A] Tip) 0x51D [0x51C]
     Tip) 0x51F [0x51E] (Fork (Fork Tip 0x521 [0x520] Tip) 0x523 [0x522] Tip)) 0x525 [0x524]
     (Fork (Fork (Fork Tip 0x527 [0x526] Tip) 0x529 [0x528] Tip) 0x52B [0x52A] (Fork Tip 0x52D
     [0x52C] Tip))) 0x52F [0x52E] (Fork (Fork (Fork (Fork Tip 0x561 [0x531] Tip) 0x562 [0x532]
     Tip) 0x563 [0x533] (Fork (Fork Tip 0x564 [0x534] Tip) 0x565 [0x535] Tip)) 0x566 [0x536]
     (Fork (Fork (Fork Tip 0x567 [0x537] Tip) 0x568 [0x538] Tip) 0x569 [0x539] (Fork Tip 0x56A
     [0x53A] Tip)))))) 0x56B [0x53B] (Fork (Fork (Fork (Fork (Fork (Fork (Fork Tip 0x56C
     [0x53C] Tip) 0x56D [0x53D] Tip) 0x56E [0x53E] (Fork (Fork Tip 0x56F [0x53F] Tip) 0x570
     [0x540] Tip)) 0x571 [0x541] (Fork (Fork (Fork Tip 0x572 [0x542] Tip) 0x573 [0x543] Tip)
     0x574 [0x544] (Fork (Fork Tip 0x575 [0x545] Tip) 0x576 [0x546] Tip))) 0x577 [0x547] (Fork
     (Fork (Fork (Fork Tip 0x578 [0x548] Tip) 0x579 [0x549] Tip) 0x57A [0x54A] (Fork (Fork Tip
     0x57B [0x54B] Tip) 0x57C [0x54C] Tip)) 0x57D [0x54D] (Fork (Fork (Fork Tip 0x57E [0x54E]
     Tip) 0x57F [0x54F] Tip) 0x580 [0x550] (Fork Tip 0x581 [0x551] Tip)))) 0x582 [0x552] (Fork
     (Fork (Fork (Fork (Fork Tip 0x583 [0x553] Tip) 0x584 [0x554] Tip) 0x585 [0x555] (Fork
     (Fork Tip 0x586 [0x556] Tip) 0x587 [0x535, 0x582] Tip)) 0x13F8 [0x13F0] (Fork (Fork (Fork
     Tip 0x13F9 [0x13F1] Tip) 0x13FA [0x13F2] Tip) 0x13FB [0x13F3] (Fork Tip 0x13FC [0x13F4]
     Tip))) 0x13FD [0x13F5] (Fork (Fork (Fork (Fork Tip 0x1C80 [0x412] Tip) 0x1C81 [0x414] Tip)
     0x1C82 [0x41E] (Fork (Fork Tip 0x1C83 [0x421] Tip) 0x1C84 [0x422] Tip)) 0x1C85 [0x422]
     (Fork (Fork (Fork Tip 0x1C86 [0x42A] Tip) 0x1C87 [0x462] Tip) 0x1C88 [0xA64A] (Fork Tip
     0x1D79 [0xA77D] Tip))))) 0x1D7D [0x2C63] (Fork (Fork (Fork (Fork (Fork (Fork Tip 0x1D8E
     [0xA7C6] Tip) 0x1E01 [0x1E00] Tip) 0x1E03 [0x1E02] (Fork (Fork Tip 0x1E05 [0x1E04] Tip)
     0x1E07 [0x1E06] Tip)) 0x1E09 [0x1E08] (Fork (Fork (Fork Tip 0x1E0B [0x1E0A] Tip) 0x1E0D
     [0x1E0C] Tip) 0x1E0F [0x1E0E] (Fork Tip 0x1E11 [0x1E10] Tip))) 0x1E13 [0x1E12] (Fork (Fork
     (Fork (Fork Tip 0x1E15 [0x1E14] Tip) 0x1E17 [0x1E16] Tip) 0x1E19 [0x1E18] (Fork (Fork Tip
     0x1E1B [0x1E1A] Tip) 0x1E1D [0x1E1C] Tip)) 0x1E1F [0x1E1E] (Fork (Fork (Fork Tip 0x1E21
     [0x1E20] Tip) 0x1E23 [0x1E22] Tip) 0x1E25 [0x1E24] (Fork Tip 0x1E27 [0x1E26] Tip))))
     0x1E29 [0x1E28] (Fork (Fork (Fork (Fork (Fork Tip 0x1E2B [0x1E2A] Tip) 0x1E2D [0x1E2C]
     Tip) 0x1E2F [0x1E2E] (Fork (Fork Tip 0x1E31 [0x1E30] Tip) 0x1E33 [0x1E32] Tip)) 0x1E35
     [0x1E34] (Fork (Fork (Fork Tip 0x1E37 [0x1E36] Tip) 0x1E39 [0x1E38] Tip) 0x1E3B [0x1E3A]
     (Fork Tip 0x1E3D [0x1E3C] Tip))) 0x1E3F [0x1E3E] (Fork (Fork (Fork (Fork Tip 0x1E41
     [0x1E40] Tip) 0x1E43 [0x1E42] Tip) 0x1E45 [0x1E44] (Fork (Fork Tip 0x1E47 [0x1E46] Tip)
     0x1E49 [0x1E48] Tip)) 0x1E4B [0x1E4A] (Fork (Fork (Fork Tip 0x1E4D [0x1E4C] Tip) 0x1E4F
     [0x1E4E] Tip) 0x1E51 [0x1E50] (Fork Tip 0x1E53 [0x1E52] Tip))))))) 0x1E55 [0x1E54] (Fork
     (Fork (Fork (Fork (Fork (Fork (Fork (Fork Tip 0x1E57 [0x1E56] Tip) 0x1E59 [0x1E58] Tip)
     0x1E5B [0x1E5A] (Fork (Fork Tip 0x1E5D [0x1E5C] Tip) 0x1E5F [0x1E5E] Tip)) 0x1E61 [0x1E60]
     (Fork (Fork (Fork Tip 0x1E63 [0x1E62] Tip) 0x1E65 [0x1E64] Tip) 0x1E67 [0x1E66] (Fork
     (Fork Tip 0x1E69 [0x1E68] Tip) 0x1E6B [0x1E6A] Tip))) 0x1E6D [0x1E6C] (Fork (Fork (Fork
     (Fork Tip 0x1E6F [0x1E6E] Tip) 0x1E71 [0x1E70] Tip) 0x1E73 [0x1E72] (Fork (Fork Tip 0x1E75
     [0x1E74] Tip) 0x1E77 [0x1E76] Tip)) 0x1E79 [0x1E78] (Fork (Fork (Fork Tip 0x1E7B [0x1E7A]
     Tip) 0x1E7D [0x1E7C] Tip) 0x1E7F [0x1E7E] (Fork Tip 0x1E81 [0x1E80] Tip)))) 0x1E83
     [0x1E82] (Fork (Fork (Fork (Fork (Fork Tip 0x1E85 [0x1E84] Tip) 0x1E87 [0x1E86] Tip)
     0x1E89 [0x1E88] (Fork (Fork Tip 0x1E8B [0x1E8A] Tip) 0x1E8D [0x1E8C] Tip)) 0x1E8F [0x1E8E]
     (Fork (Fork (Fork Tip 0x1E91 [0x1E90] Tip) 0x1E93 [0x1E92] Tip) 0x1E95 [0x1E94] (Fork Tip
     0x1E96 [0x48, 0x331] Tip))) 0x1E97 [0x54, 0x308] (Fork (Fork (Fork (Fork Tip 0x1E98 [0x57,
     0x30A] Tip) 0x1E99 [0x59, 0x30A] Tip) 0x1E9A [0x41, 0x2BE] (Fork (Fork Tip 0x1E9B [0x1E60]
     Tip) 0x1EA1 [0x1EA0] Tip)) 0x1EA3 [0x1EA2] (Fork (Fork (Fork Tip 0x1EA5 [0x1EA4] Tip)
     0x1EA7 [0x1EA6] Tip) 0x1EA9 [0x1EA8] (Fork Tip 0x1EAB [0x1EAA] Tip))))) 0x1EAD [0x1EAC]
     (Fork (Fork (Fork (Fork (Fork (Fork Tip 0x1EAF [0x1EAE] Tip) 0x1EB1 [0x1EB0] Tip) 0x1EB3
     [0x1EB2] (Fork (Fork Tip 0x1EB5 [0x1EB4] Tip) 0x1EB7 [0x1EB6] Tip)) 0x1EB9 [0x1EB8] (Fork
     (Fork (Fork Tip 0x1EBB [0x1EBA] Tip) 0x1EBD [0x1EBC] Tip) 0x1EBF [0x1EBE] (Fork Tip 0x1EC1
     [0x1EC0] Tip))) 0x1EC3 [0x1EC2] (Fork (Fork (Fork (Fork Tip 0x1EC5 [0x1EC4] Tip) 0x1EC7
     [0x1EC6] Tip) 0x1EC9 [0x1EC8] (Fork (Fork Tip 0x1ECB [0x1ECA] Tip) 0x1ECD [0x1ECC] Tip))
     0x1ECF [0x1ECE] (Fork (Fork (Fork Tip 0x1ED1 [0x1ED0] Tip) 0x1ED3 [0x1ED2] Tip) 0x1ED5
     [0x1ED4] (Fork Tip 0x1ED7 [0x1ED6] Tip)))) 0x1ED9 [0x1ED8] (Fork (Fork (Fork (Fork (Fork
     Tip 0x1EDB [0x1EDA] Tip) 0x1EDD [0x1EDC] Tip) 0x1EDF [0x1EDE] (Fork (Fork Tip 0x1EE1
     [0x1EE0] Tip) 0x1EE3 [0x1EE2] Tip)) 0x1EE5 [0x1EE4] (Fork (Fork (Fork Tip 0x1EE7 [0x1EE6]
     Tip) 0x1EE9 [0x1EE8] Tip) 0x1EEB [0x1EEA] (Fork Tip 0x1EED [0x1EEC] Tip))) 0x1EEF [0x1EEE]
     (Fork (Fork (Fork (Fork Tip 0x1EF1 [0x1EF0] Tip) 0x1EF3 [0x1EF2] Tip) 0x1EF5 [0x1EF4]
     (Fork (Fork Tip 0x1EF7 [0x1EF6] Tip) 0x1EF9 [0x1EF8] Tip)) 0x1EFB [0x1EFA] (Fork (Fork
     (Fork Tip 0x1EFD [0x1EFC] Tip) 0x1EFF [0x1EFE] Tip) 0x1F00 [0x1F08] (Fork Tip 0x1F01
     [0x1F09] Tip)))))) 0x1F02 [0x1F0A] (Fork (Fork (Fork (Fork (Fork (Fork (Fork Tip 0x1F03
     [0x1F0B] Tip) 0x1F04 [0x1F0C] Tip) 0x1F05 [0x1F0D] (Fork (Fork Tip 0x1F06 [0x1F0E] Tip)
     0x1F07 [0x1F0F] Tip)) 0x1F10 [0x1F18] (Fork (Fork (Fork Tip 0x1F11 [0x1F19] Tip) 0x1F12
     [0x1F1A] Tip) 0x1F13 [0x1F1B] (Fork (Fork Tip 0x1F14 [0x1F1C] Tip) 0x1F15 [0x1F1D] Tip)))
     0x1F20 [0x1F28] (Fork (Fork (Fork (Fork Tip 0x1F21 [0x1F29] Tip) 0x1F22 [0x1F2A] Tip)
     0x1F23 [0x1F2B] (Fork (Fork Tip 0x1F24 [0x1F2C] Tip) 0x1F25 [0x1F2D] Tip)) 0x1F26 [0x1F2E]
     (Fork (Fork (Fork Tip 0x1F27 [0x1F2F] Tip) 0x1F30 [0x1F38] Tip) 0x1F31 [0x1F39] (Fork Tip
     0x1F32 [0x1F3A] Tip)))) 0x1F33 [0x1F3B] (Fork (Fork (Fork (Fork (Fork Tip 0x1F34 [0x1F3C]
     Tip) 0x1F35 [0x1F3D] Tip) 0x1F36 [0x1F3E] (Fork (Fork Tip 0x1F37 [0x1F3F] Tip) 0x1F40
     [0x1F48] Tip)) 0x1F41 [0x1F49] (Fork (Fork (Fork Tip 0x1F42 [0x1F4A] Tip) 0x1F43 [0x1F4B]
     Tip) 0x1F44 [0x1F4C] (Fork Tip 0x1F45 [0x1F4D] Tip))) 0x1F50 [0x3A5, 0x313] (Fork (Fork
     (Fork (Fork Tip 0x1F51 [0x1F59] Tip) 0x1F52 [0x3A5, 0x313, 0x300] Tip) 0x1F53 [0x1F5B]
     (Fork (Fork Tip 0x1F54 [0x3A5, 0x313, 0x301] Tip) 0x1F55 [0x1F5D] Tip)) 0x1F56 [0x3A5,
     0x313, 0x342] (Fork (Fork (Fork Tip 0x1F57 [0x1F5F] Tip) 0x1F60 [0x1F68] Tip) 0x1F61
     [0x1F69] (Fork Tip 0x1F62 [0x1F6A] Tip))))) 0x1F63 [0x1F6B] (Fork (Fork (Fork (Fork (Fork
     (Fork Tip 0x1F64 [0x1F6C] Tip) 0x1F65 [0x1F6D] Tip) 0x1F66 [0x1F6E] (Fork (Fork Tip 0x1F67
     [0x1F6F] Tip) 0x1F70 [0x1FBA] Tip)) 0x1F71 [0x1FBB] (Fork (Fork (Fork Tip 0x1F72 [0x1FC8]
     Tip) 0x1F73 [0x1FC9] Tip) 0x1F74 [0x1FCA] (Fork Tip 0x1F75 [0x1FCB] Tip))) 0x1F76 [0x1FDA]
     (Fork (Fork (Fork (Fork Tip 0x1F77 [0x1FDB] Tip) 0x1F78 [0x1FF8] Tip) 0x1F79 [0x1FF9]
     (Fork (Fork Tip 0x1F7A [0x1FEA] Tip) 0x1F7B [0x1FEB] Tip)) 0x1F7C [0x1FFA] (Fork (Fork
     (Fork Tip 0x1F7D [0x1FFB] Tip) 0x1F80 [0x1F88] Tip) 0x1F81 [0x1F89] (Fork Tip 0x1F82
     [0x1F8A] Tip)))) 0x1F83 [0x1F8B] (Fork (Fork (Fork (Fork (Fork Tip 0x1F84 [0x1F8C] Tip)
     0x1F85 [0x1F8D] Tip) 0x1F86 [0x1F8E] (Fork (Fork Tip 0x1F87 [0x1F8F] Tip) 0x1F90 [0x1F98]
     Tip)) 0x1F91 [0x1F99] (Fork (Fork (Fork Tip 0x1F92 [0x1F9A] Tip) 0x1F93 [0x1F9B] Tip)
     0x1F94 [0x1F9C] (Fork Tip 0x1F95 [0x1F9D] Tip))) 0x1F96 [0x1F9E] (Fork (Fork (Fork (Fork
     Tip 0x1F97 [0x1F9F] Tip) 0x1FA0 [0x1FA8] Tip) 0x1FA1 [0x1FA9] (Fork (Fork Tip 0x1FA2
     [0x1FAA] Tip) 0x1FA3 [0x1FAB] Tip)) 0x1FA4 [0x1FAC] (Fork (Fork (Fork Tip 0x1FA5 [0x1FAD]
     Tip) 0x1FA6 [0x1FAE] Tip) 0x1FA7 [0x1FAF] (Fork Tip 0x1FB0 [0x1FB8] Tip))))))))) 0x1FB1
     [0x1FB9] (Fork (Fork (Fork (Fork (Fork (Fork (Fork (Fork (Fork (Fork Tip 0x1FB2 [0x1FBA,
     0x345] Tip) 0x1FB3 [0x1FBC] Tip) 0x1FB4 [0x386, 0x345] (Fork (Fork Tip 0x1FB6 [0x391,
     0x342] Tip) 0x1FB7 [0x391, 0x342, 0x345] Tip)) 0x1FBE [0x399] (Fork (Fork (Fork Tip 0x1FC2
     [0x1FCA, 0x345] Tip) 0x1FC3 [0x1FCC] Tip) 0x1FC4 [0x389, 0x345] (Fork (Fork Tip 0x1FC6
     [0x397, 0x342] Tip) 0x1FC7 [0x397, 0x342, 0x345] Tip))) 0x1FD0 [0x1FD8] (Fork (Fork (Fork
     (Fork Tip 0x1FD1 [0x1FD9] Tip) 0x1FD2 [0x399, 0x308, 0x300] Tip) 0x1FD3 [0x399, 0x308,
     0x301] (Fork (Fork Tip 0x1FD6 [0x399, 0x342] Tip) 0x1FD7 [0x399, 0x308, 0x342] Tip))
     0x1FE0 [0x1FE8] (Fork (Fork (Fork Tip 0x1FE1 [0x1FE9] Tip) 0x1FE2 [0x3A5, 0x308, 0x300]
     Tip) 0x1FE3 [0x3A5, 0x308, 0x301] (Fork Tip 0x1FE4 [0x3A1, 0x313] Tip)))) 0x1FE5 [0x1FEC]
     (Fork (Fork (Fork (Fork (Fork Tip 0x1FE6 [0x3A5, 0x342] Tip) 0x1FE7 [0x3A5, 0x308, 0x342]
     Tip) 0x1FF2 [0x1FFA, 0x345] (Fork (Fork Tip 0x1FF3 [0x1FFC] Tip) 0x1FF4 [0x38F, 0x345]
     Tip)) 0x1FF6 [0x3A9, 0x342] (Fork (Fork (Fork Tip 0x1FF7 [0x3A9, 0x342, 0x345] Tip) 0x214E
     [0x2132] Tip) 0x2170 [0x2160] (Fork Tip 0x2171 [0x2161] Tip))) 0x2172 [0x2162] (Fork (Fork
     (Fork (Fork Tip 0x2173 [0x2163] Tip) 0x2174 [0x2164] Tip) 0x2175 [0x2165] (Fork (Fork Tip
     0x2176 [0x2166] Tip) 0x2177 [0x2167] Tip)) 0x2178 [0x2168] (Fork (Fork (Fork Tip 0x2179
     [0x2169] Tip) 0x217A [0x216A] Tip) 0x217B [0x216B] (Fork Tip 0x217C [0x216C] Tip)))))
     0x217D [0x216D] (Fork (Fork (Fork (Fork (Fork (Fork Tip 0x217E [0x216E] Tip) 0x217F
     [0x216F] Tip) 0x2184 [0x2183] (Fork (Fork Tip 0x24D0 [0x24B6] Tip) 0x24D1 [0x24B7] Tip))
     0x24D2 [0x24B8] (Fork (Fork (Fork Tip 0x24D3 [0x24B9] Tip) 0x24D4 [0x24BA] Tip) 0x24D5
     [0x24BB] (Fork (Fork Tip 0x24D6 [0x24BC] Tip) 0x24D7 [0x24BD] Tip))) 0x24D8 [0x24BE] (Fork
     (Fork (Fork (Fork Tip 0x24D9 [0x24BF] Tip) 0x24DA [0x24C0] Tip) 0x24DB [0x24C1] (Fork
     (Fork Tip 0x24DC [0x24C2] Tip) 0x24DD [0x24C3] Tip)) 0x24DE [0x24C4] (Fork (Fork (Fork Tip
     0x24DF [0x24C5] Tip) 0x24E0 [0x24C6] Tip) 0x24E1 [0x24C7] (Fork Tip 0x24E2 [0x24C8]
     Tip)))) 0x24E3 [0x24C9] (Fork (Fork (Fork (Fork (Fork Tip 0x24E4 [0x24CA] Tip) 0x24E5
     [0x24CB] Tip) 0x24E6 [0x24CC] (Fork (Fork Tip 0x24E7 [0x24CD] Tip) 0x24E8 [0x24CE] Tip))
     0x24E9 [0x24CF] (Fork (Fork (Fork Tip 0x2C30 [0x2C00] Tip) 0x2C31 [0x2C01] Tip) 0x2C32
     [0x2C02] (Fork Tip 0x2C33 [0x2C03] Tip))) 0x2C34 [0x2C04] (Fork (Fork (Fork (Fork Tip
     0x2C35 [0x2C05] Tip) 0x2C36 [0x2C06] Tip) 0x2C37 [0x2C07] (Fork (Fork Tip 0x2C38 [0x2C08]
     Tip) 0x2C39 [0x2C09] Tip)) 0x2C3A [0x2C0A] (Fork (Fork (Fork Tip 0x2C3B [0x2C0B] Tip)
     0x2C3C [0x2C0C] Tip) 0x2C3D [0x2C0D] (Fork Tip 0x2C3E [0x2C0E] Tip)))))) 0x2C3F [0x2C0F]
     (Fork (Fork (Fork (Fork (Fork (Fork (Fork Tip 0x2C40 [0x2C10] Tip) 0x2C41 [0x2C11] Tip)
     0x2C42 [0x2C12] (Fork (Fork Tip 0x2C43 [0x2C13] Tip) 0x2C44 [0x2C14] Tip)) 0x2C45 [0x2C15]
     (Fork (Fork (Fork Tip 0x2C46 [0x2C16] Tip) 0x2C47 [0x2C17] Tip) 0x2C48 [0x2C18] (Fork
     (Fork Tip 0x2C49 [0x2C19] Tip) 0x2C4A [0x2C1A] Tip))) 0x2C4B [0x2C1B] (Fork (Fork (Fork
     (Fork Tip 0x2C4C [0x2C1C] Tip) 0x2C4D [0x2C1D] Tip) 0x2C4E [0x2C1E] (Fork (Fork Tip 0x2C4F
     [0x2C1F] Tip) 0x2C50 [0x2C20] Tip)) 0x2C51 [0x2C21] (Fork (Fork (Fork Tip 0x2C52 [0x2C22]
     Tip) 0x2C53 [0x2C23] Tip) 0x2C54 [0x2C24] (Fork Tip 0x2C55 [0x2C25] Tip)))) 0x2C56
     [0x2C26] (Fork (Fork (Fork (Fork (Fork Tip 0x2C57 [0x2C27] Tip) 0x2C58 [0x2C28] Tip)
     0x2C59 [0x2C29] (Fork (Fork Tip 0x2C5A [0x2C2A] Tip) 0x2C5B [0x2C2B] Tip)) 0x2C5C [0x2C2C]
     (Fork (Fork (Fork Tip 0x2C5D [0x2C2D] Tip) 0x2C5E [0x2C2E] Tip) 0x2C5F [0x2C2F] (Fork Tip
     0x2C61 [0x2C60] Tip))) 0x2C65 [0x23A] (Fork (Fork (Fork (Fork Tip 0x2C66 [0x23E] Tip)
     0x2C68 [0x2C67] Tip) 0x2C6A [0x2C69] (Fork (Fork Tip 0x2C6C [0x2C6B] Tip) 0x2C73 [0x2C72]
     Tip)) 0x2C76 [0x2C75] (Fork (Fork (Fork Tip 0x2C81 [0x2C80] Tip) 0x2C83 [0x2C82] Tip)
     0x2C85 [0x2C84] (Fork Tip 0x2C87 [0x2C86] Tip))))) 0x2C89 [0x2C88] (Fork (Fork (Fork (Fork
     (Fork (Fork Tip 0x2C8B [0x2C8A] Tip) 0x2C8D [0x2C8C] Tip) 0x2C8F [0x2C8E] (Fork (Fork Tip
     0x2C91 [0x2C90] Tip) 0x2C93 [0x2C92] Tip)) 0x2C95 [0x2C94] (Fork (Fork (Fork Tip 0x2C97
     [0x2C96] Tip) 0x2C99 [0x2C98] Tip) 0x2C9B [0x2C9A] (Fork Tip 0x2C9D [0x2C9C] Tip))) 0x2C9F
     [0x2C9E] (Fork (Fork (Fork (Fork Tip 0x2CA1 [0x2CA0] Tip) 0x2CA3 [0x2CA2] Tip) 0x2CA5
     [0x2CA4] (Fork (Fork Tip 0x2CA7 [0x2CA6] Tip) 0x2CA9 [0x2CA8] Tip)) 0x2CAB [0x2CAA] (Fork
     (Fork (Fork Tip 0x2CAD [0x2CAC] Tip) 0x2CAF [0x2CAE] Tip) 0x2CB1 [0x2CB0] (Fork Tip 0x2CB3
     [0x2CB2] Tip)))) 0x2CB5 [0x2CB4] (Fork (Fork (Fork (Fork (Fork Tip 0x2CB7 [0x2CB6] Tip)
     0x2CB9 [0x2CB8] Tip) 0x2CBB [0x2CBA] (Fork (Fork Tip 0x2CBD [0x2CBC] Tip) 0x2CBF [0x2CBE]
     Tip)) 0x2CC1 [0x2CC0] (Fork (Fork (Fork Tip 0x2CC3 [0x2CC2] Tip) 0x2CC5 [0x2CC4] Tip)
     0x2CC7 [0x2CC6] (Fork Tip 0x2CC9 [0x2CC8] Tip))) 0x2CCB [0x2CCA] (Fork (Fork (Fork (Fork
     Tip 0x2CCD [0x2CCC] Tip) 0x2CCF [0x2CCE] Tip) 0x2CD1 [0x2CD0] (Fork (Fork Tip 0x2CD3
     [0x2CD2] Tip) 0x2CD5 [0x2CD4] Tip)) 0x2CD7 [0x2CD6] (Fork (Fork (Fork Tip 0x2CD9 [0x2CD8]
     Tip) 0x2CDB [0x2CDA] Tip) 0x2CDD [0x2CDC] (Fork Tip 0x2CDF [0x2CDE] Tip))))))) 0x2CE1
     [0x2CE0] (Fork (Fork (Fork (Fork (Fork (Fork (Fork (Fork Tip 0x2CE3 [0x2CE2] Tip) 0x2CEC
     [0x2CEB] Tip) 0x2CEE [0x2CED] (Fork (Fork Tip 0x2CF3 [0x2CF2] Tip) 0x2D00 [0x10A0] Tip))
     0x2D01 [0x10A1] (Fork (Fork (Fork Tip 0x2D02 [0x10A2] Tip) 0x2D03 [0x10A3] Tip) 0x2D04
     [0x10A4] (Fork (Fork Tip 0x2D05 [0x10A5] Tip) 0x2D06 [0x10A6] Tip))) 0x2D07 [0x10A7] (Fork
     (Fork (Fork (Fork Tip 0x2D08 [0x10A8] Tip) 0x2D09 [0x10A9] Tip) 0x2D0A [0x10AA] (Fork
     (Fork Tip 0x2D0B [0x10AB] Tip) 0x2D0C [0x10AC] Tip)) 0x2D0D [0x10AD] (Fork (Fork (Fork Tip
     0x2D0E [0x10AE] Tip) 0x2D0F [0x10AF] Tip) 0x2D10 [0x10B0] (Fork Tip 0x2D11 [0x10B1]
     Tip)))) 0x2D12 [0x10B2] (Fork (Fork (Fork (Fork (Fork Tip 0x2D13 [0x10B3] Tip) 0x2D14
     [0x10B4] Tip) 0x2D15 [0x10B5] (Fork (Fork Tip 0x2D16 [0x10B6] Tip) 0x2D17 [0x10B7] Tip))
     0x2D18 [0x10B8] (Fork (Fork (Fork Tip 0x2D19 [0x10B9] Tip) 0x2D1A [0x10BA] Tip) 0x2D1B
     [0x10BB] (Fork Tip 0x2D1C [0x10BC] Tip))) 0x2D1D [0x10BD] (Fork (Fork (Fork (Fork Tip
     0x2D1E [0x10BE] Tip) 0x2D1F [0x10BF] Tip) 0x2D20 [0x10C0] (Fork (Fork Tip 0x2D21 [0x10C1]
     Tip) 0x2D22 [0x10C2] Tip)) 0x2D23 [0x10C3] (Fork (Fork (Fork Tip 0x2D24 [0x10C4] Tip)
     0x2D25 [0x10C5] Tip) 0x2D27 [0x10C7] (Fork Tip 0x2D2D [0x10CD] Tip))))) 0xA641 [0xA640]
     (Fork (Fork (Fork (Fork (Fork (Fork Tip 0xA643 [0xA642] Tip) 0xA645 [0xA644] Tip) 0xA647
     [0xA646] (Fork (Fork Tip 0xA649 [0xA648] Tip) 0xA64B [0xA64A] Tip)) 0xA64D [0xA64C] (Fork
     (Fork (Fork Tip 0xA64F [0xA64E] Tip) 0xA651 [0xA650] Tip) 0xA653 [0xA652] (Fork Tip 0xA655
     [0xA654] Tip))) 0xA657 [0xA656] (Fork (Fork (Fork (Fork Tip 0xA659 [0xA658] Tip) 0xA65B
     [0xA65A] Tip) 0xA65D [0xA65C] (Fork (Fork Tip 0xA65F [0xA65E] Tip) 0xA661 [0xA660] Tip))
     0xA663 [0xA662] (Fork (Fork (Fork Tip 0xA665 [0xA664] Tip) 0xA667 [0xA666] Tip) 0xA669
     [0xA668] (Fork Tip 0xA66B [0xA66A] Tip)))) 0xA66D [0xA66C] (Fork (Fork (Fork (Fork (Fork
     Tip 0xA681 [0xA680] Tip) 0xA683 [0xA682] Tip) 0xA685 [0xA684] (Fork (Fork Tip 0xA687
     [0xA686] Tip) 0xA689 [0xA688] Tip)) 0xA68B [0xA68A] (Fork (Fork (Fork Tip 0xA68D [0xA68C]
     Tip) 0xA68F [0xA68E] Tip) 0xA691 [0xA690] (Fork Tip 0xA693 [0xA692] Tip))) 0xA695 [0xA694]
     (Fork (Fork (Fork (Fork Tip 0xA697 [0xA696] Tip) 0xA699 [0xA698] Tip) 0xA69B [0xA69A]
     (Fork (Fork Tip 0xA723 [0xA722] Tip) 0xA725 [0xA724] Tip)) 0xA727 [0xA726] (Fork (Fork
     (Fork Tip 0xA729 [0xA728] Tip) 0xA72B [0xA72A] Tip) 0xA72D [0xA72C] (Fork Tip 0xA72F
     [0xA72E] Tip)))))) 0xA733 [0xA732] (Fork (Fork (Fork (Fork (Fork (Fork (Fork Tip 0xA735
     [0xA734] Tip) 0xA737 [0xA736] Tip) 0xA739 [0xA738] (Fork (Fork Tip 0xA73B [0xA73A] Tip)
     0xA73D [0xA73C] Tip)) 0xA73F [0xA73E] (Fork (Fork (Fork Tip 0xA741 [0xA740] Tip) 0xA743
     [0xA742] Tip) 0xA745 [0xA744] (Fork (Fork Tip 0xA747 [0xA746] Tip) 0xA749 [0xA748] Tip)))
     0xA74B [0xA74A] (Fork (Fork (Fork (Fork Tip 0xA74D [0xA74C] Tip) 0xA74F [0xA74E] Tip)
     0xA751 [0xA750] (Fork (Fork Tip 0xA753 [0xA752] Tip) 0xA755 [0xA754] Tip)) 0xA757 [0xA756]
     (Fork (Fork (Fork Tip 0xA759 [0xA758] Tip) 0xA75B [0xA75A] Tip) 0xA75D [0xA75C] (Fork Tip
     0xA75F [0xA75E] Tip)))) 0xA761 [0xA760] (Fork (Fork (Fork (Fork (Fork Tip 0xA763 [0xA762]
     Tip) 0xA765 [0xA764] Tip) 0xA767 [0xA766] (Fork (Fork Tip 0xA769 [0xA768] Tip) 0xA76B
     [0xA76A] Tip)) 0xA76D [0xA76C] (Fork (Fork (Fork Tip 0xA76F [0xA76E] Tip) 0xA77A [0xA779]
     Tip) 0xA77C [0xA77B] (Fork Tip 0xA77F [0xA77E] Tip))) 0xA781 [0xA780] (Fork (Fork (Fork
     (Fork Tip 0xA783 [0xA782] Tip) 0xA785 [0xA784] Tip) 0xA787 [0xA786] (Fork (Fork Tip 0xA78C
     [0xA78B] Tip) 0xA791 [0xA790] Tip)) 0xA793 [0xA792] (Fork (Fork (Fork Tip 0xA794 [0xA7C4]
     Tip) 0xA797 [0xA796] Tip) 0xA799 [0xA798] (Fork Tip 0xA79B [0xA79A] Tip))))) 0xA79D
     [0xA79C] (Fork (Fork (Fork (Fork (Fork (Fork Tip 0xA79F [0xA79E] Tip) 0xA7A1 [0xA7A0] Tip)
     0xA7A3 [0xA7A2] (Fork (Fork Tip 0xA7A5 [0xA7A4] Tip) 0xA7A7 [0xA7A6] Tip)) 0xA7A9 [0xA7A8]
     (Fork (Fork (Fork Tip 0xA7B5 [0xA7B4] Tip) 0xA7B7 [0xA7B6] Tip) 0xA7B9 [0xA7B8] (Fork Tip
     0xA7BB [0xA7BA] Tip))) 0xA7BD [0xA7BC] (Fork (Fork (Fork (Fork Tip 0xA7BF [0xA7BE] Tip)
     0xA7C1 [0xA7C0] Tip) 0xA7C3 [0xA7C2] (Fork (Fork Tip 0xA7C8 [0xA7C7] Tip) 0xA7CA [0xA7C9]
     Tip)) 0xA7D1 [0xA7D0] (Fork (Fork (Fork Tip 0xA7D7 [0xA7D6] Tip) 0xA7D9 [0xA7D8] Tip)
     0xA7F6 [0xA7F5] (Fork Tip 0xAB53 [0xA7B3] Tip)))) 0xAB70 [0x13A0] (Fork (Fork (Fork (Fork
     (Fork Tip 0xAB71 [0x13A1] Tip) 0xAB72 [0x13A2] Tip) 0xAB73 [0x13A3] (Fork (Fork Tip 0xAB74
     [0x13A4] Tip) 0xAB75 [0x13A5] Tip)) 0xAB76 [0x13A6] (Fork (Fork (Fork Tip 0xAB77 [0x13A7]
     Tip) 0xAB78 [0x13A8] Tip) 0xAB79 [0x13A9] (Fork Tip 0xAB7A [0x13AA] Tip))) 0xAB7B [0x13AB]
     (Fork (Fork (Fork (Fork Tip 0xAB7C [0x13AC] Tip) 0xAB7D [0x13AD] Tip) 0xAB7E [0x13AE]
     (Fork (Fork Tip 0xAB7F [0x13AF] Tip) 0xAB80 [0x13B0] Tip)) 0xAB81 [0x13B1] (Fork (Fork
     (Fork Tip 0xAB82 [0x13B2] Tip) 0xAB83 [0x13B3] Tip) 0xAB84 [0x13B4] (Fork Tip 0xAB85
     [0x13B5] Tip)))))))) 0xAB86 [0x13B6] (Fork (Fork (Fork (Fork (Fork (Fork (Fork (Fork (Fork
     Tip 0xAB87 [0x13B7] Tip) 0xAB88 [0x13B8] Tip) 0xAB89 [0x13B9] (Fork (Fork Tip 0xAB8A
     [0x13BA] Tip) 0xAB8B [0x13BB] Tip)) 0xAB8C [0x13BC] (Fork (Fork (Fork Tip 0xAB8D [0x13BD]
     Tip) 0xAB8E [0x13BE] Tip) 0xAB8F [0x13BF] (Fork (Fork Tip 0xAB90 [0x13C0] Tip) 0xAB91
     [0x13C1] Tip))) 0xAB92 [0x13C2] (Fork (Fork (Fork (Fork Tip 0xAB93 [0x13C3] Tip) 0xAB94
     [0x13C4] Tip) 0xAB95 [0x13C5] (Fork (Fork Tip 0xAB96 [0x13C6] Tip) 0xAB97 [0x13C7] Tip))
     0xAB98 [0x13C8] (Fork (Fork (Fork Tip 0xAB99 [0x13C9] Tip) 0xAB9A [0x13CA] Tip) 0xAB9B
     [0x13CB] (Fork Tip 0xAB9C [0x13CC] Tip)))) 0xAB9D [0x13CD] (Fork (Fork (Fork (Fork (Fork
     Tip 0xAB9E [0x13CE] Tip) 0xAB9F [0x13CF] Tip) 0xABA0 [0x13D0] (Fork (Fork Tip 0xABA1
     [0x13D1] Tip) 0xABA2 [0x13D2] Tip)) 0xABA3 [0x13D3] (Fork (Fork (Fork Tip 0xABA4 [0x13D4]
     Tip) 0xABA5 [0x13D5] Tip) 0xABA6 [0x13D6] (Fork Tip 0xABA7 [0x13D7] Tip))) 0xABA8 [0x13D8]
     (Fork (Fork (Fork (Fork Tip 0xABA9 [0x13D9] Tip) 0xABAA [0x13DA] Tip) 0xABAB [0x13DB]
     (Fork (Fork Tip 0xABAC [0x13DC] Tip) 0xABAD [0x13DD] Tip)) 0xABAE [0x13DE] (Fork (Fork
     (Fork Tip 0xABAF [0x13DF] Tip) 0xABB0 [0x13E0] Tip) 0xABB1 [0x13E1] (Fork Tip 0xABB2
     [0x13E2] Tip))))) 0xABB3 [0x13E3] (Fork (Fork (Fork (Fork (Fork (Fork Tip 0xABB4 [0x13E4]
     Tip) 0xABB5 [0x13E5] Tip) 0xABB6 [0x13E6] (Fork (Fork Tip 0xABB7 [0x13E7] Tip) 0xABB8
     [0x13E8] Tip)) 0xABB9 [0x13E9] (Fork (Fork (Fork Tip 0xABBA [0x13EA] Tip) 0xABBB [0x13EB]
     Tip) 0xABBC [0x13EC] (Fork Tip 0xABBD [0x13ED] Tip))) 0xABBE [0x13EE] (Fork (Fork (Fork
     (Fork Tip 0xABBF [0x13EF] Tip) 0xFB00 [0x46, 0x66] Tip) 0xFB01 [0x46, 0x69] (Fork (Fork
     Tip 0xFB02 [0x46, 0x6C] Tip) 0xFB03 [0x46, 0x66, 0x69] Tip)) 0xFB04 [0x46, 0x66, 0x6C]
     (Fork (Fork (Fork Tip 0xFB05 [0x53, 0x74] Tip) 0xFB06 [0x53, 0x74] Tip) 0xFB13 [0x544,
     0x576] (Fork Tip 0xFB14 [0x544, 0x565] Tip)))) 0xFB15 [0x544, 0x56B] (Fork (Fork (Fork
     (Fork (Fork Tip 0xFB16 [0x54E, 0x576] Tip) 0xFB17 [0x544, 0x56D] Tip) 0xFF41 [0xFF21]
     (Fork (Fork Tip 0xFF42 [0xFF22] Tip) 0xFF43 [0xFF23] Tip)) 0xFF44 [0xFF24] (Fork (Fork
     (Fork Tip 0xFF45 [0xFF25] Tip) 0xFF46 [0xFF26] Tip) 0xFF47 [0xFF27] (Fork Tip 0xFF48
     [0xFF28] Tip))) 0xFF49 [0xFF29] (Fork (Fork (Fork (Fork Tip 0xFF4A [0xFF2A] Tip) 0xFF4B
     [0xFF2B] Tip) 0xFF4C [0xFF2C] (Fork (Fork Tip 0xFF4D [0xFF2D] Tip) 0xFF4E [0xFF2E] Tip))
     0xFF4F [0xFF2F] (Fork (Fork (Fork Tip 0xFF50 [0xFF30] Tip) 0xFF51 [0xFF31] Tip) 0xFF52
     [0xFF32] (Fork Tip 0xFF53 [0xFF33] Tip)))))) 0xFF54 [0xFF34] (Fork (Fork (Fork (Fork (Fork
     (Fork (Fork Tip 0xFF55 [0xFF35] Tip) 0xFF56 [0xFF36] Tip) 0xFF57 [0xFF37] (Fork (Fork Tip
     0xFF58 [0xFF38] Tip) 0xFF59 [0xFF39] Tip)) 0xFF5A [0xFF3A] (Fork (Fork (Fork Tip 0x10428
     [0x10400] Tip) 0x10429 [0x10401] Tip) 0x1042A [0x10402] (Fork (Fork Tip 0x1042B [0x10403]
     Tip) 0x1042C [0x10404] Tip))) 0x1042D [0x10405] (Fork (Fork (Fork (Fork Tip 0x1042E
     [0x10406] Tip) 0x1042F [0x10407] Tip) 0x10430 [0x10408] (Fork (Fork Tip 0x10431 [0x10409]
     Tip) 0x10432 [0x1040A] Tip)) 0x10433 [0x1040B] (Fork (Fork (Fork Tip 0x10434 [0x1040C]
     Tip) 0x10435 [0x1040D] Tip) 0x10436 [0x1040E] (Fork Tip 0x10437 [0x1040F] Tip)))) 0x10438
     [0x10410] (Fork (Fork (Fork (Fork (Fork Tip 0x10439 [0x10411] Tip) 0x1043A [0x10412] Tip)
     0x1043B [0x10413] (Fork (Fork Tip 0x1043C [0x10414] Tip) 0x1043D [0x10415] Tip)) 0x1043E
     [0x10416] (Fork (Fork (Fork Tip 0x1043F [0x10417] Tip) 0x10440 [0x10418] Tip) 0x10441
     [0x10419] (Fork Tip 0x10442 [0x1041A] Tip))) 0x10443 [0x1041B] (Fork (Fork (Fork (Fork Tip
     0x10444 [0x1041C] Tip) 0x10445 [0x1041D] Tip) 0x10446 [0x1041E] (Fork (Fork Tip 0x10447
     [0x1041F] Tip) 0x10448 [0x10420] Tip)) 0x10449 [0x10421] (Fork (Fork (Fork Tip 0x1044A
     [0x10422] Tip) 0x1044B [0x10423] Tip) 0x1044C [0x10424] (Fork Tip 0x1044D [0x10425]
     Tip))))) 0x1044E [0x10426] (Fork (Fork (Fork (Fork (Fork (Fork Tip 0x1044F [0x10427] Tip)
     0x104D8 [0x104B0] Tip) 0x104D9 [0x104B1] (Fork (Fork Tip 0x104DA [0x104B2] Tip) 0x104DB
     [0x104B3] Tip)) 0x104DC [0x104B4] (Fork (Fork (Fork Tip 0x104DD [0x104B5] Tip) 0x104DE
     [0x104B6] Tip) 0x104DF [0x104B7] (Fork Tip 0x104E0 [0x104B8] Tip))) 0x104E1 [0x104B9]
     (Fork (Fork (Fork (Fork Tip 0x104E2 [0x104BA] Tip) 0x104E3 [0x104BB] Tip) 0x104E4
     [0x104BC] (Fork (Fork Tip 0x104E5 [0x104BD] Tip) 0x104E6 [0x104BE] Tip)) 0x104E7 [0x104BF]
     (Fork (Fork (Fork Tip 0x104E8 [0x104C0] Tip) 0x104E9 [0x104C1] Tip) 0x104EA [0x104C2]
     (Fork Tip 0x104EB [0x104C3] Tip)))) 0x104EC [0x104C4] (Fork (Fork (Fork (Fork (Fork Tip
     0x104ED [0x104C5] Tip) 0x104EE [0x104C6] Tip) 0x104EF [0x104C7] (Fork (Fork Tip 0x104F0
     [0x104C8] Tip) 0x104F1 [0x104C9] Tip)) 0x104F2 [0x104CA] (Fork (Fork (Fork Tip 0x104F3
     [0x104CB] Tip) 0x104F4 [0x104CC] Tip) 0x104F5 [0x104CD] (Fork Tip 0x104F6 [0x104CE] Tip)))
     0x104F7 [0x104CF] (Fork (Fork (Fork (Fork Tip 0x104F8 [0x104D0] Tip) 0x104F9 [0x104D1]
     Tip) 0x104FA [0x104D2] (Fork (Fork Tip 0x104FB [0x104D3] Tip) 0x10597 [0x10570] Tip))
     0x10598 [0x10571] (Fork (Fork (Fork Tip 0x10599 [0x10572] Tip) 0x1059A [0x10573] Tip)
     0x1059B [0x10574] (Fork Tip 0x1059C [0x10575] Tip))))))) 0x1059D [0x10576] (Fork (Fork
     (Fork (Fork (Fork (Fork (Fork (Fork Tip 0x1059E [0x10577] Tip) 0x1059F [0x10578] Tip)
     0x105A0 [0x10579] (Fork (Fork Tip 0x105A1 [0x1057A] Tip) 0x105A3 [0x1057C] Tip)) 0x105A4
     [0x1057D] (Fork (Fork (Fork Tip 0x105A5 [0x1057E] Tip) 0x105A6 [0x1057F] Tip) 0x105A7
     [0x10580] (Fork (Fork Tip 0x105A8 [0x10581] Tip) 0x105A9 [0x10582] Tip))) 0x105AA
     [0x10583] (Fork (Fork (Fork (Fork Tip 0x105AB [0x10584] Tip) 0x105AC [0x10585] Tip)
     0x105AD [0x10586] (Fork (Fork Tip 0x105AE [0x10587] Tip) 0x105AF [0x10588] Tip)) 0x105B0
     [0x10589] (Fork (Fork (Fork Tip 0x105B1 [0x1058A] Tip) 0x105B3 [0x1058C] Tip) 0x105B4
     [0x1058D] (Fork Tip 0x105B5 [0x1058E] Tip)))) 0x105B6 [0x1058F] (Fork (Fork (Fork (Fork
     (Fork Tip 0x105B7 [0x10590] Tip) 0x105B8 [0x10591] Tip) 0x105B9 [0x10592] (Fork (Fork Tip
     0x105BB [0x10594] Tip) 0x105BC [0x10595] Tip)) 0x10CC0 [0x10C80] (Fork (Fork (Fork Tip
     0x10CC1 [0x10C81] Tip) 0x10CC2 [0x10C82] Tip) 0x10CC3 [0x10C83] (Fork Tip 0x10CC4
     [0x10C84] Tip))) 0x10CC5 [0x10C85] (Fork (Fork (Fork (Fork Tip 0x10CC6 [0x10C86] Tip)
     0x10CC7 [0x10C87] Tip) 0x10CC8 [0x10C88] (Fork (Fork Tip 0x10CC9 [0x10C89] Tip) 0x10CCA
     [0x10C8A] Tip)) 0x10CCB [0x10C8B] (Fork (Fork (Fork Tip 0x10CCC [0x10C8C] Tip) 0x10CCD
     [0x10C8D] Tip) 0x10CCE [0x10C8E] (Fork Tip 0x10CCF [0x10C8F] Tip))))) 0x10CD0 [0x10C90]
     (Fork (Fork (Fork (Fork (Fork (Fork Tip 0x10CD1 [0x10C91] Tip) 0x10CD2 [0x10C92] Tip)
     0x10CD3 [0x10C93] (Fork (Fork Tip 0x10CD4 [0x10C94] Tip) 0x10CD5 [0x10C95] Tip)) 0x10CD6
     [0x10C96] (Fork (Fork (Fork Tip 0x10CD7 [0x10C97] Tip) 0x10CD8 [0x10C98] Tip) 0x10CD9
     [0x10C99] (Fork Tip 0x10CDA [0x10C9A] Tip))) 0x10CDB [0x10C9B] (Fork (Fork (Fork (Fork Tip
     0x10CDC [0x10C9C] Tip) 0x10CDD [0x10C9D] Tip) 0x10CDE [0x10C9E] (Fork (Fork Tip 0x10CDF
     [0x10C9F] Tip) 0x10CE0 [0x10CA0] Tip)) 0x10CE1 [0x10CA1] (Fork (Fork (Fork Tip 0x10CE2
     [0x10CA2] Tip) 0x10CE3 [0x10CA3] Tip) 0x10CE4 [0x10CA4] (Fork Tip 0x10CE5 [0x10CA5]
     Tip)))) 0x10CE6 [0x10CA6] (Fork (Fork (Fork (Fork (Fork Tip 0x10CE7 [0x10CA7] Tip) 0x10CE8
     [0x10CA8] Tip) 0x10CE9 [0x10CA9] (Fork (Fork Tip 0x10CEA [0x10CAA] Tip) 0x10CEB [0x10CAB]
     Tip)) 0x10CEC [0x10CAC] (Fork (Fork (Fork Tip 0x10CED [0x10CAD] Tip) 0x10CEE [0x10CAE]
     Tip) 0x10CEF [0x10CAF] (Fork Tip 0x10CF0 [0x10CB0] Tip))) 0x10CF1 [0x10CB1] (Fork (Fork
     (Fork (Fork Tip 0x10CF2 [0x10CB2] Tip) 0x118C0 [0x118A0] Tip) 0x118C1 [0x118A1] (Fork
     (Fork Tip 0x118C2 [0x118A2] Tip) 0x118C3 [0x118A3] Tip)) 0x118C4 [0x118A4] (Fork (Fork
     (Fork Tip 0x118C5 [0x118A5] Tip) 0x118C6 [0x118A6] Tip) 0x118C7 [0x118A7] (Fork Tip
     0x118C8 [0x118A8] Tip)))))) 0x118C9 [0x118A9] (Fork (Fork (Fork (Fork (Fork (Fork (Fork
     Tip 0x118CA [0x118AA] Tip) 0x118CB [0x118AB] Tip) 0x118CC [0x118AC] (Fork (Fork Tip
     0x118CD [0x118AD] Tip) 0x118CE [0x118AE] Tip)) 0x118CF [0x118AF] (Fork (Fork (Fork Tip
     0x118D0 [0x118B0] Tip) 0x118D1 [0x118B1] Tip) 0x118D2 [0x118B2] (Fork (Fork Tip 0x118D3
     [0x118B3] Tip) 0x118D4 [0x118B4] Tip))) 0x118D5 [0x118B5] (Fork (Fork (Fork (Fork Tip
     0x118D6 [0x118B6] Tip) 0x118D7 [0x118B7] Tip) 0x118D8 [0x118B8] (Fork (Fork Tip 0x118D9
     [0x118B9] Tip) 0x118DA [0x118BA] Tip)) 0x118DB [0x118BB] (Fork (Fork (Fork Tip 0x118DC
     [0x118BC] Tip) 0x118DD [0x118BD] Tip) 0x118DE [0x118BE] (Fork Tip 0x118DF [0x118BF]
     Tip)))) 0x16E60 [0x16E40] (Fork (Fork (Fork (Fork (Fork Tip 0x16E61 [0x16E41] Tip) 0x16E62
     [0x16E42] Tip) 0x16E63 [0x16E43] (Fork (Fork Tip 0x16E64 [0x16E44] Tip) 0x16E65 [0x16E45]
     Tip)) 0x16E66 [0x16E46] (Fork (Fork (Fork Tip 0x16E67 [0x16E47] Tip) 0x16E68 [0x16E48]
     Tip) 0x16E69 [0x16E49] (Fork Tip 0x16E6A [0x16E4A] Tip))) 0x16E6B [0x16E4B] (Fork (Fork
     (Fork (Fork Tip 0x16E6C [0x16E4C] Tip) 0x16E6D [0x16E4D] Tip) 0x16E6E [0x16E4E] (Fork
     (Fork Tip 0x16E6F [0x16E4F] Tip) 0x16E70 [0x16E50] Tip)) 0x16E71 [0x16E51] (Fork (Fork
     (Fork Tip 0x16E72 [0x16E52] Tip) 0x16E73 [0x16E53] Tip) 0x16E74 [0x16E54] (Fork Tip
     0x16E75 [0x16E55] Tip))))) 0x16E76 [0x16E56] (Fork (Fork (Fork (Fork (Fork (Fork Tip
     0x16E77 [0x16E57] Tip) 0x16E78 [0x16E58] Tip) 0x16E79 [0x16E59] (Fork (Fork Tip 0x16E7A
     [0x16E5A] Tip) 0x16E7B [0x16E5B] Tip)) 0x16E7C [0x16E5C] (Fork (Fork (Fork Tip 0x16E7D
     [0x16E5D] Tip) 0x16E7E [0x16E5E] Tip) 0x16E7F [0x16E5F] (Fork Tip 0x1E922 [0x1E900] Tip)))
     0x1E923 [0x1E901] (Fork (Fork (Fork (Fork Tip 0x1E924 [0x1E902] Tip) 0x1E925 [0x1E903]
     Tip) 0x1E926 [0x1E904] (Fork (Fork Tip 0x1E927 [0x1E905] Tip) 0x1E928 [0x1E906] Tip))
     0x1E929 [0x1E907] (Fork (Fork (Fork Tip 0x1E92A [0x1E908] Tip) 0x1E92B [0x1E909] Tip)
     0x1E92C [0x1E90A] (Fork Tip 0x1E92D [0x1E90B] Tip)))) 0x1E92E [0x1E90C] (Fork (Fork (Fork
     (Fork (Fork Tip 0x1E92F [0x1E90D] Tip) 0x1E930 [0x1E90E] Tip) 0x1E931 [0x1E90F] (Fork
     (Fork Tip 0x1E932 [0x1E910] Tip) 0x1E933 [0x1E911] Tip)) 0x1E934 [0x1E912] (Fork (Fork
     (Fork Tip 0x1E935 [0x1E913] Tip) 0x1E936 [0x1E914] Tip) 0x1E937 [0x1E915] (Fork Tip
     0x1E938 [0x1E916] Tip))) 0x1E939 [0x1E917] (Fork (Fork (Fork (Fork Tip 0x1E93A [0x1E918]
     Tip) 0x1E93B [0x1E919] Tip) 0x1E93C [0x1E91A] (Fork (Fork Tip 0x1E93D [0x1E91B] Tip)
     0x1E93E [0x1E91C] Tip)) 0x1E93F [0x1E91D] (Fork (Fork (Fork Tip 0x1E940 [0x1E91E] Tip)
     0x1E941 [0x1E91F] Tip) 0x1E942 [0x1E920] (Fork Tip 0x1E943 [0x1E921] Tip))))))))))"


text \<open>\<open>str.isspace\<close> on one character, which is also what \<open>strip\<close> and \<open>split\<close> remove.\<close>

definition isspace :: "codepoint \<Rightarrow> bool" where
  "isspace c = ((0x9 \<le> c \<and> c \<le> 0xD) \<or> (0x1C \<le> c \<and> c \<le> 0x20) \<or> c = 0x85 \<or> c = 0xA0
     \<or> c = 0x1680 \<or> (0x2000 \<le> c \<and> c \<le> 0x200A) \<or> c = 0x2028 \<or> c = 0x2029
     \<or> c = 0x202F \<or> c = 0x205F \<or> c = 0x3000)"

definition ascii_digit :: "codepoint \<Rightarrow> bool" where
  "ascii_digit c = (0x30 \<le> c \<and> c \<le> 0x39)"

text \<open>\<open>str.isdigit\<close> on one character.\<close>

definition isdigit_cp :: "codepoint \<Rightarrow> bool" where
  "isdigit_cp c = (if c < 0x80 then ascii_digit c else in_ranges DIGIT_RANGES c)"

text \<open>The class \<open>\d\<close> of the \<open>re\<close> module on a \<open>str\<close> pattern, and the value \<open>int\<close> reads.\<close>

definition isdecimal_cp :: "codepoint \<Rightarrow> bool" where
  "isdecimal_cp c = (if c < 0x80 then ascii_digit c else in_ranges DECIMAL_RANGES c)"

definition decimal_value :: "codepoint \<Rightarrow> nat" where
  "decimal_value c =
     (if c < 0x80 then c - 0x30
      else case range_start DECIMAL_RANGES c of Some lo \<Rightarrow> (c - lo) mod 10 | None \<Rightarrow> 0)"

text \<open>The class \<open>\w\<close> of the \<open>re\<close> module on a \<open>str\<close> pattern.\<close>

definition isword :: "codepoint \<Rightarrow> bool" where
  "isword c =
     (if c < 0x80
      then (0x30 \<le> c \<and> c \<le> 0x39) \<or> (0x41 \<le> c \<and> c \<le> 0x5A) \<or> c = 0x5F
        \<or> (0x61 \<le> c \<and> c \<le> 0x7A)
      else in_ranges WORD_RANGES c)"

text \<open>The properties Cased and Case_Ignorable.\<close>

definition iscased :: "codepoint \<Rightarrow> bool" where
  "iscased c =
     (if c < 0x80 then (0x41 \<le> c \<and> c \<le> 0x5A) \<or> (0x61 \<le> c \<and> c \<le> 0x7A)
      else in_ranges CASED_RANGES c)"

definition iscaseignorable :: "codepoint \<Rightarrow> bool" where
  "iscaseignorable c =
     (if c < 0x80 then c = 0x27 \<or> c = 0x2E \<or> c = 0x3A \<or> c = 0x5E \<or> c = 0x60
      else in_ranges CASE_IGNORABLE_RANGES c)"

text \<open>
  Lower case and title case of one character, which may be more than one character:
  the title case of sharp s is \<open>Ss\<close>, and that of U+0149 (n preceded by apostrophe) is
  U+02BC followed by \<open>N\<close>.
\<close>

definition lower_cp :: "codepoint \<Rightarrow> str" where
  "lower_cp c =
     (if c < 0x80 then [if 0x41 \<le> c \<and> c \<le> 0x5A then c + 0x20 else c]
      else case lookup LOWER_TABLE c of Some v \<Rightarrow> v | None \<Rightarrow> [c])"

definition title_cp :: "codepoint \<Rightarrow> str" where
  "title_cp c =
     (if c < 0x80 then [if 0x61 \<le> c \<and> c \<le> 0x7A then c - 0x20 else c]
      else case lookup TITLE_TABLE c of Some v \<Rightarrow> v | None \<Rightarrow> [c])"

text \<open>
  The lower case of a character inside a string. The capital sigma, U+03A3, becomes the
  final sigma U+03C2 when the nearest character before it that is not case-ignorable is
  cased and the nearest such character after it is not (or there is none), and U+03C3
  otherwise. \<open>before\<close> and \<open>after\<close> are the characters of the string before and after it.
\<close>

definition final_sigma :: "str \<Rightarrow> str \<Rightarrow> bool" where
  "final_sigma before after =
     (case dropWhile iscaseignorable (rev before) of
        [] \<Rightarrow> False
      | p # ps \<Rightarrow> iscased p \<and>
          (case dropWhile iscaseignorable after of [] \<Rightarrow> True | n # ns \<Rightarrow> \<not> iscased n))"

definition lower_ucs4 :: "str \<Rightarrow> codepoint \<Rightarrow> str \<Rightarrow> str" where
  "lower_ucs4 before c after =
     (if c = 0x3A3 then [if final_sigma before after then 0x3C2 else 0x3C3] else lower_cp c)"

fun lower_from :: "str \<Rightarrow> str \<Rightarrow> str" where
  "lower_from before [] = []"
| "lower_from before (c # cs) = lower_ucs4 before c cs @ lower_from (before @ [c]) cs"

definition lower :: "str \<Rightarrow> str" where
  "lower s = lower_from [] s"

text \<open>\<open>str.capitalize\<close>: the first character in title case, the others in lower case.\<close>

fun capitalize :: "str \<Rightarrow> str" where
  "capitalize [] = []"
| "capitalize (c # cs) = title_cp c @ lower_from [c] cs"

text \<open>
  \<open>str.title\<close>: a character that follows a cased character in lower case, every other
  character in title case.
\<close>

fun title_from :: "bool \<Rightarrow> str \<Rightarrow> str \<Rightarrow> str" where
  "title_from previous_is_cased before [] = []"
| "title_from previous_is_cased before (c # cs) =
     (if previous_is_cased then lower_ucs4 before c cs else title_cp c)
       @ title_from (iscased c) (before @ [c]) cs"

definition title :: "str \<Rightarrow> str" where
  "title s = title_from False [] s"

definition lstrip :: "str \<Rightarrow> str" where
  "lstrip s = dropWhile isspace s"

definition rstrip :: "str \<Rightarrow> str" where
  "rstrip s = rev (dropWhile isspace (rev s))"

definition strip :: "str \<Rightarrow> str" where
  "strip s = rstrip (lstrip s)"

text \<open>\<open>s.lstrip(chars)\<close> drops the leading characters that occur in \<open>chars\<close>.\<close>

definition lstrip_chars :: "str \<Rightarrow> str \<Rightarrow> str" where
  "lstrip_chars chars s = dropWhile (\<lambda>c. c \<in> set chars) s"

text \<open>
  \<open>s.split()\<close>: the maximal runs of characters that are not white space. The second
  argument is the word read so far.
\<close>

fun split_acc :: "str \<Rightarrow> str \<Rightarrow> str list" where
  "split_acc [] w = (if w = [] then [] else [w])"
| "split_acc (c # cs) w =
     (if isspace c then (if w = [] then split_acc cs [] else w # split_acc cs [])
      else split_acc cs (w @ [c]))"

definition split :: "str \<Rightarrow> str list" where
  "split s = split_acc s []"

text \<open>\<open>s.split(sep)\<close> for a separator of one character: always at least one part.\<close>

fun split_sep_acc :: "codepoint \<Rightarrow> str \<Rightarrow> str \<Rightarrow> str list" where
  "split_sep_acc sep [] w = [w]"
| "split_sep_acc sep (c # cs) w =
     (if c = sep then w # split_sep_acc sep cs [] else split_sep_acc sep cs (w @ [c]))"

definition split_sep :: "codepoint \<Rightarrow> str \<Rightarrow> str list" where
  "split_sep sep s = split_sep_acc sep s []"

fun join :: "str \<Rightarrow> str list \<Rightarrow> str" where
  "join sep [] = []"
| "join sep [x] = x"
| "join sep (x # y # ys) = x @ sep @ join sep (y # ys)"

definition isdigit :: "str \<Rightarrow> bool" where
  "isdigit s = (s \<noteq> [] \<and> list_all isdigit_cp s)"

definition startswith :: "str \<Rightarrow> str \<Rightarrow> bool" where
  "startswith s p = (take (length p) s = p)"

section \<open>Exceptions\<close>

datatype exn = ValueError str | KeyError | IndexError | OtherError str

section \<open>Fields\<close>

text \<open>
  A \<open>Field\<close> object holds one attribute, \<open>value\<close>; a field is modelled by its value, and a
  constructor that validates by a function into \<open>exn + str\<close>.
\<close>

definition VALID_CODES :: "str list" where
  "VALID_CODES = map ascii [''050'', ''066'', ''067'', ''068'', ''095'', ''096'', ''097'',
     ''098'', ''099'', ''063'', ''073'', ''093'']"

definition MSG_PHONE_DIGITS :: str where
  "MSG_PHONE_DIGITS = 0x1F613 # ascii '' Phone number must contain exactly 10 digits.''"

definition MSG_PHONE_CODE :: str where
  "MSG_PHONE_CODE = 0x1F613 # ascii '' The phone number must start with a valid code: ''
     @ join (ascii '', '') VALID_CODES @ ascii ''.''"

definition Phone :: "str \<Rightarrow> exn + str" where
  "Phone v =
     (if \<not> isdigit v \<or> length v \<noteq> 10 then Inl (ValueError MSG_PHONE_DIGITS)
      else if \<not> list_ex (startswith v) VALID_CODES then Inl (ValueError MSG_PHONE_CODE)
      else Inr v)"

section \<open>Name normalisation\<close>

definition fix_part :: "str \<Rightarrow> str" where
  "fix_part part = join (ascii ''-'') (map capitalize (split_sep 0x2D part))"

definition normalize_name :: "str \<Rightarrow> str" where
  "normalize_name name = join (ascii '' '') (map fix_part (split (strip name)))"

section \<open>Regular expressions of the source\<close>

text \<open>
  \<open>re.sub(r"#\w+", "", text)\<close> and \<open>re.findall(r"#(\w+)", text)\<close> scan from the left:
  at a \<open>#\<close> that is followed by a word character the match takes the longest run of
  word characters, and the scan goes on behind the match; anywhere else it moves on by
  one character.
\<close>

function sub_tags :: "str \<Rightarrow> str" where
  "sub_tags [] = []"
| "sub_tags (c # cs) =
     (if c = 0x23 \<and> takeWhile isword cs \<noteq> [] then sub_tags (dropWhile isword cs)
      else c # sub_tags cs)"
  by pat_completeness auto
termination
  by (relation "measure length") (auto simp: length_dropWhile_le less_Suc_eq_le)

function findall_tags :: "str \<Rightarrow> str list" where
  "findall_tags [] = []"
| "findall_tags (c # cs) =
     (if c = 0x23 \<and> takeWhile isword cs \<noteq> []
      then takeWhile isword cs # findall_tags (dropWhile isword cs)
      else findall_tags cs)"
  by pat_completeness auto
termination
  by (relation "measure length") (auto simp: length_dropWhile_le less_Suc_eq_le)

definition extract_tags_from_text :: "str \<Rightarrow> str list" where
  "extract_tags_from_text t = map lower (findall_tags t)"

text \<open>\<open>TAG_PATTERN.fullmatch\<close> for \<open>^[a-zA-Z0-9_]{1,30}$\<close>.\<close>

definition tag_char :: "codepoint \<Rightarrow> bool" where
  "tag_char c = ((0x61 \<le> c \<and> c \<le> 0x7A) \<or> (0x41 \<le> c \<and> c \<le> 0x5A)
     \<or> (0x30 \<le> c \<and> c \<le> 0x39) \<or> c = 0x5F)"

definition TAG_PATTERN :: "str \<Rightarrow> bool" where
  "TAG_PATTERN s = (1 \<le> length s \<and> length s \<le> 30 \<and> list_all tag_char s)"

text \<open>
  \<open>re.match\<close> of \<open>^[\w\.-]+@[\w\.-]+\.\w+$\<close>: a local part, one \<open>@\<close>, and a domain
  whose last dot has something before it and word characters behind it. \<open>$\<close> also
  matches before one newline that ends the string.
\<close>

definition email_char :: "codepoint \<Rightarrow> bool" where
  "email_char c = (isword c \<or> c = 0x2E \<or> c = 0x2D)"

definition validate_email :: "str \<Rightarrow> bool" where
  "validate_email v =
     (let core = (if v \<noteq> [] \<and> last v = 0xA then butlast v else v);
          local_part = takeWhile (\<lambda>c. c \<noteq> 0x40) core;
          domain = drop (length local_part + 1) core;
          tld = rev (takeWhile (\<lambda>c. c \<noteq> 0x2E) (rev domain))
      in local_part \<noteq> [] \<and> list_all email_char local_part
         \<and> length local_part < length core
         \<and> list_all email_char domain
         \<and> 0x2E \<in> set domain \<and> tld \<noteq> [] \<and> list_all isword tld
         \<and> length tld + 1 < length domain)"

section \<open>Messages\<close>

definition MSG_PHONE_EXISTS :: "str \<Rightarrow> str" where
  "MSG_PHONE_EXISTS phone =
     [0x1F613] @ ascii '' The number '' @ [0x27] @ phone @ [0x27]
     @ ascii '' already exists for this contact.''"

definition MSG_PHONE_BELONGS :: "str \<Rightarrow> str \<Rightarrow> str" where
  "MSG_PHONE_BELONGS phone owner =
     [0x1F613] @ ascii '' The number '' @ [0x27] @ phone @ [0x27]
     @ ascii '' already belongs to '' @ [0x27] @ owner @ [0x27] @ ascii ''.''"

definition MSG_OLD_NOT_FOUND :: "str \<Rightarrow> str" where
  "MSG_OLD_NOT_FOUND old_phone =
     [0x1F613] @ ascii '' The old number '' @ [0x27] @ old_phone @ [0x27]
     @ ascii '' was not found.''"

definition MSG_NEW_BELONGS :: "str \<Rightarrow> str \<Rightarrow> str" where
  "MSG_NEW_BELONGS new_phone owner =
     [0x1F613] @ ascii '' The new number '' @ [0x27] @ new_phone @ [0x27]
     @ ascii '' already belongs to '' @ [0x27] @ owner @ [0x27] @ ascii ''.''"

definition MSG_WENT_WRONG :: str where
  "MSG_WENT_WRONG =
     [0x1F613] @ ascii '' Something went wrong while updating the number.''"

definition MSG_INVALID_EMAIL :: str where
  "MSG_INVALID_EMAIL =
     [0x1F613] @ ascii '' Invalid email format. Please use name@example.com''"

definition MSG_INVALID_TAG :: "str \<Rightarrow> str" where
  "MSG_INVALID_TAG tag =
     [0x1F613] @ ascii '' Invalid tag: '' @ [0x27] @ tag @ [0x27]
     @ ascii ''. Only letters, digits, and underscores are allowed (1'' @ [0x2013]
     @ ascii ''30 chars).''"

definition MSG_NOTE_REMOVED :: str where
  "MSG_NOTE_REMOVED =
     [0x2705] @ ascii '' Note removed!''"

definition MSG_NOTE_NOT_FOUND :: str where
  "MSG_NOTE_NOT_FOUND =
     [0x1F613] @ ascii '' Note not found.''"

definition MSG_NOTE_EDITED :: str where
  "MSG_NOTE_EDITED =
     [0x2705] @ ascii '' Note edited!''"

definition MSG_CONTACT_NOT_FOUND :: str where
  "MSG_CONTACT_NOT_FOUND =
     [0x1F613] @ ascii '' Contact not found.''"

definition MSG_PHONE_REQUIRED :: str where
  "MSG_PHONE_REQUIRED =
     [0x1F613] @ ascii '' At least one valid phone number is required (10 digits).''"

definition MSG_NAME_MISSING :: str where
  "MSG_NAME_MISSING =
     [0x1F613] @ ascii '' Name is missing.''"

definition MSG_CONTACT_EXISTS :: "str \<Rightarrow> str" where
  "MSG_CONTACT_EXISTS nm =
     [0x1F613] @ ascii '' A contact named '' @ [0x27] @ nm @ [0x27]
     @ ascii '' already exists.''"

definition MSG_CONTACT_ADDED :: str where
  "MSG_CONTACT_ADDED =
     [0x2705] @ ascii '' Contact added!''"

definition MSG_PHONE_UPDATED :: str where
  "MSG_PHONE_UPDATED =
     [0x2705] @ ascii '' Phone number updated!''"

definition MSG_PHONE_ADDED :: str where
  "MSG_PHONE_ADDED =
     [0x2705] @ ascii '' Phone number added!''"

definition MSG_NOTE_EXISTS :: str where
  "MSG_NOTE_EXISTS =
     [0x1F613] @ ascii '' Note already exists. Use '' @ [0x27] @ ascii ''editnote'' @ [0x27]
     @ ascii '' to modify it.''"

definition MSG_NOTE_ADDED :: "str \<Rightarrow> str" where
  "MSG_NOTE_ADDED tgs =
     [0x2705] @ ascii '' Note added with tags: '' @ tgs"

definition MSG_NO_NOTES :: "str \<Rightarrow> str" where
  "MSG_NO_NOTES nm =
     [0x2139, 0xFE0F] @ ascii '' No notes to remove for '' @ [0x27] @ nm @ [0x27]
     @ ascii ''.''"

definition MSG_ALL_NOTES_REMOVED :: "str \<Rightarrow> str" where
  "MSG_ALL_NOTES_REMOVED nm =
     [0x1F5D1, 0xFE0F] @ ascii '' All notes removed for '' @ [0x27] @ nm @ [0x27]
     @ ascii ''.''"

definition MSG_SOMETHING_WRONG :: "str \<Rightarrow> str" where
  "MSG_SOMETHING_WRONG e =
     [0x1F613] @ ascii '' Something went wrong: '' @ e"

definition MSG_NO_ATTRIBUTE :: "str \<Rightarrow> str" where
  "MSG_NO_ATTRIBUTE attr =
     [0x27] @ ascii ''NoneType'' @ [0x27] @ ascii '' object has no attribute '' @ [0x27]
     @ attr @ [0x27]"

definition MSG_PROVIDE_NAME_AND_NOTE :: str where
  "MSG_PROVIDE_NAME_AND_NOTE =
     [0x1F914] @ ascii '' Please provide the contact name and note text to remove.''"

definition USAGE_addcontact :: str where
  "USAGE_addcontact =
     [0x1F613] @ ascii '' The '' @ [0x27] @ ascii ''addcontact'' @ [0x27]
     @ ascii '' command requires at least a name and a 10-digit phone number.''
     @ [0xA, 0x1F449]
     @ ascii '' You can also optionally add more phone numbers, an email and an address.''
     @ [0xA, 0x1F539] @ ascii '' Examples:'' @ [0xA] @ ascii ''   '' @ [0x27]
     @ ascii ''addcontact Ivan 0987654321'' @ [0x27, 0xA] @ ascii ''   '' @ [0x27]
     @ ascii ''addcontact Ivan Petrov 0981112222 0663334444'' @ [0x27, 0xA]
     @ ascii ''   '' @ [0x27] @ ascii ''addcontact Ivan 0987654321 ivan@example.com''
     @ [0x27, 0xA] @ ascii ''   '' @ [0x27]
     @ ascii ''addcontact Ivan 0987654321 ivan@gmail.com vul. Parkova 12, Kyiv''
     @ [0x27, 0xA]"

definition USAGE_addphone :: str where
  "USAGE_addphone =
     [0x1F613] @ ascii '' The '' @ [0x27] @ ascii ''addphone'' @ [0x27]
     @ ascii '' command requires a name and a phone number. For example: '' @ [0x27]
     @ ascii ''addphone Ivan 0661234567'' @ [0x27]"

definition USAGE_changephone :: str where
  "USAGE_changephone =
     [0x1F613] @ ascii '' The '' @ [0x27] @ ascii ''changephone'' @ [0x27]
     @ ascii '' command requires a name, the old number and the new number. For example: ''
     @ [0x27] @ ascii ''changephone Ivan 0661234567 0961234567'' @ [0x27]"

definition USAGE_addnote :: str where
  "USAGE_addnote =
     [0x1F613] @ ascii '' The '' @ [0x27] @ ascii ''addnote'' @ [0x27]
     @ ascii '' command requires a name and a note text. You can optionally include tags using #. For example: ''
     @ [0x27] @ ascii ''addnote Ivan Meeting at 3:00 PM #urgent'' @ [0x27]"

definition USAGE_removenote :: str where
  "USAGE_removenote =
     [0x1F613] @ ascii '' The '' @ [0x27] @ ascii ''removenote'' @ [0x27]
     @ ascii '' command requires a name and optionally the note text.'' @ [0xA, 0x1F539]
     @ ascii '' Example 1 (remove specific note): '' @ [0x27]
     @ ascii ''removenote Ivan Meeting at 3:00 PM'' @ [0x27, 0xA, 0x1F539]
     @ ascii '' Example 2 (remove all notes): '' @ [0x27] @ ascii ''removenote Ivan''
     @ [0x27]"


section \<open>Notes\<close>

record Note =
  text' :: str
  tags :: "str set"

definition Note_add_tag :: "Note \<Rightarrow> str \<Rightarrow> exn + Note" where
  "Note_add_tag n tag =
     (let tag_clean = lower (lstrip_chars (ascii ''#'') tag)
      in if \<not> TAG_PATTERN tag_clean then Inl (ValueError (MSG_INVALID_TAG tag))
         else Inr (n\<lparr>tags := insert tag_clean (tags n)\<rparr>))"

fun Note_add_tags :: "Note \<Rightarrow> str list \<Rightarrow> exn + Note" where
  "Note_add_tags n [] = Inr n"
| "Note_add_tags n (t # ts) =
     (case Note_add_tag n t of Inl e \<Rightarrow> Inl e | Inr n' \<Rightarrow> Note_add_tags n' ts)"

text \<open>\<open>Note(text, tags)\<close>; the default \<open>tags=None\<close> is the empty list.\<close>

definition Note_init :: "str \<Rightarrow> str list \<Rightarrow> exn + Note" where
  "Note_init t tgs = Note_add_tags \<lparr>text' = strip t, tags = {}\<rparr> tgs"

section \<open>Records\<close>

text \<open>
  A field object that is set is always true in a condition (\<open>Field\<close> defines neither
  \<open>__bool__\<close> nor \<open>__len__\<close>), so an optional field is an \<open>option\<close>.
\<close>

record Record =
  name :: str
  phones :: "str list"
  birthday :: "str option"
  address :: "str option"
  email :: "str option"
  notes' :: "Note list"

definition Record_init :: "str \<Rightarrow> Record" where
  "Record_init nm =
     \<lparr>name = nm, phones = [], birthday = None, address = None, email = None, notes' = []\<rparr>"

text \<open>
  The address book is a dictionary that keeps the order of insertion: an association
  list from key to record. \<open>Record\<close> defines no \<open>__eq__\<close>, so \<open>record != self\<close> compares
  object identity. Every record object is stored under one key, so the identity of a
  stored record is its position in the book; \<open>self\<close> is \<open>Some i\<close> for the record at
  position \<open>i\<close> and \<open>None\<close> for a record that is not in the book (the new record of
  \<open>add_contact\<close>). A method that changes a record returns the changed record, and
  \<open>store_record\<close> puts it back at its position.
\<close>

type_synonym AddressBook = "(str \<times> Record) list"

definition store_record :: "AddressBook \<Rightarrow> nat \<Rightarrow> Record \<Rightarrow> AddressBook" where
  "store_record book i r = book[i := (fst (book ! i), r)]"

text \<open>
  The loop \<open>for record in book.data.values()\<close> of \<open>add_phone\<close> and \<open>edit_phone\<close>: the
  first record other than \<open>self\<close> that holds the phone; \<open>j\<close> is the position of the head.
\<close>

fun other_owner :: "nat \<Rightarrow> nat option \<Rightarrow> str \<Rightarrow> AddressBook \<Rightarrow> Record option" where
  "other_owner j self phone [] = None"
| "other_owner j self phone ((key, r) # b) =
     (if Some j \<noteq> self \<and> list_ex (\<lambda>p. p = phone) (phones r) then Some r
      else other_owner (Suc j) self phone b)"

definition Record_add_phone ::
  "nat option \<Rightarrow> Record \<Rightarrow> str \<Rightarrow> AddressBook \<Rightarrow> str option \<times> Record" where
  "Record_add_phone self r phone book =
     (case Phone phone of
        Inl e \<Rightarrow> (Some (case e of ValueError m \<Rightarrow> m | _ \<Rightarrow> []), r)
      | Inr phone_obj \<Rightarrow>
          if list_ex (\<lambda>p. p = phone) (phones r) then (Some (MSG_PHONE_EXISTS phone), r)
          else (case other_owner 0 self phone book of
                  Some other \<Rightarrow> (Some (MSG_PHONE_BELONGS phone (name other)), r)
                | None \<Rightarrow> (None, r\<lparr>phones := phones r @ [phone_obj]\<rparr>)))"

definition Record_find_phone :: "Record \<Rightarrow> str \<Rightarrow> str option" where
  "Record_find_phone r phone = List.find (\<lambda>p. p = phone) (phones r)"

text \<open>The last loop of \<open>edit_phone\<close>: the first phone equal to \<open>old_phone\<close> is replaced.\<close>

fun replace_first :: "str \<Rightarrow> str \<Rightarrow> str list \<Rightarrow> str list option" where
  "replace_first old_phone new_obj [] = None"
| "replace_first old_phone new_obj (p # ps) =
     (if p = old_phone then Some (new_obj # ps)
      else map_option ((#) p) (replace_first old_phone new_obj ps))"

definition Record_edit_phone ::
  "nat option \<Rightarrow> Record \<Rightarrow> str \<Rightarrow> str \<Rightarrow> AddressBook \<Rightarrow> str option \<times> Record" where
  "Record_edit_phone self r old_phone new_phone book =
     (if Record_find_phone r old_phone = None then (Some (MSG_OLD_NOT_FOUND old_phone), r)
      else (case Phone new_phone of
              Inl e \<Rightarrow> (Some (case e of ValueError m \<Rightarrow> m | _ \<Rightarrow> []), r)
            | Inr new_phone_obj \<Rightarrow>
                (case other_owner 0 self new_phone book of
                   Some other \<Rightarrow> (Some (MSG_NEW_BELONGS new_phone (name other)), r)
                 | None \<Rightarrow>
                     (case replace_first old_phone new_phone_obj (phones r) of
                        Some ps \<Rightarrow> (None, r\<lparr>phones := ps\<rparr>)
                      | None \<Rightarrow> (Some MSG_WENT_WRONG, r)))))"

definition Email :: "str \<Rightarrow> exn + str" where
  "Email v = (if \<not> validate_email v then Inl (ValueError MSG_INVALID_EMAIL) else Inr v)"

definition Record_add_email :: "Record \<Rightarrow> str \<Rightarrow> exn + Record" where
  "Record_add_email r e =
     (case Email e of Inl x \<Rightarrow> Inl x | Inr v \<Rightarrow> Inr (r\<lparr>email := Some v\<rparr>))"

definition Record_add_address :: "Record \<Rightarrow> str \<Rightarrow> Record" where
  "Record_add_address r a = r\<lparr>address := Some a\<rparr>"

text \<open>
  \<open>add_note\<close> returns the new note, or \<open>None\<close> when a note with the same text exists;
  the constructor of the new note runs first and may raise.
\<close>

definition Record_add_note :: "Record \<Rightarrow> str \<Rightarrow> str list \<Rightarrow> exn + (Note option \<times> Record)" where
  "Record_add_note r t tgs =
     (case Note_init t tgs of
        Inl e \<Rightarrow> Inl e
      | Inr new_note \<Rightarrow>
          if list_ex (\<lambda>existing_note.
                lower (strip (text' existing_note)) = lower (strip (text' new_note)))
              (notes' r)
          then Inr (None, r)
          else Inr (Some new_note, r\<lparr>notes' := notes' r @ [new_note]\<rparr>))"

text \<open>\<open>self.notes.remove(note)\<close> removes the first note equal to \<open>note\<close>.\<close>

definition Record_remove_note :: "Record \<Rightarrow> str \<Rightarrow> str \<times> Record" where
  "Record_remove_note r t =
     (let normalized_input = lower (strip (sub_tags t))
      in case List.find (\<lambda>n. lower (strip (text' n)) = normalized_input) (notes' r) of
           Some n \<Rightarrow> (MSG_NOTE_REMOVED, r\<lparr>notes' := remove1 n (notes' r)\<rparr>)
         | None \<Rightarrow> (MSG_NOTE_NOT_FOUND, r))"

fun index_where :: "('a \<Rightarrow> bool) \<Rightarrow> 'a list \<Rightarrow> nat option" where
  "index_where P [] = None"
| "index_where P (x # xs) = (if P x then Some 0 else map_option Suc (index_where P xs))"

definition Record_edit_note :: "Record \<Rightarrow> str \<Rightarrow> str \<Rightarrow> exn + (str \<times> Record)" where
  "Record_edit_note r old_text new_text =
     (let normalized_old = lower (strip old_text);
          cleaned_new_text = strip (sub_tags new_text);
          new_tags = findall_tags new_text
      in case index_where (\<lambda>n. lower (strip (text' n)) = normalized_old) (notes' r) of
           Some i \<Rightarrow>
             (case Note_init cleaned_new_text new_tags of
                Inl e \<Rightarrow> Inl e
              | Inr n \<Rightarrow> Inr (MSG_NOTE_EDITED, r\<lparr>notes' := (notes' r)[i := n]\<rparr>))
         | None \<Rightarrow> Inr (MSG_NOTE_NOT_FOUND, r))"

section \<open>The address book\<close>

text \<open>\<open>self.data[record.name.value] = record\<close>: an existing key keeps its place.\<close>

fun AddressBook_add_record :: "AddressBook \<Rightarrow> Record \<Rightarrow> AddressBook" where
  "AddressBook_add_record [] r = [(name r, r)]"
| "AddressBook_add_record ((k, v) # b) r =
     (if k = name r then (k, r) # b else (k, v) # AddressBook_add_record b r)"

definition AddressBook_find_index :: "AddressBook \<Rightarrow> str \<Rightarrow> nat option" where
  "AddressBook_find_index book nm = index_where (\<lambda>(key, r). lower key = lower nm) book"

definition AddressBook_find :: "AddressBook \<Rightarrow> str \<Rightarrow> Record option" where
  "AddressBook_find book nm = map_option (\<lambda>i. snd (book ! i)) (AddressBook_find_index book nm)"

definition AddressBook_name_exists :: "AddressBook \<Rightarrow> str \<Rightarrow> bool" where
  "AddressBook_name_exists book nm = list_ex (\<lambda>(key, r). lower nm = lower key) book"

section \<open>Commands\<close>

definition format_address :: "str \<Rightarrow> str" where
  "format_address a =
     join (ascii '' '')
       (map (\<lambda>word. if lower word \<noteq> [] \<and> last (lower word) = 0x2E \<and> length word \<le> 4
                     then lower word else capitalize word)
          (split a))"

text \<open>
  The decorator \<open>input_error\<close>: an exception of the command becomes a message, and the
  book is the one before the call (no command modelled here changes the book before
  it raises). \<open>usage\<close> is \<open>error_messages.get(command, error_messages["default"])\<close>.
\<close>

definition input_error ::
  "str \<Rightarrow> AddressBook \<Rightarrow> exn + (str \<times> AddressBook) \<Rightarrow> str \<times> AddressBook" where
  "input_error usage book res =
     (case res of
        Inr out \<Rightarrow> out
      | Inl (ValueError e) \<Rightarrow> (if e \<noteq> [] then e else usage, book)
      | Inl KeyError \<Rightarrow> (MSG_CONTACT_NOT_FOUND, book)
      | Inl IndexError \<Rightarrow> (usage, book)
      | Inl (OtherError e) \<Rightarrow> (MSG_SOMETHING_WRONG e, book))"

definition is_phone_token :: "str \<Rightarrow> bool" where
  "is_phone_token arg = (isdigit arg \<and> length arg = 10)"

text \<open>The loop \<open>for phone in phones\<close> of \<open>add_contact\<close>, which returns the first message.\<close>

fun add_phones :: "Record \<Rightarrow> str list \<Rightarrow> AddressBook \<Rightarrow> str + Record" where
  "add_phones r [] book = Inr r"
| "add_phones r (p # ps) book =
     (case Record_add_phone None r p book of
        (Some m, r') \<Rightarrow> if m \<noteq> [] then Inl m else add_phones r' ps book
      | (None, r') \<Rightarrow> add_phones r' ps book)"

definition add_contact :: "str list \<Rightarrow> AddressBook \<Rightarrow> str \<times> AddressBook" where
  "add_contact args book = input_error USAGE_addcontact book
     (if length args < 2 then Inl IndexError
      else case index_where is_phone_token args of
        None \<Rightarrow> Inl (ValueError MSG_PHONE_REQUIRED)
      | Some phone_start_index \<Rightarrow>
          let name_parts = take phone_start_index args
          in if name_parts = [] then Inl (ValueError MSG_NAME_MISSING)
             else let nm = normalize_name (join (ascii '' '') name_parts)
               in if AddressBook_name_exists book nm then Inr (MSG_CONTACT_EXISTS nm, book)
                  else let phone_args = takeWhile is_phone_token (drop phone_start_index args);
                           rest = dropWhile is_phone_token (drop phone_start_index args)
                    in case add_phones (Record_init nm) phone_args book of
                         Inl result \<Rightarrow> Inr (result, book)
                       | Inr record \<Rightarrow>
                           let emails = filter (\<lambda>arg. 0x40 \<in> set arg) rest;
                               address_parts = filter (\<lambda>arg. 0x40 \<notin> set arg) rest
                           in case (if emails \<noteq> [] \<and> last emails \<noteq> []
                                    then Record_add_email record (strip (last emails))
                                    else Inr record) of
                                Inl e \<Rightarrow> Inl e
                              | Inr record1 \<Rightarrow>
                                  Inr (MSG_CONTACT_ADDED,
                                    AddressBook_add_record book
                                      (if address_parts \<noteq> []
                                       then Record_add_address record1
                                         (format_address (strip (join (ascii '' '') address_parts)))
                                       else record1)))"

definition change_contact :: "str list \<Rightarrow> AddressBook \<Rightarrow> str \<times> AddressBook" where
  "change_contact args book = input_error USAGE_changephone book
     (if length args < 3 then Inl IndexError
      else let old_phone = args ! (length args - 2);
               new_phone = last args;
               nm = normalize_name (join (ascii '' '') (take (length args - 2) args))
        in case AddressBook_find_index book nm of
             None \<Rightarrow> Inl KeyError
           | Some i \<Rightarrow>
               (case Record_edit_phone (Some i) (snd (book ! i)) old_phone new_phone book of
                  (Some m, r') \<Rightarrow>
                    Inr (if m \<noteq> [] then m else MSG_PHONE_UPDATED, store_record book i r')
                | (None, r') \<Rightarrow> Inr (MSG_PHONE_UPDATED, store_record book i r')))"

definition add_phone_to_contact :: "str list \<Rightarrow> AddressBook \<Rightarrow> str \<times> AddressBook" where
  "add_phone_to_contact args book = input_error USAGE_addphone book
     (if length args < 2 then Inl IndexError
      else let possible_phone = last args;
               nm = normalize_name (join (ascii '' '') (butlast args))
        in case AddressBook_find_index book nm of
             None \<Rightarrow> Inl KeyError
           | Some i \<Rightarrow>
               (case Record_add_phone (Some i) (snd (book ! i)) possible_phone book of
                  (Some m, r') \<Rightarrow>
                    Inr (if m \<noteq> [] then m else MSG_PHONE_ADDED, store_record book i r')
                | (None, r') \<Rightarrow> Inr (MSG_PHONE_ADDED, store_record book i r')))"

text \<open>
  The loop \<open>for i in range(lo, hi)\<close> that the commands share: the first \<open>i\<close> for which
  the first \<open>i\<close> tokens, joined and normalised, name a contact.
\<close>

definition first_name_prefix :: "nat \<Rightarrow> nat \<Rightarrow> str list \<Rightarrow> AddressBook \<Rightarrow> nat option" where
  "first_name_prefix lo hi args book =
     List.find (\<lambda>i. AddressBook_name_exists book (normalize_name (join (ascii '' '') (take i args))))
       [lo..<hi]"

text \<open>
  \<open>add_note\<close> behind its loop, for the name and the note text the loop has bound.
  \<open>', '.join(note_result.tags)\<close> walks a set, in an order that Python does not fix:
  \<open>order\<close> is that order.
\<close>

definition add_note_to ::
  "(str set \<Rightarrow> str list) \<Rightarrow> str \<Rightarrow> str \<Rightarrow> AddressBook \<Rightarrow> exn + (str \<times> AddressBook)" where
  "add_note_to order nm text_arg book =
     (let tgs = extract_tags_from_text text_arg;
          clean_text = strip (sub_tags text_arg)
      in case AddressBook_find_index book nm of
           None \<Rightarrow> Inl (OtherError (MSG_NO_ATTRIBUTE (ascii ''add_note'')))
         | Some k \<Rightarrow>
             (case Record_add_note (snd (book ! k)) clean_text tgs of
                Inl e \<Rightarrow> Inl e
              | Inr (None, r') \<Rightarrow> Inr (MSG_NOTE_EXISTS, store_record book k r')
              | Inr (Some n, r') \<Rightarrow>
                  Inr (MSG_NOTE_ADDED
                         (if tags n \<noteq> {} then join (ascii '', '') (order (tags n))
                          else ascii ''none''),
                       store_record book k r')))"

definition add_note ::
  "(str set \<Rightarrow> str list) \<Rightarrow> str list \<Rightarrow> AddressBook \<Rightarrow> str \<times> AddressBook" where
  "add_note order args book = input_error USAGE_addnote book
     (if length args < 2 then Inl IndexError
      else case first_name_prefix 1 (length args) args book of
        None \<Rightarrow> Inr (MSG_CONTACT_NOT_FOUND, book)
      | Some i \<Rightarrow>
          add_note_to order (normalize_name (join (ascii '' '') (take i args)))
            (join (ascii '' '') (drop i args)) book)"

text \<open>\<open>remove_note\<close> inside its loop, for the name and the rest of the tokens.\<close>

definition remove_note_from ::
  "str \<Rightarrow> str list \<Rightarrow> AddressBook \<Rightarrow> exn + (str \<times> AddressBook)" where
  "remove_note_from nm rest book =
     (case AddressBook_find_index book nm of
        None \<Rightarrow> Inl (OtherError (MSG_NO_ATTRIBUTE (ascii ''notes'')))
      | Some k \<Rightarrow>
          let record = snd (book ! k);
              text_arg = strip (join (ascii '' '') rest)
          in if text_arg = [] then
               (if notes' record = [] then Inr (MSG_NO_NOTES nm, book)
                else Inr (MSG_ALL_NOTES_REMOVED nm, store_record book k (record\<lparr>notes' := []\<rparr>)))
             else (case Record_remove_note record text_arg of
                     (res, record') \<Rightarrow>
                       if res \<noteq> [] then Inr (MSG_NOTE_REMOVED, store_record book k record')
                       else Inr (MSG_NOTE_NOT_FOUND, store_record book k record')))"

definition remove_note :: "str list \<Rightarrow> AddressBook \<Rightarrow> str \<times> AddressBook" where
  "remove_note args book = input_error USAGE_removenote book
     (if args = [] then Inl IndexError
      else case first_name_prefix 1 (length args + 1) args book of
        None \<Rightarrow> Inr (MSG_PROVIDE_NAME_AND_NOTE, book)
      | Some i \<Rightarrow>
          remove_note_from (normalize_name (join (ascii '' '') (take i args))) (drop i args) book)"

section \<open>Reachable books\<close>






section \<open>Dates\<close>

text \<open>
  \<open>datetime.date\<close>: a year from 1 to 9999, a month and a day of the proleptic Gregorian
  calendar. The constructor and \<open>replace\<close> raise \<open>ValueError\<close> on fields that are no
  date; the callers here only catch it, so the result is an \<open>option\<close>.
\<close>

record date =
  year :: nat
  month :: nat
  day :: nat

definition is_leap :: "nat \<Rightarrow> bool" where
  "is_leap y = (y mod 4 = 0 \<and> (y mod 100 \<noteq> 0 \<or> y mod 400 = 0))"

definition days_in_month :: "nat \<Rightarrow> nat \<Rightarrow> nat" where
  "days_in_month y m =
     (if m = 2 then (if is_leap y then 29 else 28)
      else if m = 4 \<or> m = 6 \<or> m = 9 \<or> m = 11 then 30 else 31)"

definition date_init :: "nat \<Rightarrow> nat \<Rightarrow> nat \<Rightarrow> date option" where
  "date_init y m d =
     (if 1 \<le> y \<and> y \<le> 9999 \<and> 1 \<le> m \<and> m \<le> 12 \<and> 1 \<le> d \<and> d \<le> days_in_month y m
      then Some \<lparr>year = y, month = m, day = d\<rparr> else None)"

definition replace_year :: "date \<Rightarrow> nat \<Rightarrow> date option" where
  "replace_year d y = date_init y (month d) (day d)"

text \<open>The ordinal of a date, day 1 being 1 January of year 1, and the day of the week,
  Monday being 0.\<close>

definition days_before_year :: "nat \<Rightarrow> nat" where
  "days_before_year y = (y - 1) * 365 + (y - 1) div 4 - (y - 1) div 100 + (y - 1) div 400"

definition days_before_month :: "nat \<Rightarrow> nat \<Rightarrow> nat" where
  "days_before_month y m =
     [0, 31, 59, 90, 120, 151, 181, 212, 243, 273, 304, 334] ! (m - 1)
       + (if 2 < m \<and> is_leap y then 1 else 0)"

definition toordinal :: "date \<Rightarrow> nat" where
  "toordinal d = days_before_year (year d) + days_before_month (year d) (month d) + day d"

definition weekday :: "date \<Rightarrow> nat" where
  "weekday d = (toordinal d + 6) mod 7"

text \<open>Dates compare as the tuples of year, month and day.\<close>

definition date_less :: "date \<Rightarrow> date \<Rightarrow> bool" where
  "date_less a b =
     (year a < year b \<or> (year a = year b \<and>
        (month a < month b \<or> (month a = month b \<and> day a < day b))))"

definition date_le :: "date \<Rightarrow> date \<Rightarrow> bool" where
  "date_le a b = (date_less a b \<or> (year a = year b \<and> month a = month b \<and> day a = day b))"

text \<open>
  \<open>d + timedelta(days=n)\<close> is the date \<open>n\<close> days after \<open>d\<close>. The \<open>OverflowError\<close> behind
  31 December 9999 is not modelled.
\<close>

definition next_day :: "date \<Rightarrow> date" where
  "next_day d =
     (if day d < days_in_month (year d) (month d) then d\<lparr>day := day d + 1\<rparr>
      else if month d < 12 then d\<lparr>month := month d + 1, day := 1\<rparr>
      else \<lparr>year = year d + 1, month = 1, day = 1\<rparr>)"

fun add_days :: "date \<Rightarrow> nat \<Rightarrow> date" where
  "add_days d 0 = d"
| "add_days d (Suc n) = add_days (next_day d) n"

text \<open>
  \<open>datetime.strptime(s, "%d.%m.%Y").date()\<close>. The format is matched as the regular
  expression \<open>(3[0-1]|[1-2]\d|0[1-9]|[1-9]| [1-9])\.(1[0-2]|0[1-9]|[1-9])\.(\d\d\d\d)\<close> on
  the whole string; no alternative holds a dot, so the string is three fields between
  two dots. \<open>\d\<close> is any decimal digit of Unicode, the ranges are ASCII, and \<open>int\<close> reads
  the value of a field.
\<close>

definition parse_day :: "str \<Rightarrow> nat option" where
  "parse_day s =
     (case s of
        [a] \<Rightarrow> if 0x31 \<le> a \<and> a \<le> 0x39 then Some (decimal_value a) else None
      | [a, b] \<Rightarrow>
          if a = 0x33 \<and> (b = 0x30 \<or> b = 0x31) then Some (30 + decimal_value b)
          else if (a = 0x31 \<or> a = 0x32) \<and> isdecimal_cp b
          then Some (10 * decimal_value a + decimal_value b)
          else if (a = 0x30 \<or> a = 0x20) \<and> 0x31 \<le> b \<and> b \<le> 0x39 then Some (decimal_value b)
          else None
      | _ \<Rightarrow> None)"

definition parse_month :: "str \<Rightarrow> nat option" where
  "parse_month s =
     (case s of
        [a] \<Rightarrow> if 0x31 \<le> a \<and> a \<le> 0x39 then Some (decimal_value a) else None
      | [a, b] \<Rightarrow>
          if a = 0x31 \<and> 0x30 \<le> b \<and> b \<le> 0x32 then Some (10 + decimal_value b)
          else if a = 0x30 \<and> 0x31 \<le> b \<and> b \<le> 0x39 then Some (decimal_value b)
          else None
      | _ \<Rightarrow> None)"

definition parse_year :: "str \<Rightarrow> nat option" where
  "parse_year s =
     (case s of
        [a, b, c, d] \<Rightarrow>
          if isdecimal_cp a \<and> isdecimal_cp b \<and> isdecimal_cp c \<and> isdecimal_cp d
          then Some (1000 * decimal_value a + 100 * decimal_value b + 10 * decimal_value c
                 + decimal_value d)
          else None
      | _ \<Rightarrow> None)"

definition strptime :: "str \<Rightarrow> date option" where
  "strptime s =
     (case split_sep 0x2E s of
        [ds, ms, ys] \<Rightarrow>
          (case (parse_day ds, parse_month ms, parse_year ys) of
             (Some d, Some m, Some y) \<Rightarrow> date_init y m d
           | _ \<Rightarrow> None)
      | _ \<Rightarrow> None)"

text \<open>\<open>strftime('%d.%m.%Y')\<close>: day and month of two digits, the year in decimal.\<close>

function decimal :: "nat \<Rightarrow> str" where
  "decimal n = (if n < 10 then [0x30 + n] else decimal (n div 10) @ [0x30 + n mod 10])"
  by pat_completeness auto
termination
  by (relation "measure id") auto

declare decimal.simps [simp del]

definition strftime :: "date \<Rightarrow> str" where
  "strftime d =
     [0x30 + day d div 10, 0x30 + day d mod 10, 0x2E,
      0x30 + month d div 10, 0x30 + month d mod 10, 0x2E] @ decimal (year d)"

text \<open>
  \<open>get_upcoming_birthdays\<close>, with the date of today as an argument. \<open>upcoming_entry\<close> is
  one pass of the loop: what it appends to \<open>upcoming\<close> for one record.
\<close>

definition upcoming_entry :: "date \<Rightarrow> date \<Rightarrow> Record \<Rightarrow> str list" where
  "upcoming_entry today end_date r =
     (case birthday r of
        None \<Rightarrow> []
      | Some bs \<Rightarrow>
          (case strptime bs of
             None \<Rightarrow> []
           | Some birthday_date \<Rightarrow>
               (case replace_year birthday_date (year today) of
                  None \<Rightarrow> []
                | Some this_year \<Rightarrow>
                    (case (if date_less this_year today
                           then replace_year this_year (year today + 1)
                           else Some this_year) of
                       None \<Rightarrow> []
                     | Some birthday_this_year \<Rightarrow>
                         if date_le today birthday_this_year
                            \<and> date_le birthday_this_year end_date
                         then [name r @ ascii '': '' @ strftime
                                (if weekday birthday_this_year = 5
                                 then add_days birthday_this_year 2
                                 else if weekday birthday_this_year = 6
                                 then add_days birthday_this_year 1
                                 else birthday_this_year)]
                         else []))))"

definition AddressBook_get_upcoming_birthdays :: "date \<Rightarrow> nat \<Rightarrow> AddressBook \<Rightarrow> str list" where
  "AddressBook_get_upcoming_birthdays today days book =
     concat (map (\<lambda>(key, r). upcoming_entry today (add_days today days) r) book)"

text \<open>
  The words of the spec for the scheduler, to compare the loop with: the next
  occurrence of a birthday and the horizon, counted in days.
\<close>

definition spec_next_occurrence :: "date \<Rightarrow> date \<Rightarrow> date option" where
  "spec_next_occurrence today b =
     (case replace_year b (year today) of
        None \<Rightarrow> None
      | Some t \<Rightarrow> if toordinal t < toordinal today then replace_year b (year today + 1) else Some t)"

definition spec_shift :: "date \<Rightarrow> nat" where
  "spec_shift d = (if weekday d = 5 then 2 else if weekday d = 6 then 1 else 0)"

definition date_ok :: "date \<Rightarrow> bool" where
  "date_ok d = (1 \<le> year d \<and> 1 \<le> month d \<and> month d \<le> 12 \<and> 1 \<le> day d
     \<and> day d \<le> days_in_month (year d) (month d))"

text \<open>
  What the spec says one record adds to the list: nothing when it has no birthday that
  parses or no next occurrence, and otherwise its entry when the next occurrence is at
  least today and at most \<open>days\<close> days later, with the date shifted off the weekend.
\<close>

definition spec_upcoming :: "date \<Rightarrow> nat \<Rightarrow> Record \<Rightarrow> str list" where
  "spec_upcoming today days r =
     (case birthday r of
        None \<Rightarrow> []
      | Some bs \<Rightarrow>
          (case strptime bs of
             None \<Rightarrow> []
           | Some b \<Rightarrow>
               (case spec_next_occurrence today b of
                  None \<Rightarrow> []
                | Some d \<Rightarrow>
                    if toordinal today \<le> toordinal d \<and> toordinal d \<le> toordinal today + days
                    then [name r @ ascii '': '' @ strftime (add_days d (spec_shift d))]
                    else [])))"

definition record_leap_day :: Record where
  "record_leap_day =
     \<lparr>name = ascii ''Lena'', phones = [ascii ''0501234567''], birthday = Some (ascii ''29.02.2000''),
      address = None, email = None, notes' = []\<rparr>"

definition record_may :: Record where
  "record_may =
     \<lparr>name = ascii ''Ivan'', phones = [ascii ''0987654321''], birthday = Some (ascii ''17.05.1990''),
      address = None, email = None, notes' = []\<rparr>"


definition record_no_birthday :: Record where
  "record_no_birthday =
     \<lparr>name = ascii ''Olga'', phones = [ascii ''0501234567''], birthday = None,
      address = None, email = None, notes' = []\<rparr>"

definition record_june :: Record where
  "record_june =
     \<lparr>name = ascii ''Anna'', phones = [ascii ''0661234567''], birthday = Some (ascii ''18.06.1985''),
      address = None, email = None, notes' = []\<rparr>"
section \<open>Example sessions\<close>

text \<open>
  Books that the commands build from the empty book; the examples below run on them.
  The notes of these sessions carry no tags, so the order in which a set of tags is
  walked plays no part.
\<close>

definition session_ivan :: AddressBook where
  "session_ivan =
     snd (add_note (\<lambda>s. []) [ascii ''ivan'', ascii ''Call'', ascii ''mom'']
       (snd (add_contact [ascii ''ivan'', ascii ''0987654321''] [])))"

definition session_two :: AddressBook where
  "session_two =
     snd (add_contact [ascii ''ivan'', ascii ''0987654321'']
       (snd (add_note (\<lambda>s. []) [ascii ''ivan'', ascii ''petrov'', ascii ''hello'']
         (snd (add_contact [ascii ''ivan'', ascii ''petrov'', ascii ''0501234567''] [])))))"

definition session_phones :: AddressBook where
  "session_phones =
     snd (add_contact [ascii ''ivan'', ascii ''0501234567'', ascii ''0661234567''] [])"

definition record_two_notes :: Record where
  "record_two_notes =
     \<lparr>name = ascii ''Ivan'', phones = [ascii ''0987654321''], birthday = None, address = None,
      email = None,
      notes' = [\<lparr>text' = ascii ''a'', tags = {}\<rparr>, \<lparr>text' = ascii ''b'', tags = {}\<rparr>]\<rparr>"


section \<open>Lemmas on strings\<close>

lemma ascii_space [simp]: "ascii '' '' = [0x20]"
  by (simp add: ascii_def)

lemma ascii_hyphen [simp]: "ascii ''-'' = [0x2D]"
  by (simp add: ascii_def)

lemma split_acc_spaces:
  "list_all isspace t \<Longrightarrow> split_acc t w = (if w = [] then [] else [w])"
  by (induction t arbitrary: w) auto

lemma split_acc_append_spaces:
  "list_all isspace t \<Longrightarrow> split_acc (s @ t) w = split_acc s w"
  by (induction s arbitrary: w) (auto simp: split_acc_spaces)

lemma split_acc_dropWhile:
  "split_acc (dropWhile isspace s) [] = split_acc s []"
  by (induction s) auto

lemma rstrip_decomp: "\<exists>t. list_all isspace t \<and> s = rstrip s @ t"
proof -
  have "rev s = takeWhile isspace (rev s) @ dropWhile isspace (rev s)"
    by simp
  then have "s = rev (dropWhile isspace (rev s)) @ rev (takeWhile isspace (rev s))"
    by (metis rev_append rev_rev_ident)
  moreover have "list_all isspace (rev (takeWhile isspace (rev s)))"
    by (simp add: list_all_iff) (meson set_takeWhileD)
  ultimately show ?thesis
    unfolding rstrip_def by blast
qed

lemma split_strip: "split (strip s) = split s"
proof -
  obtain t where t: "list_all isspace t" "lstrip s = rstrip (lstrip s) @ t"
    using rstrip_decomp by blast
  have "split_acc (rstrip (lstrip s)) [] = split_acc (rstrip (lstrip s) @ t) []"
    using t(1) by (simp add: split_acc_append_spaces)
  also have "\<dots> = split_acc (lstrip s) []"
    using t(2) by simp
  also have "\<dots> = split_acc s []"
    by (simp add: lstrip_def split_acc_dropWhile)
  finally show ?thesis
    by (simp add: split_def strip_def)
qed

lemma split_acc_nonempty: "x \<in> set (split_acc s w) \<Longrightarrow> x \<noteq> []"
  by (induction s arbitrary: w) (auto split: if_splits)

lemma split_acc_spaces_from_acc:
  "x \<in> set (split_acc s w) \<Longrightarrow> c \<in> set x \<Longrightarrow> isspace c \<Longrightarrow> c \<in> set w"
proof (induction s arbitrary: w)
  case Nil
  then show ?case by (simp split: if_splits)
next
  case (Cons a s)
  show ?case
  proof (cases "isspace a")
    case True
    with Cons.prems(1) have "x = w \<or> x \<in> set (split_acc s [])"
      by (simp split: if_splits)
    then show ?thesis
    proof
      assume "x = w"
      with Cons.prems(2) show ?thesis by simp
    next
      assume "x \<in> set (split_acc s [])"
      then have "c \<in> set []" using Cons.prems(2,3) by (rule Cons.IH)
      then show ?thesis by simp
    qed
  next
    case False
    with Cons.prems(1) have "x \<in> set (split_acc s (w @ [a]))" by simp
    then have "c \<in> set (w @ [a])" using Cons.prems(2,3) by (rule Cons.IH)
    with False Cons.prems(3) show ?thesis by auto
  qed
qed

lemma split_acc_subset: "x \<in> set (split_acc s w) \<Longrightarrow> set x \<subseteq> set w \<union> set s"
proof (induction s arbitrary: w)
  case Nil
  then show ?case by (simp split: if_splits)
next
  case (Cons a s)
  show ?case
  proof (cases "isspace a")
    case True
    with Cons.prems(1) have "x = w \<or> x \<in> set (split_acc s [])"
      by (simp split: if_splits)
    then show ?thesis
    proof
      assume "x = w"
      then show ?thesis by auto
    next
      assume "x \<in> set (split_acc s [])"
      then have "set x \<subseteq> set [] \<union> set s" by (rule Cons.IH)
      then show ?thesis by auto
    qed
  next
    case False
    with Cons.prems(1) have "x \<in> set (split_acc s (w @ [a]))" by simp
    then have "set x \<subseteq> set (w @ [a]) \<union> set s" by (rule Cons.IH)
    then show ?thesis by auto
  qed
qed

lemma split_acc_word:
  "\<forall>c\<in>set x. \<not> isspace c \<Longrightarrow> split_acc (x @ s) w = split_acc s (w @ x)"
  by (induction x arbitrary: w) auto

lemma split_join:
  "\<forall>x\<in>set xs. x \<noteq> [] \<and> (\<forall>c\<in>set x. \<not> isspace c) \<Longrightarrow> split (join [0x20] xs) = xs"
proof (induction xs)
  case Nil
  then show ?case by (simp add: split_def)
next
  case (Cons x xs)
  have x: "x \<noteq> []" "\<forall>c\<in>set x. \<not> isspace c"
    using Cons.prems by simp_all
  show ?case
  proof (cases xs)
    case Nil
    have "split_acc (x @ []) [] = split_acc [] ([] @ x)"
      using x(2) by (rule split_acc_word)
    with x(1) Nil show ?thesis by (simp add: split_def)
  next
    case (Cons y ys)
    have sp: "isspace 0x20" by (simp add: isspace_def)
    have "split_acc (x @ 0x20 # join [0x20] xs) [] = split_acc (0x20 # join [0x20] xs) ([] @ x)"
      using x(2) by (rule split_acc_word)
    also have "\<dots> = x # split_acc (join [0x20] xs) []"
      using x(1) sp by simp
    also have "\<dots> = x # xs"
      using Cons.IH Cons.prems by (simp add: split_def)
    finally show ?thesis using Cons by (simp add: split_def)
  qed
qed

lemma split_sep_acc_parts:
  "sep \<notin> set w \<Longrightarrow> x \<in> set (split_sep_acc sep s w) \<Longrightarrow> sep \<notin> set x \<and> set x \<subseteq> set w \<union> set s"
proof (induction s arbitrary: w)
  case Nil
  then show ?case by auto
next
  case (Cons c cs)
  show ?case
  proof (cases "c = sep")
    case True
    with Cons.prems have "x = w \<or> x \<in> set (split_sep_acc sep cs [])" by auto
    then show ?thesis
    proof
      assume "x = w"
      with Cons.prems(1) show ?thesis by auto
    next
      assume "x \<in> set (split_sep_acc sep cs [])"
      with Cons.IH [of "[]"] show ?thesis by auto
    qed
  next
    case False
    with Cons.prems have "x \<in> set (split_sep_acc sep cs (w @ [c]))" by simp
    moreover have "sep \<notin> set (w @ [c])" using False Cons.prems(1) by auto
    ultimately show ?thesis using Cons.IH [of "w @ [c]"] by auto
  qed
qed

lemma split_sep_acc_not_Nil: "split_sep_acc sep s w \<noteq> []"
  by (induction s arbitrary: w) simp_all

lemma join_Cons: "ys \<noteq> [] \<Longrightarrow> join sep (x # ys) = x @ sep @ join sep ys"
  by (cases ys) simp_all

lemma join_split_sep_acc: "join [sep] (split_sep_acc sep s w) = w @ s"
proof (induction s arbitrary: w)
  case Nil
  then show ?case by simp
next
  case (Cons c cs)
  show ?case
  proof (cases "c = sep")
    case True
    have "join [sep] (w # split_sep_acc sep cs []) = w @ [sep] @ join [sep] (split_sep_acc sep cs [])"
      by (rule join_Cons) (rule split_sep_acc_not_Nil)
    with Cons.IH [of "[]"] True show ?thesis by simp
  next
    case False
    with Cons.IH [of "w @ [c]"] show ?thesis by simp
  qed
qed

lemma split_sep_acc_part:
  "sep \<notin> set x \<Longrightarrow> split_sep_acc sep (x @ s) w = split_sep_acc sep s (w @ x)"
  by (induction x arbitrary: w) auto

lemma split_sep_join:
  "xs \<noteq> [] \<Longrightarrow> \<forall>x\<in>set xs. sep \<notin> set x \<Longrightarrow> split_sep sep (join [sep] xs) = xs"
proof (induction xs)
  case Nil
  then show ?case by simp
next
  case (Cons x xs)
  have x: "sep \<notin> set x" using Cons.prems by simp
  show ?case
  proof (cases xs)
    case Nil
    have "split_sep_acc sep (x @ []) [] = split_sep_acc sep [] ([] @ x)"
      using x by (rule split_sep_acc_part)
    with Nil show ?thesis by (simp add: split_sep_def)
  next
    case (Cons y ys)
    then have ne: "xs \<noteq> []" by simp
    have "split_sep_acc sep (x @ sep # join [sep] xs) [] = split_sep_acc sep (sep # join [sep] xs) ([] @ x)"
      using x by (rule split_sep_acc_part)
    also have "\<dots> = x # split_sep_acc sep (join [sep] xs) []"
      by simp
    also have "\<dots> = x # xs"
      using Cons.IH ne Cons.prems by (simp add: split_sep_def)
    finally show ?thesis using join_Cons [OF ne, of "[sep]" x] by (simp add: split_sep_def)
  qed
qed

lemma set_join: "set (join sep xs) \<subseteq> set sep \<union> \<Union> (set ` set xs)"
  by (induction sep xs rule: join.induct) auto

lemma join_eq_Nil: "join [sep] xs = [] \<Longrightarrow> xs = [] \<or> xs = [[]]"
proof (cases xs)
  case Nil
  then show ?thesis by simp
next
  case (Cons x ys)
  assume e: "join [sep] xs = []"
  show ?thesis
  proof (cases ys)
    case Nil
    with Cons e show ?thesis by simp
  next
    case (Cons y zs)
    with \<open>xs = x # ys\<close> e show ?thesis by simp
  qed
qed

subsection \<open>Evaluation of the tables\<close>

text \<open>
  A look-up simplifies the code point only, not the table, and descends the table one
  node at a time.
\<close>

lemma lookup_eq: "t = t' \<Longrightarrow> lookup t c = lookup t' c"
  by simp

lemma range_start_eq: "t = t' \<Longrightarrow> range_start t c = range_start t' c"
  by simp

lemma all_entries_eq: "t = t' \<Longrightarrow> all_entries P t = all_entries P t'"
  by simp

lemma lookup_cong [cong]: "c = c' \<Longrightarrow> lookup t c = lookup t c'"
  by simp

lemma range_start_cong [cong]: "c = c' \<Longrightarrow> range_start t c = range_start t c'"
  by simp

lemma all_entries_cong: "P = P' \<Longrightarrow> all_entries P t = all_entries P' t"
  by simp

lemmas lookup_LOWER_TABLE = lookup_eq [OF LOWER_TABLE_def]
lemmas lookup_TITLE_TABLE = lookup_eq [OF TITLE_TABLE_def]
lemmas range_start_DIGIT_RANGES = range_start_eq [OF DIGIT_RANGES_def]
lemmas range_start_DECIMAL_RANGES = range_start_eq [OF DECIMAL_RANGES_def]
lemmas range_start_WORD_RANGES = range_start_eq [OF WORD_RANGES_def]
lemmas range_start_CASED_RANGES = range_start_eq [OF CASED_RANGES_def]
lemmas range_start_CASE_IGNORABLE_RANGES = range_start_eq [OF CASE_IGNORABLE_RANGES_def]

lemmas table_eval = in_ranges_def lookup_LOWER_TABLE lookup_TITLE_TABLE range_start_DIGIT_RANGES
  range_start_DECIMAL_RANGES range_start_WORD_RANGES range_start_CASED_RANGES
  range_start_CASE_IGNORABLE_RANGES

lemma all_entries_lookup: "all_entries P t \<Longrightarrow> lookup t c = Some v \<Longrightarrow> P c v"
  by (induction t) (auto split: if_splits)

subsection \<open>Case conversion\<close>

text \<open>
  Every character of a lower case is its own lower case, is not the capital sigma, and
  is neither white space nor a hyphen.
\<close>

lemma lower_values:
  "all_entries (\<lambda>k v. list_all (\<lambda>x. lower_cp x = [x] \<and> x \<noteq> 0x3A3 \<and> \<not> isspace x \<and> x \<noteq> 0x2D) v)
     LOWER_TABLE"
  apply (subst all_entries_eq [OF LOWER_TABLE_def])
  apply (simp add: lower_cp_def isspace_def lookup_LOWER_TABLE cong: all_entries_cong)
  done

text \<open>
  Every title case but that of U+0149 is a character that is its own title case,
  followed by characters that are their own lower case.
\<close>

lemma title_values:
  "all_entries (\<lambda>k v. v \<noteq> [] \<and> list_all (\<lambda>x. \<not> isspace x \<and> x \<noteq> 0x2D) v \<and>
       (k = 0x149 \<or> (title_cp (hd v) = [hd v] \<and>
          list_all (\<lambda>x. lower_cp x = [x] \<and> x \<noteq> 0x3A3) (tl v))))
     TITLE_TABLE"
  apply (subst all_entries_eq [OF TITLE_TABLE_def])
  apply (simp add: lower_cp_def title_cp_def isspace_def lookup_LOWER_TABLE lookup_TITLE_TABLE
      cong: all_entries_cong)
  done

lemma lookup_capital_sigma: "lookup LOWER_TABLE 0x3A3 = Some [0x3C3]"
  by (simp add: lookup_LOWER_TABLE)

lemma lower_cp_small_sigma: "lower_cp 0x3C2 = [0x3C2]" "lower_cp 0x3C3 = [0x3C3]"
  by (simp_all add: lower_cp_def lookup_LOWER_TABLE)

lemma lower_cp_fixed:
  assumes "x \<in> set (lower_cp c)"
  shows "lower_cp x = [x] \<and> x \<noteq> 0x3A3 \<and> (\<not> isspace c \<longrightarrow> \<not> isspace x) \<and> (c \<noteq> 0x2D \<longrightarrow> x \<noteq> 0x2D)"
proof (cases "c < 0x80")
  case True
  with assms have x: "x = (if 0x41 \<le> c \<and> c \<le> 0x5A then c + 0x20 else c)"
    by (simp add: lower_cp_def)
  with True have "x < 0x80" by (simp split: if_splits)
  then have "lower_cp x = [x]" using x by (simp add: lower_cp_def split: if_splits)
  moreover have "x \<noteq> 0x3A3" using \<open>x < 0x80\<close> by simp
  moreover have "\<not> isspace c \<longrightarrow> \<not> isspace x" using x by (simp add: isspace_def split: if_splits)
  moreover have "c \<noteq> 0x2D \<longrightarrow> x \<noteq> 0x2D" using x by (simp split: if_splits)
  ultimately show ?thesis by blast
next
  case False
  show ?thesis
  proof (cases "lookup LOWER_TABLE c")
    case None
    with False assms have x: "x = c" by (simp add: lower_cp_def)
    have "lower_cp c = [c]" using False None by (simp add: lower_cp_def)
    moreover have "c \<noteq> 0x3A3" using None lookup_capital_sigma by auto
    ultimately show ?thesis using x by simp
  next
    case (Some v)
    with False assms have "x \<in> set v" by (simp add: lower_cp_def)
    moreover have "list_all (\<lambda>x. lower_cp x = [x] \<and> x \<noteq> 0x3A3 \<and> \<not> isspace x \<and> x \<noteq> 0x2D) v"
      using all_entries_lookup [OF lower_values Some] .
    ultimately show ?thesis by (simp add: list_all_iff)
  qed
qed

lemma lower_ucs4_fixed:
  assumes "x \<in> set (lower_ucs4 b c a)"
  shows "lower_cp x = [x] \<and> x \<noteq> 0x3A3 \<and> (\<not> isspace c \<longrightarrow> \<not> isspace x) \<and> (c \<noteq> 0x2D \<longrightarrow> x \<noteq> 0x2D)"
proof (cases "c = 0x3A3")
  case True
  with assms have "x = 0x3C2 \<or> x = 0x3C3" by (simp add: lower_ucs4_def split: if_splits)
  then show ?thesis using lower_cp_small_sigma by (auto simp: isspace_def)
next
  case False
  with assms have "x \<in> set (lower_cp c)" by (simp add: lower_ucs4_def)
  then show ?thesis by (rule lower_cp_fixed)
qed

lemma lower_from_fixed:
  "x \<in> set (lower_from b s) \<Longrightarrow> lower_cp x = [x] \<and> x \<noteq> 0x3A3"
proof (induction s arbitrary: b)
  case Nil
  then show ?case by simp
next
  case (Cons c cs)
  then have "x \<in> set (lower_ucs4 b c cs) \<or> x \<in> set (lower_from (b @ [c]) cs)" by simp
  then show ?case using lower_ucs4_fixed Cons.IH by blast
qed

lemma lower_from_not_space:
  "\<forall>c\<in>set s. \<not> isspace c \<Longrightarrow> x \<in> set (lower_from b s) \<Longrightarrow> \<not> isspace x"
proof (induction s arbitrary: b)
  case Nil
  then show ?case by simp
next
  case (Cons c cs)
  from Cons.prems(2) have "x \<in> set (lower_ucs4 b c cs) \<or> x \<in> set (lower_from (b @ [c]) cs)"
    by simp
  then show ?case
  proof
    assume "x \<in> set (lower_ucs4 b c cs)"
    moreover have "\<not> isspace c" using Cons.prems(1) by simp
    ultimately show ?thesis using lower_ucs4_fixed by blast
  next
    assume "x \<in> set (lower_from (b @ [c]) cs)"
    moreover have "\<forall>c\<in>set cs. \<not> isspace c" using Cons.prems(1) by simp
    ultimately show ?thesis using Cons.IH by blast
  qed
qed

lemma lower_from_not_hyphen:
  "0x2D \<notin> set s \<Longrightarrow> 0x2D \<notin> set (lower_from b s)"
proof (induction s arbitrary: b)
  case Nil
  then show ?case by simp
next
  case (Cons c cs)
  have "0x2D \<notin> set (lower_ucs4 b c cs)"
  proof
    assume "0x2D \<in> set (lower_ucs4 b c cs)"
    moreover have "c \<noteq> 0x2D" using Cons.prems by auto
    ultimately show False using lower_ucs4_fixed by blast
  qed
  moreover have "0x2D \<notin> set (lower_from (b @ [c]) cs)"
    using Cons.prems by (intro Cons.IH) simp
  ultimately show ?case by simp
qed

lemma lower_from_id:
  "\<forall>x\<in>set s. lower_cp x = [x] \<and> x \<noteq> 0x3A3 \<Longrightarrow> lower_from b s = s"
  by (induction s arbitrary: b) (simp_all add: lower_ucs4_def)

lemma lower_from_idem: "lower_from b' (lower_from b s) = lower_from b s"
  using lower_from_fixed by (intro lower_from_id) blast

lemma lower_idem: "lower (lower s) = lower s"
  by (simp add: lower_def lower_from_idem)

lemma title_cp_not_Nil: "title_cp c \<noteq> []"
proof (cases "c < 0x80")
  case True
  then show ?thesis by (simp add: title_cp_def)
next
  case False
  show ?thesis
  proof (cases "lookup TITLE_TABLE c")
    case None
    with False show ?thesis by (simp add: title_cp_def)
  next
    case (Some v)
    have "v \<noteq> []" using all_entries_lookup [OF title_values Some] by simp
    with False Some show ?thesis by (simp add: title_cp_def)
  qed
qed

lemma title_cp_ascii:
  assumes "c < 0x80"
  shows "\<exists>d. title_cp c = [d] \<and> title_cp d = [d] \<and> (\<not> isspace c \<longrightarrow> \<not> isspace d)
           \<and> (c \<noteq> 0x2D \<longrightarrow> d \<noteq> 0x2D)"
proof (cases "0x61 \<le> c \<and> c \<le> 0x7A")
  case True
  then have t: "title_cp c = [c - 0x20]" by (simp add: title_cp_def)
  from True have r: "0x41 \<le> c - 0x20 \<and> c - 0x20 \<le> 0x5A" by arith
  then have "title_cp (c - 0x20) = [c - 0x20]" by (simp add: title_cp_def)
  moreover have "\<not> isspace (c - 0x20)" using r by (simp add: isspace_def)
  moreover have "c - 0x20 \<noteq> 0x2D" using r by simp
  ultimately show ?thesis using t by simp
next
  case False
  with assms have "title_cp c = [c]" by (auto simp: title_cp_def)
  then show ?thesis by simp
qed

lemma title_cp_clean:
  assumes "d \<in> set (title_cp c)"
  shows "(\<not> isspace c \<longrightarrow> \<not> isspace d) \<and> (c \<noteq> 0x2D \<longrightarrow> d \<noteq> 0x2D)"
proof (cases "c < 0x80")
  case True
  then show ?thesis using title_cp_ascii [of c] assms by auto
next
  case False
  show ?thesis
  proof (cases "lookup TITLE_TABLE c")
    case None
    with False assms show ?thesis by (simp add: title_cp_def)
  next
    case (Some v)
    with False assms have "d \<in> set v" by (simp add: title_cp_def)
    moreover have "list_all (\<lambda>x. \<not> isspace x \<and> x \<noteq> 0x2D) v"
      using all_entries_lookup [OF title_values Some] by simp
    ultimately show ?thesis by (simp add: list_all_iff)
  qed
qed

lemma title_cp_stable:
  assumes "c \<noteq> 0x149"
  shows "\<exists>t ts. title_cp c = t # ts \<and> title_cp t = [t]
           \<and> (\<forall>x\<in>set ts. lower_cp x = [x] \<and> x \<noteq> 0x3A3)"
proof (cases "c < 0x80")
  case True
  then show ?thesis using title_cp_ascii [of c] by auto
next
  case False
  show ?thesis
  proof (cases "lookup TITLE_TABLE c")
    case None
    with False have "title_cp c = [c]" by (simp add: title_cp_def)
    then show ?thesis by simp
  next
    case (Some v)
    have v: "v \<noteq> []" "title_cp (hd v) = [hd v]"
      "list_all (\<lambda>x. lower_cp x = [x] \<and> x \<noteq> 0x3A3) (tl v)"
      using all_entries_lookup [OF title_values Some] assms by simp_all
    have "title_cp c = hd v # tl v" using False Some v(1) by (simp add: title_cp_def)
    with v(2,3) show ?thesis by (simp add: list_all_iff)
  qed
qed

lemma capitalize_eq_Nil: "capitalize p = [] \<Longrightarrow> p = []"
  by (cases p) (simp_all add: title_cp_not_Nil)

lemma capitalize_not_space:
  "\<forall>c\<in>set p. \<not> isspace c \<Longrightarrow> d \<in> set (capitalize p) \<Longrightarrow> \<not> isspace d"
proof (cases p)
  case Nil
  then show "d \<in> set (capitalize p) \<Longrightarrow> \<not> isspace d" by simp
next
  case (Cons c cs)
  assume ns: "\<forall>c\<in>set p. \<not> isspace c" and d: "d \<in> set (capitalize p)"
  from d Cons have "d \<in> set (title_cp c) \<or> d \<in> set (lower_from [c] cs)" by auto
  then show "\<not> isspace d"
  proof
    assume "d \<in> set (title_cp c)"
    moreover have "\<not> isspace c" using ns Cons by simp
    ultimately show ?thesis using title_cp_clean by blast
  next
    assume "d \<in> set (lower_from [c] cs)"
    moreover have "\<forall>c\<in>set cs. \<not> isspace c" using ns Cons by simp
    ultimately show ?thesis using lower_from_not_space by blast
  qed
qed

lemma capitalize_not_hyphen:
  "0x2D \<notin> set p \<Longrightarrow> 0x2D \<notin> set (capitalize p)"
proof (cases p)
  case Nil
  then show ?thesis by simp
next
  case (Cons c cs)
  assume nh: "0x2D \<notin> set p"
  have "0x2D \<notin> set (title_cp c)"
  proof
    assume "0x2D \<in> set (title_cp c)"
    moreover have "c \<noteq> 0x2D" using nh Cons by auto
    ultimately show False using title_cp_clean by blast
  qed
  moreover have "0x2D \<notin> set (lower_from [c] cs)"
    using nh Cons by (intro lower_from_not_hyphen) simp
  ultimately show ?thesis using Cons by simp
qed

lemma capitalize_idem:
  assumes "take 1 p \<noteq> [0x149]"
  shows "capitalize (capitalize p) = capitalize p"
proof (cases p)
  case Nil
  then show ?thesis by simp
next
  case (Cons c cs)
  with assms have "c \<noteq> 0x149" by simp
  then obtain t ts where t: "title_cp c = t # ts" "title_cp t = [t]"
      "\<forall>x\<in>set ts. lower_cp x = [x] \<and> x \<noteq> 0x3A3"
    using title_cp_stable by blast
  have "\<forall>x\<in>set (ts @ lower_from [c] cs). lower_cp x = [x] \<and> x \<noteq> 0x3A3"
    using t(3) lower_from_fixed by auto
  then have "lower_from [t] (ts @ lower_from [c] cs) = ts @ lower_from [c] cs"
    by (rule lower_from_id)
  then show ?thesis using Cons t(1,2) by simp
qed

lemma fix_part_not_Nil:
  assumes "w \<noteq> []"
  shows "fix_part w \<noteq> []"
proof
  assume e: "fix_part w = []"
  let ?ps = "split_sep_acc 0x2D w []"
  have ne: "?ps \<noteq> []" by (rule split_sep_acc_not_Nil)
  from e have "map capitalize ?ps = [] \<or> map capitalize ?ps = [[]]"
    unfolding fix_part_def split_sep_def ascii_hyphen by (rule join_eq_Nil)
  with ne have "map capitalize ?ps = [[]]" by simp
  then obtain q where q: "?ps = [q]" "capitalize q = []"
    by (cases ?ps) auto
  then have "?ps = [[]]" using capitalize_eq_Nil by auto
  then have "join [0x2D] ?ps = []" by simp
  then have "[] @ w = []" by (simp only: join_split_sep_acc)
  with assms show False by simp
qed

lemma fix_part_not_space:
  assumes "\<forall>c\<in>set w. \<not> isspace c" and "d \<in> set (fix_part w)"
  shows "\<not> isspace d"
proof -
  let ?ps = "split_sep_acc 0x2D w []"
  have "set (fix_part w) \<subseteq> set [0x2D] \<union> \<Union> (set ` set (map capitalize ?ps))"
    unfolding fix_part_def split_sep_def ascii_hyphen by (rule set_join)
  with assms(2) have "d = 0x2D \<or> (\<exists>q\<in>set ?ps. d \<in> set (capitalize q))" by auto
  then show ?thesis
  proof
    assume "d = 0x2D"
    then show ?thesis by (simp add: isspace_def)
  next
    assume "\<exists>q\<in>set ?ps. d \<in> set (capitalize q)"
    then obtain q where q: "q \<in> set ?ps" "d \<in> set (capitalize q)" by blast
    have "set q \<subseteq> set [] \<union> set w"
      using split_sep_acc_parts [of "0x2D" "[]" q w] q(1) by simp
    with assms(1) have "\<forall>c\<in>set q. \<not> isspace c" by auto
    then show ?thesis using q(2) by (rule capitalize_not_space)
  qed
qed

lemma fix_part_idem:
  assumes "list_all (\<lambda>q. take 1 q \<noteq> [0x149]) (split_sep 0x2D w)"
  shows "fix_part (fix_part w) = fix_part w"
proof -
  let ?ps = "split_sep 0x2D w"
  let ?cs = "map capitalize ?ps"
  have parts: "\<And>q. q \<in> set ?ps \<Longrightarrow> 0x2D \<notin> set q \<and> set q \<subseteq> set w"
    using split_sep_acc_parts [of "0x2D" "[]" _ w] by (simp add: split_sep_def)
  have ne: "?cs \<noteq> []"
    by (simp add: split_sep_def split_sep_acc_not_Nil)
  have nh: "\<forall>x\<in>set ?cs. 0x2D \<notin> set x"
    using parts capitalize_not_hyphen by auto
  have "split_sep 0x2D (join [0x2D] ?cs) = ?cs"
    using ne nh by (rule split_sep_join)
  then have "fix_part (fix_part w) = join [0x2D] (map capitalize ?cs)"
    by (simp add: fix_part_def)
  also have "map capitalize ?cs = ?cs"
  proof -
    have "\<And>q. q \<in> set ?ps \<Longrightarrow> capitalize (capitalize q) = capitalize q"
    proof -
      fix q assume "q \<in> set ?ps"
      with assms have "take 1 q \<noteq> [0x149]" by (simp add: list_all_iff)
      then show "capitalize (capitalize q) = capitalize q" by (rule capitalize_idem)
    qed
    then show ?thesis by simp
  qed
  finally show ?thesis by (simp add: fix_part_def)
qed





section \<open>The phone validator\<close>




section \<open>Idempotence of name normalisation\<close>

text \<open>
  C8 (as the code has it). Normalising a normalised name changes nothing, for every
  string in which no part of a word begins with U+0149, where the words of the string
  are what white space separates and the parts of a word are what hyphens separate.
\<close>

theorem normalize_name_idempotent:
  assumes "list_all (\<lambda>w. list_all (\<lambda>q. take 1 q \<noteq> [0x149]) (split_sep 0x2D w)) (split s)"
  shows "normalize_name (normalize_name s) = normalize_name s"
proof -
  let ?ws = "split s"
  let ?fs = "map fix_part ?ws"
  have n: "normalize_name s = join [0x20] ?fs"
    by (simp add: normalize_name_def split_strip)
  have ws: "\<And>w. w \<in> set ?ws \<Longrightarrow> w \<noteq> [] \<and> (\<forall>c\<in>set w. \<not> isspace c)"
  proof -
    fix w assume w: "w \<in> set ?ws"
    then have m: "w \<in> set (split_acc s [])" by (simp add: split_def)
    have "w \<noteq> []" using m by (rule split_acc_nonempty)
    moreover have "\<forall>c\<in>set w. \<not> isspace c"
      using split_acc_spaces_from_acc [OF m] by auto
    ultimately show "w \<noteq> [] \<and> (\<forall>c\<in>set w. \<not> isspace c)" by blast
  qed
  have fs: "\<forall>x\<in>set ?fs. x \<noteq> [] \<and> (\<forall>c\<in>set x. \<not> isspace c)"
  proof
    fix x assume "x \<in> set ?fs"
    then obtain w where w: "w \<in> set ?ws" "x = fix_part w" by auto
    have "fix_part w \<noteq> []" using ws [OF w(1)] by (intro fix_part_not_Nil) simp
    moreover have "\<forall>c\<in>set (fix_part w). \<not> isspace c"
      using ws [OF w(1)] fix_part_not_space [of w] by blast
    ultimately show "x \<noteq> [] \<and> (\<forall>c\<in>set x. \<not> isspace c)" using w(2) by simp
  qed
  have "normalize_name (normalize_name s) = join [0x20] (map fix_part (split (join [0x20] ?fs)))"
    by (simp add: n) (simp add: normalize_name_def split_strip)
  also have "split (join [0x20] ?fs) = ?fs"
    using fs by (rule split_join)
  also have "map fix_part ?fs = ?fs"
  proof -
    have "\<And>w. w \<in> set ?ws \<Longrightarrow> fix_part (fix_part w) = fix_part w"
    proof -
      fix w assume "w \<in> set ?ws"
      with assms have "list_all (\<lambda>q. take 1 q \<noteq> [0x149]) (split_sep 0x2D w)"
        by (simp add: list_all_iff)
      then show "fix_part (fix_part w) = fix_part w" by (rule fix_part_idem)
    qed
    then show ?thesis by simp
  qed
  finally show ?thesis by (simp add: n)
qed

text \<open>
  The instance is a name with Cyrillic letters (U+0456, U+0412, U+0410, U+041D), with a
  hyphen, and with U+0149 inside a part.
\<close>

theorem normalize_name_idempotent_witness:
  "list_all (\<lambda>w. list_all (\<lambda>q. take 1 q \<noteq> [0x149]) (split_sep 0x2D w))
     (split (0x20 # 0x456 # 0x412 # 0x410 # 0x41D # ascii ''  petrov-sm'' @ 0x149 # ascii ''ith ''))
   \<and> normalize_name (0x20 # 0x456 # 0x412 # 0x410 # 0x41D # ascii ''  petrov-sm'' @ 0x149 # ascii ''ith '')
       = 0x406 # 0x432 # 0x430 # 0x43D # ascii '' Petrov-Sm'' @ 0x149 # ascii ''ith''
   \<and> normalize_name (normalize_name
         (0x20 # 0x456 # 0x412 # 0x410 # 0x41D # ascii ''  petrov-sm'' @ 0x149 # ascii ''ith ''))
       = normalize_name (0x20 # 0x456 # 0x412 # 0x410 # 0x41D # ascii ''  petrov-sm'' @ 0x149 # ascii ''ith '')"
proof -
  let ?s = "0x20 # 0x456 # 0x412 # 0x410 # 0x41D # ascii ''  petrov-sm'' @ 0x149 # ascii ''ith ''"
  have h: "list_all (\<lambda>w. list_all (\<lambda>q. take 1 q \<noteq> [0x149]) (split_sep 0x2D w)) (split ?s)"
    by (simp add: split_def split_sep_def isspace_def ascii_def)
  have v: "normalize_name ?s = 0x406 # 0x432 # 0x430 # 0x43D # ascii '' Petrov-Sm'' @ 0x149 # ascii ''ith''"
    by (simp add: normalize_name_def fix_part_def split_def split_sep_def strip_def lstrip_def
        rstrip_def isspace_def title_cp_def lower_cp_def lower_ucs4_def ascii_def table_eval)
  show ?thesis using h v normalize_name_idempotent [OF h] by blast
qed

text \<open>
  C8 (as the spec states it) fails on U+0149 followed by \<open>a\<close>: \<open>capitalize\<close> turns U+0149
  into U+02BC and \<open>N\<close>, and the second pass lowers that \<open>N\<close>.
\<close>

theorem normalize_name_not_idempotent_counterexample:
  "normalize_name (normalize_name [0x149, 0x61]) \<noteq> normalize_name [0x149, 0x61]"
proof -
  have a: "normalize_name [0x149, 0x61] = [0x2BC, 0x4E, 0x61]"
    by (simp add: normalize_name_def fix_part_def split_def split_sep_def strip_def lstrip_def
        rstrip_def isspace_def title_cp_def lower_cp_def lower_ucs4_def table_eval)
  have b: "normalize_name [0x2BC, 0x4E, 0x61] = [0x2BC, 0x6E, 0x61]"
    by (simp add: normalize_name_def fix_part_def split_def split_sep_def strip_def lstrip_def
        rstrip_def isspace_def title_cp_def lower_cp_def lower_ucs4_def table_eval)
  show ?thesis by (simp add: a b)
qed

section \<open>Evaluation of the example sessions\<close>

lemmas str_eval = ascii_def isspace_def isdigit_cp_def ascii_digit_def isword_def lower_cp_def
  title_cp_def lower_ucs4_def lower_def lstrip_def rstrip_def strip_def lstrip_chars_def split_def split_sep_def isdigit_def
  startswith_def fix_part_def normalize_name_def

lemmas cmd_eval = add_contact_def add_note_def add_note_to_def remove_note_def
  remove_note_from_def change_contact_def add_phone_to_contact_def input_error_def
  is_phone_token_def first_name_prefix_def AddressBook_name_exists_def
  AddressBook_find_index_def AddressBook_find_def store_record_def Record_init_def
  Record_add_phone_def Record_edit_phone_def Record_find_phone_def Record_add_note_def
  Record_remove_note_def Record_edit_note_def Note_init_def Note_add_tag_def
  extract_tags_from_text_def TAG_PATTERN_def tag_char_def Phone_def VALID_CODES_def
  Let_def upt_rec

lemma session_ivan_value:
  "session_ivan =
     [(ascii ''Ivan'',
       \<lparr>name = ascii ''Ivan'', phones = [ascii ''0987654321''], birthday = None,
        address = None, email = None, notes' = [\<lparr>text' = ascii ''Call mom'', tags = {}\<rparr>]\<rparr>)]"
  by (simp add: session_ivan_def cmd_eval str_eval)

lemma session_two_value:
  "session_two =
     [(ascii ''Ivan Petrov'',
       \<lparr>name = ascii ''Ivan Petrov'', phones = [ascii ''0501234567''], birthday = None,
        address = None, email = None, notes' = [\<lparr>text' = ascii ''hello'', tags = {}\<rparr>]\<rparr>),
      (ascii ''Ivan'',
       \<lparr>name = ascii ''Ivan'', phones = [ascii ''0987654321''], birthday = None,
        address = None, email = None, notes' = []\<rparr>)]"
  by (simp add: session_two_def cmd_eval str_eval)

lemma session_phones_value:
  "session_phones =
     [(ascii ''Ivan'',
       \<lparr>name = ascii ''Ivan'', phones = [ascii ''0501234567'', ascii ''0661234567''],
        birthday = None, address = None, email = None, notes' = []\<rparr>)]"
  by (simp add: session_phones_def cmd_eval str_eval)

section \<open>Lemmas on notes and the book\<close>

lemma rstrip_Cons_nonspace:
  assumes "\<not> isspace c"
  shows "\<exists>ys. rstrip (c # cs) = c # ys"
proof (cases "\<forall>x\<in>set cs. isspace x")
  case True
  then have "rstrip (c # cs) = c # []"
    using assms by (simp add: rstrip_def dropWhile_append)
  then show ?thesis by blast
next
  case False
  then have "rstrip (c # cs) = c # rev (dropWhile isspace (rev cs))"
    using assms by (simp add: rstrip_def dropWhile_append)
  then show ?thesis by blast
qed

lemma strip_strip: "strip (strip s) = strip s"
proof (cases "lstrip s")
  case Nil
  then have "strip s = []" by (simp add: strip_def rstrip_def)
  moreover have "strip [] = []" by (simp add: strip_def rstrip_def lstrip_def)
  ultimately show ?thesis by simp
next
  case (Cons c cs)
  have "\<not> isspace (hd (dropWhile isspace s))"
    using Cons hd_dropWhile [of isspace s] by (simp add: lstrip_def)
  then have c: "\<not> isspace c" using Cons by (simp add: lstrip_def)
  obtain ys where ys: "rstrip (c # cs) = c # ys"
    using rstrip_Cons_nonspace [OF c] by blast
  have l: "lstrip (c # ys) = c # ys" using c by (simp add: lstrip_def)
  have r: "rstrip (rstrip (c # cs)) = rstrip (c # cs)" by (simp add: rstrip_def)
  have "strip (strip s) = rstrip (lstrip (rstrip (c # cs)))"
    using Cons by (simp add: strip_def)
  also have "\<dots> = rstrip (rstrip (c # cs))" using ys l by simp
  also have "\<dots> = strip s" using r Cons by (simp add: strip_def)
  finally show ?thesis .
qed

lemma Note_add_tags_result:
  "Note_add_tags n tgs =
     (case List.find (\<lambda>tg. \<not> TAG_PATTERN (lower (lstrip_chars (ascii ''#'') tg))) tgs of
        None \<Rightarrow> Inr (n\<lparr>tags := tags n \<union> set (map (\<lambda>tg. lower (lstrip_chars (ascii ''#'') tg)) tgs)\<rparr>)
      | Some bad \<Rightarrow> Inl (ValueError (MSG_INVALID_TAG bad)))"
  by (induction tgs arbitrary: n) (auto simp: Note_add_tag_def Let_def split: option.splits)

lemma index_where_Some:
  "list_ex P xs \<Longrightarrow> \<exists>k. index_where P xs = Some k \<and> k < length xs \<and> P (xs ! k)"
  by (induction xs) auto

lemma AddressBook_find_index_exists:
  assumes "AddressBook_name_exists book nm"
  shows "\<exists>k. AddressBook_find_index book nm = Some k \<and> k < length book"
proof -
  have "(\<lambda>(key, r). lower nm = lower key) = (\<lambda>(key, r::Record). lower key = lower nm)"
    by (auto simp: fun_eq_iff)
  then have "list_ex (\<lambda>(key, r). lower key = lower nm) book"
    using assms by (simp add: AddressBook_name_exists_def)
  from index_where_Some [OF this] show ?thesis
    by (auto simp: AddressBook_find_index_def)
qed

lemma find_upt_first:
  assumes "lo \<le> i" and "i < hi" and "P i" and "\<forall>k. lo \<le> k \<and> k < i \<longrightarrow> \<not> P k"
  shows "List.find P [lo..<hi] = Some i"
proof -
  have "\<exists>j<length [lo..<hi]. P ([lo..<hi] ! j) \<and> i = [lo..<hi] ! j \<and> (\<forall>m<j. \<not> P ([lo..<hi] ! m))"
  proof (intro exI [of _ "i - lo"] conjI)
    show "i - lo < length [lo..<hi]" using assms(1,2) by simp
    show "P ([lo..<hi] ! (i - lo))" using assms(1,2,3) by simp
    show "i = [lo..<hi] ! (i - lo)" using assms(1,2) by simp
    show "\<forall>m<i - lo. \<not> P ([lo..<hi] ! m)"
    proof (intro allI impI)
      fix m assume m: "m < i - lo"
      then have "[lo..<hi] ! m = lo + m" using assms(2) by simp
      moreover have "\<not> P (lo + m)" using assms(4) m by simp
      ultimately show "\<not> P ([lo..<hi] ! m)" by simp
    qed
  qed
  then show ?thesis by (simp only: find_Some_iff)
qed

section \<open>Adding a note that exists\<close>

text \<open>
  C7 (as the code has it). When a note of the record has the same text, trimmed and
  without regard to case, \<open>add_note\<close> leaves the record as it is. It returns \<open>None\<close>, the
  duplicate, when every tag given is valid; when a tag is not valid, the constructor of
  the new note has raised \<open>ValueError\<close> for the first such tag before the notes are
  compared.
\<close>

theorem add_note_duplicate:
  assumes "list_ex (\<lambda>n. lower (strip (text' n)) = lower (strip t)) (notes' r)"
  shows "Record_add_note r t tgs =
     (case List.find (\<lambda>tg. \<not> TAG_PATTERN (lower (lstrip_chars (ascii ''#'') tg))) tgs of
        None \<Rightarrow> Inr (None, r)
      | Some bad \<Rightarrow> Inl (ValueError (MSG_INVALID_TAG bad)))"
proof (cases "List.find (\<lambda>tg. \<not> TAG_PATTERN (lower (lstrip_chars (ascii ''#'') tg))) tgs")
  case None
  then show ?thesis
    using assms
    by (simp add: Record_add_note_def Note_init_def Note_add_tags_result strip_strip)
next
  case (Some bad)
  then show ?thesis
    by (simp add: Record_add_note_def Note_init_def Note_add_tags_result)
qed

theorem add_note_duplicate_witness:
  "Record_add_note (snd (session_ivan ! 0)) (ascii '' call MOM '') [ascii ''#Family'']
     = Inr (None, snd (session_ivan ! 0))
   \<and> map tags (notes' (snd (session_ivan ! 0))) = [{}]"
proof -
  have h: "list_ex (\<lambda>n. lower (strip (text' n)) = lower (strip (ascii '' call MOM '')))
      (notes' (snd (session_ivan ! 0)))"
    by (simp add: session_ivan_value str_eval)
  show ?thesis
    using add_note_duplicate [OF h, of "[ascii ''#Family'']"]
    by (simp add: session_ivan_value TAG_PATTERN_def tag_char_def str_eval)
qed

text \<open>
  C7 (as the spec states it) fails: with a tag of 31 letters the duplicate is not
  reported, \<open>ValueError\<close> is raised instead.
\<close>

theorem add_note_duplicate_invalid_tag_counterexample:
  "list_ex (\<lambda>n. lower (strip (text' n)) = lower (strip (ascii ''call mom'')))
     (notes' (snd (session_ivan ! 0)))
   \<and> Record_add_note (snd (session_ivan ! 0)) (ascii ''call mom'')
       [ascii ''aaaaaaaaaaaaaaaaaaaaaaaaaaaaaaa'']
     = Inl (ValueError (MSG_INVALID_TAG (ascii ''aaaaaaaaaaaaaaaaaaaaaaaaaaaaaaa'')))
   \<and> fst (add_note (\<lambda>s. [])
         [ascii ''ivan'', ascii ''call'', ascii ''mom'', ascii ''#aaaaaaaaaaaaaaaaaaaaaaaaaaaaaaa'']
         session_ivan)
     = MSG_INVALID_TAG (ascii ''aaaaaaaaaaaaaaaaaaaaaaaaaaaaaaa'')"
  by (simp add: session_ivan_value cmd_eval str_eval MSG_INVALID_TAG_def)

section \<open>Removing a note\<close>

text \<open>
  C4. For a text that no note of the record matches, \<open>Record.remove_note\<close> returns the
  message that the note was not found and leaves the record as it is, and the command
  \<open>remove_note\<close>, which tests that message for truth, reports that the note was
  removed.
\<close>

theorem remove_note_absent_reports_removed:
  "Record_remove_note (snd (session_ivan ! 0)) (ascii ''hello'')
     = (MSG_NOTE_NOT_FOUND, snd (session_ivan ! 0))
   \<and> remove_note [ascii ''ivan'', ascii ''hello''] session_ivan = (MSG_NOTE_REMOVED, session_ivan)
   \<and> MSG_NOTE_REMOVED \<noteq> MSG_NOTE_NOT_FOUND"
  by (simp add: session_ivan_value cmd_eval str_eval MSG_NOTE_NOT_FOUND_def MSG_NOTE_REMOVED_def)

text \<open>
  C10 (as the code has it). When the tokens are the name of a contact and no shorter
  run of the first tokens names a contact, \<open>remove_note\<close> empties the notes of that
  record, leaves every other field and every other record as they are, and reports it;
  when the record has no notes, the book stays as it is and the command says so.
\<close>

theorem remove_note_name_only:
  assumes "args \<noteq> []"
    and "\<forall>k. 1 \<le> k \<and> k < length args \<longrightarrow>
           \<not> AddressBook_name_exists book (normalize_name (join (ascii '' '') (take k args)))"
    and "AddressBook_name_exists book (normalize_name (join (ascii '' '') args))"
  shows "\<exists>k. k < length book
     \<and> AddressBook_find_index book (normalize_name (join (ascii '' '') args)) = Some k
     \<and> remove_note args book =
         (if notes' (snd (book ! k)) = []
          then (MSG_NO_NOTES (normalize_name (join (ascii '' '') args)), book)
          else (MSG_ALL_NOTES_REMOVED (normalize_name (join (ascii '' '') args)),
                book[k := (fst (book ! k), (snd (book ! k))\<lparr>notes' := []\<rparr>)]))"
proof -
  let ?P = "\<lambda>i. AddressBook_name_exists book (normalize_name (join (ascii '' '') (take i args)))"
  let ?nm = "normalize_name (join (ascii '' '') args)"
  have len: "1 \<le> length args" using assms(1) by (cases args) simp_all
  have "List.find ?P [1..<length args + 1] = Some (length args)"
  proof (rule find_upt_first)
    show "1 \<le> length args" by (rule len)
    show "length args < length args + 1" by simp
    show "?P (length args)" using assms(3) by simp
    show "\<forall>k. 1 \<le> k \<and> k < length args \<longrightarrow> \<not> ?P k" by (rule assms(2))
  qed
  then have f: "first_name_prefix 1 (length args + 1) args book = Some (length args)"
    by (simp add: first_name_prefix_def)
  obtain k where k: "AddressBook_find_index book ?nm = Some k" "k < length book"
    using AddressBook_find_index_exists [OF assms(3)] by blast
  have e: "strip (join (ascii '' '') []) = []"
    by (simp add: strip_def lstrip_def rstrip_def)
  have "remove_note args book =
      (if notes' (snd (book ! k)) = [] then (MSG_NO_NOTES ?nm, book)
       else (MSG_ALL_NOTES_REMOVED ?nm, book[k := (fst (book ! k), (snd (book ! k))\<lparr>notes' := []\<rparr>)]))"
    using assms(1) f k(1) e
    by (simp add: remove_note_def remove_note_from_def input_error_def store_record_def Let_def)
  with k show ?thesis by blast
qed

theorem remove_note_name_only_witness:
  "remove_note [ascii ''ivan''] session_ivan =
     (MSG_ALL_NOTES_REMOVED (ascii ''Ivan''),
      [(ascii ''Ivan'',
        \<lparr>name = ascii ''Ivan'', phones = [ascii ''0987654321''], birthday = None,
         address = None, email = None, notes' = []\<rparr>)])"
proof -
  have n: "normalize_name (join (ascii '' '') [ascii ''ivan'']) = ascii ''Ivan''"
    by (simp add: str_eval)
  have a: "[ascii ''ivan''] \<noteq> []" by simp
  have b: "\<forall>k. 1 \<le> k \<and> k < length [ascii ''ivan''] \<longrightarrow>
      \<not> AddressBook_name_exists session_ivan
          (normalize_name (join (ascii '' '') (take k [ascii ''ivan''])))"
    by simp
  have c: "AddressBook_name_exists session_ivan (normalize_name (join (ascii '' '') [ascii ''ivan'']))"
    by (simp add: n) (simp add: session_ivan_value AddressBook_name_exists_def str_eval)
  obtain k where k: "k < length session_ivan"
    "remove_note [ascii ''ivan''] session_ivan =
       (if notes' (snd (session_ivan ! k)) = []
        then (MSG_NO_NOTES (normalize_name (join (ascii '' '') [ascii ''ivan''])), session_ivan)
        else (MSG_ALL_NOTES_REMOVED (normalize_name (join (ascii '' '') [ascii ''ivan''])),
              session_ivan[k := (fst (session_ivan ! k), (snd (session_ivan ! k))\<lparr>notes' := []\<rparr>)]))"
    using remove_note_name_only [OF a b c] by blast
  have n': "normalize_name (ascii ''ivan'') = ascii ''Ivan''"
    by (simp add: str_eval)
  from k(1) have "k = 0" by (simp add: session_ivan_value)
  with k(2) show ?thesis by (simp add: n n') (simp add: session_ivan_value)
qed

text \<open>
  C10 (as the spec states it) fails when a shorter run of the tokens names another
  contact: with the contacts Ivan Petrov and Ivan, the tokens \<open>ivan petrov\<close> are read
  as the contact Ivan and the note text \<open>petrov\<close>, and the notes of Ivan Petrov stay.
\<close>

theorem remove_note_name_only_counterexample:
  "AddressBook_name_exists session_two (normalize_name (join (ascii '' '') [ascii ''ivan'', ascii ''petrov'']))
   \<and> map_option notes' (AddressBook_find session_two (ascii ''Ivan Petrov''))
       = Some [\<lparr>text' = ascii ''hello'', tags = {}\<rparr>]
   \<and> remove_note [ascii ''ivan'', ascii ''petrov''] session_two = (MSG_NOTE_REMOVED, session_two)"
  by (simp add: session_two_value cmd_eval str_eval MSG_NOTE_NOT_FOUND_def)

section \<open>Resolving the name of a contact\<close>



section \<open>Editing a phone and a note\<close>

text \<open>
  C2. \<open>edit_phone\<close> does not look for the new number among the phones of the record
  itself, as \<open>add_phone\<close> does, and \<open>edit_note\<close> does not look for the new text among
  the other notes, as \<open>add_note\<close> does: each leaves the record with two equal entries.
\<close>

theorem edit_leaves_duplicates:
  "change_contact [ascii ''ivan'', ascii ''0501234567'', ascii ''0661234567''] session_phones
     = (MSG_PHONE_UPDATED,
        [(ascii ''Ivan'',
          \<lparr>name = ascii ''Ivan'', phones = [ascii ''0661234567'', ascii ''0661234567''],
           birthday = None, address = None, email = None, notes' = []\<rparr>)])
   \<and> \<not> distinct [ascii ''0661234567'', ascii ''0661234567'']
   \<and> distinct (notes' record_two_notes)
   \<and> Record_edit_note record_two_notes (ascii ''a'') (ascii ''b'')
     = Inr (MSG_NOTE_EDITED,
         record_two_notes\<lparr>notes' := [\<lparr>text' = ascii ''b'', tags = {}\<rparr>, \<lparr>text' = ascii ''b'', tags = {}\<rparr>]\<rparr>)"
  by (simp add: session_phones_value record_two_notes_def cmd_eval str_eval)


section \<open>Phones across records\<close>































section \<open>Birthdays\<close>

lemmas date_eval = strptime_def parse_day_def parse_month_def parse_year_def decimal_value_def
  isdecimal_cp_def ascii_digit_def date_init_def replace_year_def days_in_month_def is_leap_def
  days_before_year_def days_before_month_def toordinal_def weekday_def date_less_def date_le_def
  next_day_def strftime_def split_sep_def ascii_def

lemma strptime_leap_day:
  "strptime (ascii ''29.02.2000'') = Some \<lparr>year = 2000, month = 2, day = 29\<rparr>"
  by (simp add: date_eval)

text \<open>
  C9. A record whose birthday parses to 29 February is left out when the year of today
  is no leap year: \<open>replace\<close> raises \<open>ValueError\<close>, which the loop catches. The list is
  the one the book gives without the record, and nothing is raised.
\<close>

theorem leap_day_birthday_omitted:
  assumes "birthday r = Some bs" and "strptime bs = Some b"
    and "month b = 2" and "day b = 29" and "\<not> is_leap (year today)"
  shows "upcoming_entry today end_date r = []
     \<and> AddressBook_get_upcoming_birthdays today days (book1 @ (key, r) # book2)
         = AddressBook_get_upcoming_birthdays today days (book1 @ book2)"
proof -
  have "replace_year b (year today) = None"
    using assms(3,4,5) by (simp add: replace_year_def date_init_def days_in_month_def)
  then have e: "\<And>e. upcoming_entry today e r = []"
    using assms(1,2) by (simp add: upcoming_entry_def)
  then show ?thesis by (simp add: AddressBook_get_upcoming_birthdays_def)
qed

theorem leap_day_birthday_omitted_witness:
  "birthday record_leap_day = Some (ascii ''29.02.2000'')
   \<and> strptime (ascii ''29.02.2000'') = Some \<lparr>year = 2000, month = 2, day = 29\<rparr>
   \<and> \<not> is_leap 2025
   \<and> AddressBook_get_upcoming_birthdays \<lparr>year = 2025, month = 2, day = 26\<rparr> 7
        [(ascii ''Lena'', record_leap_day)] = []"
proof -
  have a: "birthday record_leap_day = Some (ascii ''29.02.2000'')"
    by (simp add: record_leap_day_def)
  have c: "month \<lparr>year = 2000, month = 2, day = 29\<rparr> = 2" by simp
  have d: "day \<lparr>year = 2000, month = 2, day = 29\<rparr> = 29" by simp
  have e: "\<not> is_leap (year \<lparr>year = 2025, month = 2, day = 26\<rparr>)"
    by (simp add: is_leap_def)
  from leap_day_birthday_omitted [OF a strptime_leap_day c d e,
      of "add_days \<lparr>year = 2025, month = 2, day = 26\<rparr> 7" 7 "[]" "ascii ''Lena''" "[]"]
  have "AddressBook_get_upcoming_birthdays \<lparr>year = 2025, month = 2, day = 26\<rparr> 7
      ([] @ (ascii ''Lena'', record_leap_day) # [])
      = AddressBook_get_upcoming_birthdays \<lparr>year = 2025, month = 2, day = 26\<rparr> 7 ([] @ [])"
    by blast
  then show ?thesis
    using a strptime_leap_day e by (simp add: AddressBook_get_upcoming_birthdays_def)
qed


section \<open>Ordinals of dates\<close>

lemma days_before_year_Suc:
  "days_before_year (Suc (Suc z)) =
     days_before_year (Suc z) + 365 + (if is_leap (Suc z) then 1 else 0)"
proof -
  define A where "A = z div 4"
  define B where "B = z div 100"
  define C where "C = z div 400"
  define a where "a = (if Suc z mod 4 = 0 then 1 else (0::nat))"
  define b where "b = (if Suc z mod 100 = 0 then 1 else (0::nat))"
  define c where "c = (if Suc z mod 400 = 0 then 1 else (0::nat))"
  have le: "B \<le> A" unfolding A_def B_def by (rule div_le_mono2) simp_all
  have d4: "Suc z div 4 = A + a" by (simp add: div_Suc A_def a_def)
  have d100: "Suc z div 100 = B + b" by (simp add: div_Suc B_def b_def)
  have d400: "Suc z div 400 = C + c" by (simp add: div_Suc C_def c_def)
  have i1: "Suc z mod 100 = 0 \<Longrightarrow> Suc z mod 4 = 0" by presburger
  have i2: "Suc z mod 400 = 0 \<Longrightarrow> Suc z mod 100 = 0" by presburger
  have ba: "b \<le> a" using i1 by (simp add: a_def b_def)
  have cb: "c \<le> b" using i2 by (simp add: b_def c_def)
  have leap: "(if is_leap (Suc z) then 1 else (0::nat)) = a - b + c"
    using i1 i2 by (auto simp: is_leap_def a_def b_def c_def)
  have l: "days_before_year (Suc (Suc z)) = Suc z * 365 + (A + a) - (B + b) + (C + c)"
    by (simp only: days_before_year_def diff_Suc_1 d4 d100 d400)
  have r: "days_before_year (Suc z) = z * 365 + A - B + C"
    by (simp only: days_before_year_def diff_Suc_1 A_def B_def C_def)
  show ?thesis
    unfolding l r leap using le ba cb by simp
qed

lemma days_before_year_next:
  assumes "1 \<le> y"
  shows "days_before_year (Suc y) = days_before_year y + 365 + (if is_leap y then 1 else 0)"
proof -
  obtain z where "y = Suc z" using assms by (cases y) simp_all
  then show ?thesis by (simp only: days_before_year_Suc)
qed

lemma days_before_year_mono:
  "1 \<le> y \<Longrightarrow> y < y' \<Longrightarrow> days_before_year (Suc y) \<le> days_before_year y'"
proof (induction y')
  case 0
  then show ?case by simp
next
  case (Suc y')
  show ?case
  proof (cases "y = y'")
    case True
    then show ?thesis by simp
  next
    case False
    with Suc.prems have lt: "y < y'" by simp
    then have "1 \<le> y'" using Suc.prems(1) by simp
    then have "days_before_year y' \<le> days_before_year (Suc y')"
      by (simp add: days_before_year_next)
    with Suc.IH [OF Suc.prems(1) lt] show ?thesis by simp
  qed
qed

lemma days_before_month_step:
  assumes "1 \<le> m" and "m < 12"
  shows "days_before_month y (Suc m) = days_before_month y m + days_in_month y m"
proof -
  have "m = 1 \<or> m = 2 \<or> m = 3 \<or> m = 4 \<or> m = 5 \<or> m = 6 \<or> m = 7 \<or> m = 8 \<or> m = 9
      \<or> m = 10 \<or> m = 11"
    using assms by arith
  then show ?thesis
    by (elim disjE) (simp_all add: days_before_month_def days_in_month_def)
qed

lemma days_before_month_mono:
  "1 \<le> m \<Longrightarrow> m < m' \<Longrightarrow> m' \<le> 12 \<Longrightarrow>
     days_before_month y m + days_in_month y m \<le> days_before_month y m'"
proof (induction m')
  case 0
  then show ?case by simp
next
  case (Suc m')
  show ?case
  proof (cases "m = m'")
    case True
    with Suc.prems show ?thesis by (simp add: days_before_month_step)
  next
    case False
    with Suc.prems have lt: "m < m'" and le: "m' \<le> 12" by simp_all
    have "1 \<le> m'" "m' < 12" using Suc.prems lt by simp_all
    then have "days_before_month y m' \<le> days_before_month y (Suc m')"
      by (simp add: days_before_month_step)
    with Suc.IH [OF Suc.prems(1) lt le] show ?thesis by simp
  qed
qed

lemma days_before_month_12:
  "days_before_month y 12 = 334 + (if is_leap y then 1 else 0)"
  by (simp add: days_before_month_def)

lemma toordinal_year_end:
  assumes "date_ok a"
  shows "toordinal a \<le> days_before_year (Suc (year a))"
proof -
  have y: "1 \<le> year a" and m: "1 \<le> month a" "month a \<le> 12"
    and d: "day a \<le> days_in_month (year a) (month a)"
    using assms by (simp_all add: date_ok_def)
  have "days_before_month (year a) (month a) + days_in_month (year a) (month a)
      \<le> 365 + (if is_leap (year a) then 1 else 0)"
  proof (cases "month a = 12")
    case True
    then show ?thesis by (simp add: days_before_month_12 days_in_month_def)
  next
    case False
    with m have "month a < 12" by simp
    from days_before_month_mono [OF m(1) this, of "year a"]
    show ?thesis by (simp add: days_before_month_12)
  qed
  with d show ?thesis
    by (simp add: toordinal_def days_before_year_next [OF y])
qed

lemma toordinal_mono:
  assumes "date_ok a" and "date_ok b" and "date_less a b"
  shows "toordinal a < toordinal b"
proof -
  have da: "day a \<le> days_in_month (year a) (month a)" and ma: "1 \<le> month a"
    and ya: "1 \<le> year a"
    using assms(1) by (simp_all add: date_ok_def)
  have db: "1 \<le> day b" and mb: "month b \<le> 12"
    using assms(2) by (simp_all add: date_ok_def)
  from assms(3) consider
      (y) "year a < year b"
    | (m) "year a = year b" "month a < month b"
    | (d) "year a = year b" "month a = month b" "day a < day b"
    by (auto simp: date_less_def)
  then show ?thesis
  proof cases
    case y
    have "toordinal a \<le> days_before_year (Suc (year a))"
      using assms(1) by (rule toordinal_year_end)
    also have "\<dots> \<le> days_before_year (year b)"
      using ya y by (rule days_before_year_mono)
    also have "\<dots> < toordinal b"
      using db by (simp add: toordinal_def)
    finally show ?thesis .
  next
    case m
    have "days_before_month (year a) (month a) + days_in_month (year a) (month a)
        \<le> days_before_month (year a) (month b)"
      using ma m(2) mb by (rule days_before_month_mono)
    with da db m(1) show ?thesis by (simp add: toordinal_def)
  next
    case d
    then show ?thesis by (simp add: toordinal_def)
  qed
qed

lemma date_order_cases:
  "date_less a b \<or> date_less b a \<or> (year a = year b \<and> month a = month b \<and> day a = day b)"
  by (auto simp: date_less_def)

lemma date_less_iff:
  assumes "date_ok a" and "date_ok b"
  shows "date_less a b = (toordinal a < toordinal b)"
proof
  assume "date_less a b"
  with assms show "toordinal a < toordinal b" by (rule toordinal_mono)
next
  assume lt: "toordinal a < toordinal b"
  from date_order_cases [of a b] show "date_less a b"
  proof (elim disjE)
    assume "date_less a b"
    then show ?thesis .
  next
    assume "date_less b a"
    with assms have "toordinal b < toordinal a" by (intro toordinal_mono)
    with lt show ?thesis by simp
  next
    assume "year a = year b \<and> month a = month b \<and> day a = day b"
    then have "toordinal a = toordinal b" by (simp add: toordinal_def)
    with lt show ?thesis by simp
  qed
qed

lemma date_le_iff:
  assumes "date_ok a" and "date_ok b"
  shows "date_le a b = (toordinal a \<le> toordinal b)"
proof
  assume "date_le a b"
  then have "date_less a b \<or> (year a = year b \<and> month a = month b \<and> day a = day b)"
    by (simp add: date_le_def)
  then show "toordinal a \<le> toordinal b"
  proof
    assume "date_less a b"
    with assms have "toordinal a < toordinal b" by (rule toordinal_mono)
    then show ?thesis by simp
  next
    assume "year a = year b \<and> month a = month b \<and> day a = day b"
    then show ?thesis by (simp add: toordinal_def)
  qed
next
  assume le: "toordinal a \<le> toordinal b"
  from date_order_cases [of a b] show "date_le a b"
  proof (elim disjE)
    assume "date_less a b"
    then show ?thesis by (simp add: date_le_def)
  next
    assume "date_less b a"
    with assms have "toordinal b < toordinal a" by (intro toordinal_mono)
    with le show ?thesis by simp
  next
    assume "year a = year b \<and> month a = month b \<and> day a = day b"
    then show ?thesis by (simp add: date_le_def)
  qed
qed

lemma days_in_month_pos: "1 \<le> days_in_month y m"
  by (simp add: days_in_month_def)

lemma next_day_props:
  assumes "date_ok d"
  shows "date_ok (next_day d) \<and> toordinal (next_day d) = Suc (toordinal d)"
proof (cases "day d < days_in_month (year d) (month d)")
  case True
  with assms show ?thesis
    by (simp add: next_day_def date_ok_def toordinal_def)
next
  case last_day: False
  with assms have dd: "day d = days_in_month (year d) (month d)"
    by (simp add: date_ok_def)
  have y: "1 \<le> year d" and m: "1 \<le> month d" "month d \<le> 12"
    using assms by (simp_all add: date_ok_def)
  show ?thesis
  proof (cases "month d < 12")
    case True
    have "days_before_month (year d) (Suc (month d))
        = days_before_month (year d) (month d) + days_in_month (year d) (month d)"
      using m(1) True by (rule days_before_month_step)
    with last_day True y m dd days_in_month_pos [of "year d" "Suc (month d)"] show ?thesis
      by (simp add: next_day_def date_ok_def toordinal_def)
  next
    case False
    with m have m12: "month d = 12" by simp
    then have d31: "day d = 31" using dd by (simp add: days_in_month_def)
    have n: "next_day d = \<lparr>year = year d + 1, month = 1, day = 1\<rparr>"
      using last_day False by (simp add: next_day_def)
    have "toordinal \<lparr>year = year d + 1, month = 1, day = 1\<rparr> = days_before_year (Suc (year d)) + 1"
      by (simp add: toordinal_def days_before_month_def)
    also have "\<dots> = Suc (toordinal d)"
      using m12 d31 by (simp add: toordinal_def days_before_year_next [OF y] days_before_month_12)
    finally have t: "toordinal (next_day d) = Suc (toordinal d)" using n by simp
    have "date_ok \<lparr>year = year d + 1, month = 1, day = 1\<rparr>"
      by (simp add: date_ok_def days_in_month_def)
    with n t show ?thesis by simp
  qed
qed

lemma add_days_props:
  "date_ok d \<Longrightarrow> date_ok (add_days d n) \<and> toordinal (add_days d n) = toordinal d + n"
proof (induction n arbitrary: d)
  case 0
  then show ?case by simp
next
  case (Suc n)
  from next_day_props [OF Suc.prems]
  have "date_ok (next_day d)" and t: "toordinal (next_day d) = Suc (toordinal d)" by simp_all
  from Suc.IH [OF this(1)] t show ?case by simp
qed

lemma date_init_ok:
  "date_init y m d = Some x \<Longrightarrow> date_ok x \<and> year x = y \<and> month x = m \<and> day x = d"
  by (auto simp: date_init_def date_ok_def split: if_splits)

lemma weekday_shift:
  "weekday d = 5 \<or> weekday d = 6 \<Longrightarrow> (toordinal d + spec_shift d + 6) mod 7 = 0"
  unfolding weekday_def spec_shift_def by presburger

section \<open>Upcoming birthdays\<close>

lemma shift_weekend:
  "(if weekday d = 5 then add_days d 2 else if weekday d = 6 then add_days d 1 else d)
     = add_days d (spec_shift d)"
  by (simp add: spec_shift_def)

lemma spec_next_occurrence_ok: "spec_next_occurrence today b = Some d \<Longrightarrow> date_ok d"
  by (auto simp: spec_next_occurrence_def replace_year_def
      split: option.splits if_splits dest: date_init_ok)

lemma upcoming_entry_rule:
  assumes "date_ok today"
  shows "upcoming_entry today (add_days today days) r = spec_upcoming today days r"
proof (cases "birthday r")
  case None
  then show ?thesis by (simp add: upcoming_entry_def spec_upcoming_def)
next
  case bs: (Some bs)
  show ?thesis
  proof (cases "strptime bs")
    case None
    with bs show ?thesis by (simp add: upcoming_entry_def spec_upcoming_def)
  next
    case b: (Some b)
    have end_ok: "date_ok (add_days today days)"
      and end_ord: "toordinal (add_days today days) = toordinal today + days"
      using add_days_props [OF assms, of days] by simp_all
    show ?thesis
    proof (cases "replace_year b (year today)")
      case None
      then show ?thesis
        using bs b by (simp add: upcoming_entry_def spec_upcoming_def spec_next_occurrence_def)
    next
      case (Some t)
      then have t: "date_ok t" "month t = month b" "day t = day b"
        by (auto simp: replace_year_def dest: date_init_ok)
      have lt: "date_less t today = (toordinal t < toordinal today)"
        using t(1) assms by (rule date_less_iff)
      have rep: "replace_year t (year today + 1) = replace_year b (year today + 1)"
        using t(2,3) by (simp add: replace_year_def)
      have occ: "(if date_less t today then replace_year t (year today + 1) else Some t)
          = spec_next_occurrence today b"
        using Some lt rep by (simp add: spec_next_occurrence_def)
      show ?thesis
      proof (cases "spec_next_occurrence today b")
        case None
        with Some occ show ?thesis
          using bs b by (simp add: upcoming_entry_def spec_upcoming_def)
      next
        case n: (Some d)
        then have d: "date_ok d" by (rule spec_next_occurrence_ok)
        have a: "date_le today d = (toordinal today \<le> toordinal d)"
          using assms d by (rule date_le_iff)
        have e: "date_le d (add_days today days) = (toordinal d \<le> toordinal today + days)"
          using date_le_iff [OF d end_ok] end_ord by simp
        show ?thesis
          using bs b Some occ n a e shift_weekend [of d]
          by (simp add: upcoming_entry_def spec_upcoming_def)
      qed
    qed
  qed
qed

lemma shifted_date:
  assumes "date_ok d"
  shows "date_ok (add_days d (spec_shift d))
     \<and> toordinal (add_days d (spec_shift d)) = toordinal d + spec_shift d
     \<and> (weekday d = 5 \<or> weekday d = 6 \<longrightarrow> weekday (add_days d (spec_shift d)) = 0)"
proof -
  have t: "date_ok (add_days d (spec_shift d))"
      "toordinal (add_days d (spec_shift d)) = toordinal d + spec_shift d"
    using assms by (simp_all add: add_days_props)
  have "weekday d = 5 \<or> weekday d = 6 \<longrightarrow> weekday (add_days d (spec_shift d)) = 0"
  proof
    assume "weekday d = 5 \<or> weekday d = 6"
    then have "(toordinal d + spec_shift d + 6) mod 7 = 0" by (rule weekday_shift)
    with t(2) show "weekday (add_days d (spec_shift d)) = 0" by (simp add: weekday_def)
  qed
  with t show ?thesis by blast
qed

text \<open>
  C5. With the horizon of 7 days, the list is what the records add one after the other,
  and a record whose birthday parses adds an entry exactly when the next occurrence of
  the birthday (the year of today put in, and the year after when that date is before
  today) exists and is at least today and at most 7 days after today, counted on the
  date before any shift. The entry reports the date that the weekend rule gives: the
  date 2 days after a Saturday, 1 day after a Sunday, which is a Monday, and the date
  itself otherwise. Today is a date before the year 9999, so that no date runs over the
  last one.
\<close>

theorem upcoming_birthdays_rule:
  assumes "date_ok today" and "year today < 9999"
  shows "AddressBook_get_upcoming_birthdays today 7 book
       = concat (map (\<lambda>(key, r). spec_upcoming today 7 r) book)
     \<and> (\<forall>r bs b. birthday r = Some bs \<and> strptime bs = Some b \<longrightarrow>
          upcoming_entry today (add_days today 7) r =
            (case spec_next_occurrence today b of
               None \<Rightarrow> []
             | Some d \<Rightarrow>
                 if toordinal today \<le> toordinal d \<and> toordinal d \<le> toordinal today + 7
                 then [name r @ ascii '': '' @ strftime (add_days d (spec_shift d))]
                 else []))
     \<and> (\<forall>b d. spec_next_occurrence today b = Some d \<longrightarrow>
           toordinal (add_days d (spec_shift d)) = toordinal d + spec_shift d
           \<and> (weekday d = 5 \<or> weekday d = 6 \<longrightarrow> weekday (add_days d (spec_shift d)) = 0))"
proof -
  have first: "AddressBook_get_upcoming_birthdays today 7 book
       = concat (map (\<lambda>(key, r). spec_upcoming today 7 r) book)"
    using upcoming_entry_rule [OF assms(1), of 7]
    by (simp add: AddressBook_get_upcoming_birthdays_def)
  have second: "\<forall>r bs b. birthday r = Some bs \<and> strptime bs = Some b \<longrightarrow>
          upcoming_entry today (add_days today 7) r =
            (case spec_next_occurrence today b of
               None \<Rightarrow> []
             | Some d \<Rightarrow>
                 if toordinal today \<le> toordinal d \<and> toordinal d \<le> toordinal today + 7
                 then [name r @ ascii '': '' @ strftime (add_days d (spec_shift d))]
                 else [])"
    using upcoming_entry_rule [OF assms(1), of 7] by (simp add: spec_upcoming_def)
  have third: "\<forall>b d. spec_next_occurrence today b = Some d \<longrightarrow>
           toordinal (add_days d (spec_shift d)) = toordinal d + spec_shift d
           \<and> (weekday d = 5 \<or> weekday d = 6 \<longrightarrow> weekday (add_days d (spec_shift d)) = 0)"
    using spec_next_occurrence_ok shifted_date by blast
  from first second third show ?thesis by blast
qed

text \<open>
  The instance: on Saturday 10 May 2025, of a birthday on 17 May, which is the Saturday
  a week later, a record without a birthday and a birthday on 18 June, the list has the
  first one, on Monday 19 May.
\<close>

theorem upcoming_birthdays_rule_witness:
  "date_ok \<lparr>year = 2025, month = 5, day = 10\<rparr>
   \<and> weekday \<lparr>year = 2025, month = 5, day = 17\<rparr> = 5
   \<and> weekday \<lparr>year = 2025, month = 5, day = 19\<rparr> = 0
   \<and> toordinal \<lparr>year = 2025, month = 5, day = 17\<rparr>
       = toordinal \<lparr>year = 2025, month = 5, day = 10\<rparr> + 7
   \<and> AddressBook_get_upcoming_birthdays \<lparr>year = 2025, month = 5, day = 10\<rparr> 7
        [(ascii ''Ivan'', record_may), (ascii ''Olga'', record_no_birthday),
         (ascii ''Anna'', record_june)]
       = [ascii ''Ivan: 19.05.2025'']"
proof -
  let ?today = "\<lparr>year = 2025, month = 5, day = 10\<rparr>"
  let ?d = "\<lparr>year = 2025, month = 5, day = 17\<rparr>"
  have ok: "date_ok ?today" by (simp add: date_ok_def days_in_month_def)
  have y: "year ?today < 9999" by simp
  have wd: "weekday ?d = 5" by (simp add: date_eval)
  have wm: "weekday \<lparr>year = 2025, month = 5, day = 19\<rparr> = 0" by (simp add: date_eval)
  have ords: "toordinal ?d = toordinal ?today + 7" by (simp add: date_eval)
  have sp1: "strptime (ascii ''17.05.1990'') = Some \<lparr>year = 1990, month = 5, day = 17\<rparr>"
    by (simp add: date_eval)
  have sp2: "strptime (ascii ''18.06.1985'') = Some \<lparr>year = 1985, month = 6, day = 18\<rparr>"
    by (simp add: date_eval)
  have occ1: "spec_next_occurrence ?today \<lparr>year = 1990, month = 5, day = 17\<rparr> = Some ?d"
    by (simp add: spec_next_occurrence_def date_eval)
  have occ2: "spec_next_occurrence ?today \<lparr>year = 1985, month = 6, day = 18\<rparr>
      = Some \<lparr>year = 2025, month = 6, day = 18\<rparr>"
    by (simp add: spec_next_occurrence_def date_eval)
  have sh: "add_days ?d (spec_shift ?d) = \<lparr>year = 2025, month = 5, day = 19\<rparr>"
    by (simp add: spec_shift_def wd numeral_2_eq_2 next_day_def days_in_month_def)
  have fmt: "strftime \<lparr>year = 2025, month = 5, day = 19\<rparr> = ascii ''19.05.2025''"
    by (simp add: strftime_def decimal.simps ascii_def)
  have far: "\<not> toordinal \<lparr>year = 2025, month = 6, day = 18\<rparr> \<le> toordinal ?today + 7"
    by (simp add: date_eval)
  have e1: "spec_upcoming ?today 7 record_may = [ascii ''Ivan: 19.05.2025'']"
    using ords by (simp add: spec_upcoming_def record_may_def sp1 occ1 sh fmt) (simp add: ascii_def)
  have e2: "spec_upcoming ?today 7 record_no_birthday = []"
    by (simp add: spec_upcoming_def record_no_birthday_def)
  have e3: "spec_upcoming ?today 7 record_june = []"
    using far by (simp add: spec_upcoming_def record_june_def sp2 occ2)
  from upcoming_birthdays_rule [OF ok y]
  have "AddressBook_get_upcoming_birthdays ?today 7
        [(ascii ''Ivan'', record_may), (ascii ''Olga'', record_no_birthday),
         (ascii ''Anna'', record_june)]
      = concat (map (\<lambda>(key, r). spec_upcoming ?today 7 r)
          [(ascii ''Ivan'', record_may), (ascii ''Olga'', record_no_birthday),
           (ascii ''Anna'', record_june)])"
    by blast
  then have "AddressBook_get_upcoming_birthdays ?today 7
        [(ascii ''Ivan'', record_may), (ascii ''Olga'', record_no_birthday),
         (ascii ''Anna'', record_june)]
      = [ascii ''Ivan: 19.05.2025'']"
    by (simp add: e1 e2 e3)
  with ok wd wm ords show ?thesis by blast
qed

end
